theory Spec2Isabelle
  imports
    Complex_Main
    "HOL-Library.Sublist"
    "HOL-Library.Char_ord"
    "HOL-Library.List_Lexorder"
    "HOL-Library.Option_ord"
    "HOL-Library.Multiset"
begin

section \<open>Python values and strings\<close>

text \<open>
  The development embeds the transaction-intent pipeline of the Firefly assistant:
  \<^verbatim>\<open>intent_filter.py\<close>, \<^verbatim>\<open>context_loader.py\<close>, \<^verbatim>\<open>firefly_sync.py\<close> and the submitter of
  \<^verbatim>\<open>main.py\<close> and \<^verbatim>\<open>final_prompt.py\<close>.

  A Python \<^verbatim>\<open>str\<close> is a \<^typ>\<open>string\<close>. The text handled here is taken to be ASCII:
  \<^verbatim>\<open>str.strip\<close> removes the ASCII whitespace characters and \<^verbatim>\<open>str.lower\<close> maps
  \<^verbatim>\<open>A..Z\<close> to \<^verbatim>\<open>a..z\<close>; Python's Unicode tables for other code points are not
  reproduced. An exception is a value of \<open>py_error\<close>, and a computation that may raise
  returns \<open>py_error + 'a\<close>.
\<close>

datatype py_error =
  KeyError | IndexError | TypeError | ValueError | AttributeError | OverflowError | InterfaceError

definition ebind :: "py_error + 'a \<Rightarrow> ('a \<Rightarrow> py_error + 'b) \<Rightarrow> py_error + 'b" where
  "ebind m f = (case m of Inl e \<Rightarrow> Inl e | Inr x \<Rightarrow> f x)"

definition is_space :: "char \<Rightarrow> bool" where
  "is_space c = (c \<in> {CHR 0x09, CHR 0x0A, CHR 0x0B, CHR 0x0C, CHR 0x0D,
                        CHR 0x1C, CHR 0x1D, CHR 0x1E, CHR 0x1F, CHR '' ''})"

definition lstrip :: "string \<Rightarrow> string" where
  "lstrip s = dropWhile is_space s"

definition rstrip :: "string \<Rightarrow> string" where
  "rstrip s = rev (dropWhile is_space (rev s))"

definition strip :: "string \<Rightarrow> string" where
  "strip s = rstrip (lstrip s)"

definition lower_char :: "char \<Rightarrow> char" where
  "lower_char c =
     (case map_of (zip ''ABCDEFGHIJKLMNOPQRSTUVWXYZ'' ''abcdefghijklmnopqrstuvwxyz'') c of
        Some d \<Rightarrow> d
      | None \<Rightarrow> c)"

definition lower :: "string \<Rightarrow> string" where
  "lower s = map lower_char s"

text \<open>\<^verbatim>\<open>sub in s\<close> on strings: \<open>sub\<close> occurs in \<open>s\<close> as a contiguous block.\<close>

fun contains :: "string \<Rightarrow> string \<Rightarrow> bool" where
  "contains sub [] = (sub = [])"
| "contains sub (c # cs) = (prefix sub (c # cs) \<or> contains sub cs)"

text \<open>
  \<^verbatim>\<open>s.split(sep)\<close>: the occurrences of \<open>sep\<close> are found from the left, without overlap, and
  the pieces between them are returned. Python raises \<^verbatim>\<open>ValueError\<close> on an empty separator.
  \<open>py_split_go\<close> carries the piece read so far, reversed.
\<close>

function py_split_go :: "string \<Rightarrow> string \<Rightarrow> string \<Rightarrow> string list" where
  "py_split_go sep acc [] = [rev acc]"
| "py_split_go sep acc (c # cs) =
     (if sep \<noteq> [] \<and> prefix sep (c # cs)
      then rev acc # py_split_go sep [] (drop (length sep) (c # cs))
      else py_split_go sep (c # acc) cs)"
  by pat_completeness auto
termination
  by (relation "measure (\<lambda>(sep, acc, s). length s)") (auto simp: neq_Nil_conv)

definition py_split :: "string \<Rightarrow> string \<Rightarrow> py_error + string list" where
  "py_split sep s = (if sep = [] then Inl ValueError else Inr (py_split_go sep [] s))"

text \<open>\<^verbatim>\<open>sep.join(xs)\<close>.\<close>

fun join :: "string \<Rightarrow> string list \<Rightarrow> string" where
  "join sep [] = []"
| "join sep [x] = x"
| "join sep (x # y # ys) = x @ sep @ join sep (y # ys)"

text \<open>\<^verbatim>\<open>str(n)\<close> for an integer: its decimal numeral.\<close>

fun str_nat :: "nat \<Rightarrow> string" where
  "str_nat n =
     (if n < 10 then [''0123456789'' ! n]
      else str_nat (n div 10) @ [''0123456789'' ! (n mod 10)])"

declare str_nat.simps [simp del]

definition str_int :: "int \<Rightarrow> string" where
  "str_int i = (if i < 0 then CHR ''-'' # str_nat (nat (- i)) else str_nat (nat i))"

section \<open>Explicit tags in the user input (\<^verbatim>\<open>intent_filter.extract_tags_from_input\<close>)\<close>

text \<open>
  \<^verbatim>\<open>
  def extract_tags_from_input(user_input):
      if "tags:" in user_input:
          parts = user_input.split("tags:")
          main_input = parts[0].strip()
          tags_part = parts[1].strip()
          tags = [tag.strip().lower() for tag in tags_part.split(",") if tag.strip()]
          return main_input, tags
      return user_input, []
  \<close>
  \<^verbatim>\<open>parts[0]\<close> and \<^verbatim>\<open>parts[1]\<close> raise \<^verbatim>\<open>IndexError\<close> when the list is too short.
\<close>

definition extract_tags_from_input :: "string \<Rightarrow> py_error + (string \<times> string list)" where
  "extract_tags_from_input user_input =
     (if contains ''tags:'' user_input then
        ebind (py_split ''tags:'' user_input) (\<lambda>parts.
          case parts of
            p0 # p1 # _ \<Rightarrow>
              (let main_input = strip p0;
                   tags_part = strip p1
               in ebind (py_split '','' tags_part) (\<lambda>pieces.
                    Inr (main_input, [lower (strip tag). tag \<leftarrow> pieces, strip tag \<noteq> []])))
          | _ \<Rightarrow> Inl IndexError)
      else Inr (user_input, []))"

section \<open>JSON values and the Python operations on them\<close>

text \<open>
  The value \<^verbatim>\<open>json.loads\<close> returns. A Python \<^verbatim>\<open>float\<close> is modelled by the rational number it
  denotes (NaN and the infinities are left out); a \<^verbatim>\<open>dict\<close> is an association list with
  distinct keys, read with \<open>map_of\<close>.
\<close>

datatype json =
    JNull
  | JBool bool
  | JInt int
  | JFloat rat
  | JStr string
  | JList "json list"
  | JObj "(string \<times> json) list"

text \<open>Truth value: \<^verbatim>\<open>if x:\<close>, \<^verbatim>\<open>not x\<close>, \<^verbatim>\<open>x or y\<close>.\<close>

fun truthy :: "json \<Rightarrow> bool" where
  "truthy JNull = False"
| "truthy (JBool b) = b"
| "truthy (JInt i) = (i \<noteq> 0)"
| "truthy (JFloat r) = (r \<noteq> 0)"
| "truthy (JStr s) = (s \<noteq> [])"
| "truthy (JList xs) = (xs \<noteq> [])"
| "truthy (JObj kvs) = (kvs \<noteq> [])"

text \<open>\<^verbatim>\<open>"k" in x\<close>: a key of a dict, an element of a list, a substring of a string.\<close>

fun py_in :: "string \<Rightarrow> json \<Rightarrow> py_error + bool" where
  "py_in k (JObj kvs) = Inr (k \<in> fst ` set kvs)"
| "py_in k (JList xs) = Inr (JStr k \<in> set xs)"
| "py_in k (JStr s) = Inr (contains k s)"
| "py_in k _ = Inl TypeError"

text \<open>\<^verbatim>\<open>x["k"]\<close>.\<close>

fun py_getitem :: "json \<Rightarrow> string \<Rightarrow> py_error + json" where
  "py_getitem (JObj kvs) k = (case map_of kvs k of None \<Rightarrow> Inl KeyError | Some v \<Rightarrow> Inr v)"
| "py_getitem _ k = Inl TypeError"

text \<open>\<^verbatim>\<open>x[0]\<close>.\<close>

fun py_getitem0 :: "json \<Rightarrow> py_error + json" where
  "py_getitem0 (JList []) = Inl IndexError"
| "py_getitem0 (JList (x # xs)) = Inr x"
| "py_getitem0 (JStr []) = Inl IndexError"
| "py_getitem0 (JStr (c # cs)) = Inr (JStr [c])"
| "py_getitem0 (JObj kvs) = Inl KeyError"
| "py_getitem0 _ = Inl TypeError"

text \<open>\<^verbatim>\<open>d.get(k, default)\<close> on a dict, and on any value (\<^verbatim>\<open>AttributeError\<close> unless a dict).\<close>

definition dict_get :: "(string \<times> json) list \<Rightarrow> string \<Rightarrow> json \<Rightarrow> json" where
  "dict_get kvs k d = (case map_of kvs k of None \<Rightarrow> d | Some v \<Rightarrow> v)"

fun py_get :: "json \<Rightarrow> string \<Rightarrow> json \<Rightarrow> py_error + json" where
  "py_get (JObj kvs) k d = Inr (dict_get kvs k d)"
| "py_get _ k d = Inl AttributeError"

text \<open>\<^verbatim>\<open>for item in x\<close>: the elements of a list, the characters of a string, the keys of a dict.\<close>

fun py_iter :: "json \<Rightarrow> py_error + json list" where
  "py_iter (JList xs) = Inr xs"
| "py_iter (JStr s) = Inr (map (\<lambda>c. JStr [c]) s)"
| "py_iter (JObj kvs) = Inr (map (\<lambda>kv. JStr (fst kv)) kvs)"
| "py_iter _ = Inl TypeError"

text \<open>\<^verbatim>\<open>isinstance(x, str)\<close>, and \<^verbatim>\<open>sep.join(x)\<close> on a value: every element must be a string.\<close>

fun is_str :: "json \<Rightarrow> bool" where
  "is_str (JStr s) = True"
| "is_str _ = False"

fun str_of :: "json \<Rightarrow> string" where
  "str_of (JStr s) = s"
| "str_of _ = []"

definition py_join :: "string \<Rightarrow> json \<Rightarrow> py_error + string" where
  "py_join sep v =
     ebind (py_iter v) (\<lambda>xs.
       if list_all is_str xs then Inr (join sep (map str_of xs)) else Inl TypeError)"

text \<open>
  A \<^verbatim>\<open>set\<close> holds hashable values and identifies equal ones; \<^verbatim>\<open>True == 1 == 1.0\<close> in Python.
  \<open>py_set\<close> returns the elements a set built from the list keeps, the first of each class
  of equal values. The iteration order of a Python set is not specified, so the model
  reads the result as a set only.
\<close>

fun hashable :: "json \<Rightarrow> bool" where
  "hashable (JList xs) = False"
| "hashable (JObj kvs) = False"
| "hashable _ = True"

fun py_num :: "json \<Rightarrow> rat option" where
  "py_num (JBool b) = Some (if b then 1 else 0)"
| "py_num (JInt i) = Some (of_int i)"
| "py_num (JFloat r) = Some r"
| "py_num _ = None"

definition py_eq :: "json \<Rightarrow> json \<Rightarrow> bool" where
  "py_eq a b =
     (case (py_num a, py_num b) of
        (Some x, Some y) \<Rightarrow> x = y
      | (None, None) \<Rightarrow> a = b
      | _ \<Rightarrow> False)"

fun py_set_go :: "json list \<Rightarrow> json list \<Rightarrow> py_error + json list" where
  "py_set_go acc [] = Inr acc"
| "py_set_go acc (x # xs) =
     (if \<not> hashable x then Inl TypeError
      else if list_ex (py_eq x) acc then py_set_go acc xs
      else py_set_go (acc @ [x]) xs)"

definition py_set :: "json list \<Rightarrow> py_error + json set" where
  "py_set xs = ebind (py_set_go [] xs) (\<lambda>ys. Inr (set ys))"

text \<open>
  A Python \<^verbatim>\<open>dict\<close> with keys of either type (\<^verbatim>\<open>"5" != 5\<close>). \<open>dict_set\<close> is
  \<^verbatim>\<open>d[k] = v\<close>: a new key goes last, a known key keeps its place.
\<close>

datatype pykey = IntKey int | StrKey string

fun dict_set :: "'k \<Rightarrow> 'v \<Rightarrow> ('k \<times> 'v) list \<Rightarrow> ('k \<times> 'v) list" where
  "dict_set k v [] = [(k, v)]"
| "dict_set k v ((k', v') # kvs) =
     (if k = k' then (k, v) # kvs else (k', v') # dict_set k v kvs)"

section \<open>The collaborators outside the repository\<close>

text \<open>
  What the code calls and does not define is a parameter of the model: the ledger's HTTP
  interface behind \<^verbatim>\<open>curl\<close>, \<^verbatim>\<open>json.loads\<close>, Python's \<^verbatim>\<open>int()\<close> and \<^verbatim>\<open>float()\<close>, the
  formatting of floats and containers, the sentence-embedding model, NumPy's
  \<^verbatim>\<open>frombuffer\<close>, scikit-learn's \<^verbatim>\<open>cosine_similarity\<close>, the chat-completion call and the
  clock. The theorems hold for every choice of them.

  So is the order in which the database engine hands the rows of a group to an aggregate:
  \<^verbatim>\<open>GROUP_CONCAT\<close> without \<^verbatim>\<open>ORDER BY\<close> concatenates in an order the query does not fix.
  \<open>group_order\<close> takes the names of the group's rows in the order of their insertion and
  returns them in the order the engine visits them.
\<close>

record context_info =
  previous_description :: "string option"
  typical_amount :: string
  common_source :: "string option"
  common_destination :: "string option"
  common_category :: "string option"
  common_tags :: "string option list"

text \<open>
  The prompt is a fixed template; the collaborator is given the four values interpolated
  into it. \<open>p_similar_context\<close> is \<open>None\<close> where the template receives the empty string.
\<close>

record prompt =
  p_context_snippet :: string
  p_user_input :: string
  p_similar_context :: "context_info option"
  p_user_tags :: "string list"

text \<open>The transaction of \<^verbatim>\<open>main.post_transaction\<close>'s payload; an absent key is \<open>None\<close>.\<close>

record transaction_payload =
  tp_type :: json
  tp_date :: string
  tp_amount :: string
  tp_description :: json
  tp_currency_code :: json
  tp_category_name :: json
  tp_source_id :: "int option"
  tp_destination_id :: "int option"
  tp_bill_id :: "int option"
  tp_tags :: "json set option"

text \<open>The transaction of \<^verbatim>\<open>final_prompt.process\<close>'s payload.\<close>

record final_payload =
  fp_type :: json
  fp_amount :: json
  fp_description :: json
  fp_source_id :: json
  fp_destination_id :: json
  fp_currency_code :: string
  fp_date :: string
  fp_category_name :: json
  fp_bill_id :: json
  fp_tags :: json

datatype payload = Transactions transaction_payload | FinalTransactions final_payload

record curl_cmd =
  c_method :: string
  c_url :: string
  c_payload :: "payload option"

record externals =
  firefly_api_url :: string
  run_curl :: "curl_cmd \<Rightarrow> int \<times> string"
  json_loads :: "string \<Rightarrow> json option"
  py_int :: "json \<Rightarrow> py_error + int"
  py_float :: "json \<Rightarrow> py_error + rat"
  float_str :: "rat \<Rightarrow> string"
  repr_container :: "json \<Rightarrow> string"
  real_to_text :: "rat \<Rightarrow> string"
  group_order :: "string option list \<Rightarrow> string option list"
  encode :: "string \<Rightarrow> rat list"
  tobytes :: "rat list \<Rightarrow> string"
  frombuffer :: "string \<Rightarrow> py_error + rat list"
  cosine_similarity :: "rat list \<Rightarrow> rat list \<Rightarrow> py_error + rat"
  chat_completion :: "prompt \<Rightarrow> string option"
  today_isoformat :: string

text \<open>\<^verbatim>\<open>str(x)\<close>, also what an f-string writes for \<open>x\<close>.\<close>

fun py_str :: "externals \<Rightarrow> json \<Rightarrow> string" where
  "py_str ext JNull = ''None''"
| "py_str ext (JBool b) = (if b then ''True'' else ''False'')"
| "py_str ext (JInt i) = str_int i"
| "py_str ext (JFloat r) = float_str ext r"
| "py_str ext (JStr s) = s"
| "py_str ext (JList xs) = repr_container ext (JList xs)"
| "py_str ext (JObj kvs) = repr_container ext (JObj kvs)"

section \<open>The Reference Store (\<^verbatim>\<open>firefly_sync.init_db\<close>)\<close>

text \<open>
  One list of rows per table, in rowid order. A table with \<^verbatim>\<open>id INTEGER PRIMARY KEY\<close> is a
  list of (id, row) pairs sorted by id; \<^verbatim>\<open>transactions_tags\<close> has an \<^verbatim>\<open>AUTOINCREMENT\<close> id
  and no other key, so it is the list of its (transaction_id, name) rows in insertion
  order. A \<^verbatim>\<open>TEXT\<close> column holds \<open>Some\<close> text or \<open>None\<close> for \<^verbatim>\<open>NULL\<close>.
\<close>

record account_row =
  a_name :: "string option"
  a_type :: "string option"
  a_currency :: "string option"
  a_last_updated :: "string option"

record category_row =
  c_name :: "string option"
  c_last_updated :: "string option"

record bill_row =
  b_name :: "string option"
  b_amount_min :: rat
  b_amount_max :: rat
  b_last_updated :: "string option"

record transaction_row =
  t_description :: "string option"
  t_amount :: rat
  t_created_at :: "string option"
  t_source_id :: "int option"
  t_destination_id :: "int option"
  t_category_id :: "int option"
  t_type :: "string option"
  t_source_name :: "string option"
  t_destination_name :: "string option"
  t_category_name :: "string option"
  t_last_updated :: "string option"

record store =
  accounts :: "(int \<times> account_row) list"
  categories :: "(int \<times> category_row) list"
  bills :: "(int \<times> bill_row) list"
  transactions :: "(int \<times> transaction_row) list"
  transactions_tags :: "(int \<times> string option) list"
  transaction_embeddings :: "(int \<times> string) list"

text \<open>
  \<^verbatim>\<open>INSERT OR REPLACE\<close> on a table keyed by its integer primary key: the row with the same
  key, if any, is replaced; the rows stay in key order.
\<close>

fun upsert :: "int \<Rightarrow> 'r \<Rightarrow> (int \<times> 'r) list \<Rightarrow> (int \<times> 'r) list" where
  "upsert k r [] = [(k, r)]"
| "upsert k r ((k', r') # rows) =
     (if k < k' then (k, r) # (k', r') # rows
      else if k = k' then (k, r) # rows
      else (k', r') # upsert k r rows)"

text \<open>The primary-key constraint: keys strictly increasing, hence one row per id.\<close>

definition keyed :: "(int \<times> 'r) list \<Rightarrow> bool" where
  "keyed rows = sorted_wrt (<) (map fst rows)"

definition wf_store :: "store \<Rightarrow> bool" where
  "wf_store s = (keyed (accounts s) \<and> keyed (categories s) \<and> keyed (bills s) \<and>
                 keyed (transactions s) \<and> keyed (transaction_embeddings s))"

definition empty_store :: store where
  "empty_store = \<lparr>accounts = [], categories = [], bills = [], transactions = [],
                   transactions_tags = [], transaction_embeddings = []\<rparr>"

section \<open>The Context Builder (\<^verbatim>\<open>context_loader.py\<close>)\<close>

text \<open>
  \<^verbatim>\<open>ORDER BY name\<close> is a stable sort of the rows on the name, \<^verbatim>\<open>NULL\<close> first and text by
  its bytes. Python's \<^verbatim>\<open>if r[0]\<close> keeps a column that is neither \<^verbatim>\<open>NULL\<close> nor empty.
\<close>

text \<open>
  \<^verbatim>\<open>
  def load_accounts() -> Dict[str, str]:
      # Load asset accounts only
      cur.execute("SELECT id, name FROM accounts WHERE type IN ('asset') ORDER BY name")
      rows = cur.fetchall()
      account_map = {}
      for (acc_id, acc_name) in rows:
          account_map[str(acc_id)] = acc_name
      return account_map
  \<close>
\<close>

definition load_accounts :: "store \<Rightarrow> (pykey \<times> string option) list" where
  "load_accounts s =
     (let rows = sort_key snd [(acc_id, a_name r). (acc_id, r) \<leftarrow> accounts s, a_type r = Some ''asset'']
      in foldl (\<lambda>account_map (acc_id, acc_name). dict_set (StrKey (str_int acc_id)) acc_name account_map)
           [] rows)"

text \<open>
  \<^verbatim>\<open>
  def load_categories() -> List[str]:
      cur.execute("SELECT name FROM categories ORDER BY name")
      rows = cur.fetchall()
      categories = [r[0] for r in rows if r[0]]
      return categories
  \<close>
\<close>

definition load_categories :: "store \<Rightarrow> string list" where
  "load_categories s =
     (let rows = sort [c_name r. (cat_id, r) \<leftarrow> categories s]
      in [c. Some c \<leftarrow> rows, c \<noteq> []])"

text \<open>
  \<^verbatim>\<open>
  def load_tags() -> List[str]:
      """Return a simple list of all unique tags from the transactions_tags table."""
      cur.execute("SELECT DISTINCT name FROM transactions_tags ORDER BY name")
      rows = cur.fetchall()
      tags = [r[0] for r in rows if r[0]]
      return tags
  \<close>
\<close>

definition load_tags :: "store \<Rightarrow> string list" where
  "load_tags s =
     (let rows = sort (remdups [name. (tid, name) \<leftarrow> transactions_tags s])
      in [t. Some t \<leftarrow> rows, t \<noteq> []])"

text \<open>
  \<^verbatim>\<open>
  def load_bills() -> Dict[int, Dict]:
      cur.execute("SELECT id, name FROM bills ORDER BY name")
      rows = cur.fetchall()
      bills_map = {}
      for (bill_id, name) in rows:
          bills_map[bill_id] = {"name": name}
      return bills_map
  \<close>
\<close>

definition load_bills :: "store \<Rightarrow> (pykey \<times> string option) list" where
  "load_bills s =
     (let rows = sort_key snd [(bill_id, b_name r). (bill_id, r) \<leftarrow> bills s]
      in foldl (\<lambda>bills_map (bill_id, name). dict_set (IntKey bill_id) name bills_map) [] rows)"

text \<open>An f-string writes \<^verbatim>\<open>None\<close> for a \<^verbatim>\<open>NULL\<close> column and the digits of an integer key.\<close>

definition fmt_text :: "string option \<Rightarrow> string" where
  "fmt_text v = (case v of None \<Rightarrow> ''None'' | Some s \<Rightarrow> s)"

fun fmt_key :: "pykey \<Rightarrow> string" where
  "fmt_key (IntKey i) = str_int i"
| "fmt_key (StrKey s) = s"

text \<open>The arrow U+2192 of the source text, in UTF-8.\<close>

definition arrow :: string where
  "arrow = [CHR 0xE2, CHR 0x86, CHR 0x92]"

text \<open>
  \<^verbatim>\<open>
  def build_prompt_context() -> str:
      account_map = load_accounts(); categories = load_categories()
      tags = load_tags(); bills = load_bills()
      accounts_section = "## KNOWN ACCOUNTS:\n"
      if account_map:
          for acc_id, name in account_map.items():
              accounts_section += f'  - "{name}" -> {acc_id}\n'
      else:
          accounts_section += "  (No accounts found.)\n"
      categories_section = "## KNOWN CATEGORIES:\n"
      if categories:
          for cat in categories:
              categories_section += f"  - {cat}\n"
      else:
          categories_section += "  (No categories found.)\n"
      tags_section = "## KNOWN TAGS:\n"
      if tags:
          for tag in tags:
              tags_section += f"  - {tag}\n"
      else:
          tags_section += "  (No tags found.)\n"
      bills_section = "## KNOWN BILLS:\n"
      if bills:
          for bill_id, details in bills.items():
              bills_section += f'  - "{details["name"]}" -> {bill_id}\n'
      else:
          bills_section += "  (No bills found.)\n"
      return f"{accounts_section}\n{categories_section}\n{tags_section}\n{bills_section}"
  \<close>
  (the source writes the arrow U+2192 where this text has \<^verbatim>\<open>->\<close>).
\<close>

definition pair_line :: "pykey \<times> string option \<Rightarrow> string" where
  "pair_line kv = ''  - '' @ [CHR 0x22] @ fmt_text (snd kv) @ [CHR 0x22] @ '' '' @ arrow @ '' ''
                    @ fmt_key (fst kv) @ [CHR 0x0A]"

definition item_line :: "string \<Rightarrow> string" where
  "item_line x = ''  - '' @ x @ [CHR 0x0A]"

definition build_prompt_context :: "store \<Rightarrow> string" where
  "build_prompt_context s =
     (let account_map = load_accounts s;
          categories = load_categories s;
          tags = load_tags s;
          bills = load_bills s;
          accounts_section = ''## KNOWN ACCOUNTS:'' @ [CHR 0x0A];
          accounts_section =
            (if account_map \<noteq> []
             then foldl (\<lambda>sec kv. sec @ pair_line kv) accounts_section account_map
             else accounts_section @ ''  (No accounts found.)'' @ [CHR 0x0A]);
          categories_section = ''## KNOWN CATEGORIES:'' @ [CHR 0x0A];
          categories_section =
            (if categories \<noteq> []
             then foldl (\<lambda>sec cat. sec @ item_line cat) categories_section categories
             else categories_section @ ''  (No categories found.)'' @ [CHR 0x0A]);
          tags_section = ''## KNOWN TAGS:'' @ [CHR 0x0A];
          tags_section =
            (if tags \<noteq> []
             then foldl (\<lambda>sec tag. sec @ item_line tag) tags_section tags
             else tags_section @ ''  (No tags found.)'' @ [CHR 0x0A]);
          bills_section = ''## KNOWN BILLS:'' @ [CHR 0x0A];
          bills_section =
            (if bills \<noteq> []
             then foldl (\<lambda>sec kv. sec @ pair_line kv) bills_section bills
             else bills_section @ ''  (No bills found.)'' @ [CHR 0x0A])
      in accounts_section @ [CHR 0x0A] @ categories_section @ [CHR 0x0A] @ tags_section
           @ [CHR 0x0A] @ bills_section)"

section \<open>The Embedding Index (\<^verbatim>\<open>intent_filter.find_similar_transactions\<close>)\<close>

text \<open>
  \<^verbatim>\<open>list.sort(key=..., reverse=True)\<close>: a stable sort into descending order of the key,
  elements with equal keys keeping their order. \<open>insort_desc\<close> puts an element before
  the first one whose key is not larger.
\<close>

fun insort_desc :: "('a \<Rightarrow> 'k::linorder) \<Rightarrow> 'a \<Rightarrow> 'a list \<Rightarrow> 'a list" where
  "insort_desc key x [] = [x]"
| "insort_desc key x (y # ys) =
     (if key y \<le> key x then x # y # ys else y # insort_desc key x ys)"

definition sort_desc :: "('a \<Rightarrow> 'k::linorder) \<Rightarrow> 'a list \<Rightarrow> 'a list" where
  "sort_desc key xs = foldr (insort_desc key) xs []"

text \<open>
  \<^verbatim>\<open>
  def find_similar_transactions(desc, top_k=3):
      embedding = model.encode(desc)
      cur.execute("SELECT transaction_id, embedding FROM transaction_embeddings")
      rows = cur.fetchall()
      similarities = []
      for tid, emb in rows:
          try:
              emb_array = np.frombuffer(emb, dtype=np.float32)
              similarity = cosine_similarity([embedding], [emb_array])[0][0]
              similarities.append((tid, similarity))
          except Exception as e:
              logger.error(f"Error processing embedding for transaction {tid}: {e}")
      similarities.sort(key=lambda x: x[1], reverse=True)
      return similarities[:top_k]
  \<close>
  The function returns the pairs and, second, what it logged: the transaction id and the
  exception of every skipped row. \<open>top_k\<close> is a count.
\<close>

definition similarity_of :: "externals \<Rightarrow> rat list \<Rightarrow> string \<Rightarrow> py_error + rat" where
  "similarity_of ext embedding emb =
     ebind (frombuffer ext emb) (\<lambda>emb_array. cosine_similarity ext embedding emb_array)"

definition similarity_step ::
  "externals \<Rightarrow> rat list \<Rightarrow> (int \<times> rat) list \<times> (int \<times> py_error) list \<Rightarrow> int \<times> string
     \<Rightarrow> (int \<times> rat) list \<times> (int \<times> py_error) list" where
  "similarity_step ext embedding st row =
     (case similarity_of ext embedding (snd row) of
        Inr similarity \<Rightarrow> (fst st @ [(fst row, similarity)], snd st)
      | Inl e \<Rightarrow> (fst st, snd st @ [(fst row, e)]))"

definition find_similar_transactions ::
  "externals \<Rightarrow> store \<Rightarrow> string \<Rightarrow> nat \<Rightarrow> (int \<times> rat) list \<times> (int \<times> py_error) list" where
  "find_similar_transactions ext s desc top_k =
     (let embedding = encode ext desc;
          rows = transaction_embeddings s;
          st = foldl (similarity_step ext embedding) ([], []) rows
      in (take top_k (sort_desc snd (fst st)), snd st))"

section \<open>The Intent Resolver (\<^verbatim>\<open>intent_filter.determine_intent\<close>)\<close>

record proposal =
  pr_type :: json
  pr_amount :: string
  pr_description :: json
  pr_source_id :: json
  pr_destination_id :: json
  pr_source_name :: "string option"
  pr_destination_name :: "string option"
  pr_currency_code :: json
  pr_date :: string
  pr_category_name :: json
  pr_tags :: "json set"
  pr_bill_name :: "string option"
  pr_bill_id :: json
  pr_missing_info :: "json list"

text \<open>
  The exemplar: the grounding context read for the most similar transaction.
  \<^verbatim>\<open>
      context_info = {"previous_description": "", "typical_amount": "", "common_source": "",
                      "common_destination": "", "common_category": "", "common_tags": []}
      if similar_tids:
          best_tid = similar_tids[0][0]
          cur.execute("""SELECT t.description, t.amount, t.source_name, t.destination_name,
                         t.category_name FROM transactions t WHERE t.id = ?""", (best_tid,))
          row = cur.fetchone()
          cur.execute("SELECT name FROM transactions_tags WHERE transaction_id = ?", (best_tid,))
          tag_rows = cur.fetchall()
          if row:
              context_info["previous_description"] = row[0]
              context_info["typical_amount"] = str(row[1])
              context_info["common_source"] = row[2]
              context_info["common_destination"] = row[3]
              context_info["common_category"] = row[4]
          if tag_rows:
              context_info["common_tags"] = [t[0] for t in tag_rows]
  \<close>
\<close>

definition tag_rows_of :: "store \<Rightarrow> int \<Rightarrow> string option list" where
  "tag_rows_of s best_tid = [name. (tid, name) \<leftarrow> transactions_tags s, tid = best_tid]"

definition exemplar_context :: "externals \<Rightarrow> store \<Rightarrow> (int \<times> rat) list \<Rightarrow> context_info" where
  "exemplar_context ext s similar_tids =
     (let context_info = \<lparr>previous_description = Some [], typical_amount = [],
                           common_source = Some [], common_destination = Some [],
                           common_category = Some [], common_tags = []\<rparr>
      in case similar_tids of
           [] \<Rightarrow> context_info
         | best # _ \<Rightarrow>
             (let best_tid = fst best;
                  row = map_of (transactions s) best_tid;
                  tag_rows = tag_rows_of s best_tid;
                  context_info =
                    (case row of
                       None \<Rightarrow> context_info
                     | Some t \<Rightarrow>
                         context_info\<lparr>previous_description := t_description t,
                                       typical_amount := float_str ext (t_amount t),
                                       common_source := t_source_name t,
                                       common_destination := t_destination_name t,
                                       common_category := t_category_name t\<rparr>)
              in if tag_rows \<noteq> [] then context_info\<lparr>common_tags := tag_rows\<rparr>
                 else context_info))"

text \<open>
  Step 5 of the resolver, on the parsed response \<open>data\<close>:
  \<^verbatim>\<open>
      missing_info = data.get("missing_info", [])
      if not isinstance(missing_info, list):
          missing_info = []
      # Always use today's date
      date_str = datetime.date.today().isoformat()
      account_map = load_accounts()
      bill_map = load_bills()
      bill_id = str(data.get("bill_id", "unknown")).lower()
      source_id = str(data.get("source_id", "unknown")).lower()
      destination_id = str(data.get("destination_id", "unknown")).lower()
      result = {
          "type": data.get("type", "withdrawal"),
          "amount": str(data.get("amount", "0")),
          "description": data.get("description", user_input),
          "source_id": data.get("source_id", "unknown"),
          "destination_id": data.get("destination_id", "unknown"),
          "source_name": account_map.get(source_id, ""),
          "destination_name": account_map.get(destination_id, ""),
          "currency_code": data.get("currency_code", "USD"),
          "date": date_str,
          "category_name": data.get("category_name", ""),
          "tags": list(set(user_tags + data.get("tags", []))),
          "bill_name": bill_map.get(bill_id, {}).get("name", ""),
          "bill_id": data.get("bill_id", "unknown"),
          "missing_info": missing_info
      }
      return result
  \<close>
  \<^verbatim>\<open>data.get\<close> raises \<^verbatim>\<open>AttributeError\<close> unless \<open>data\<close> is a dict; \<^verbatim>\<open>user_tags + x\<close> raises
  \<^verbatim>\<open>TypeError\<close> unless \<open>x\<close> is a list, and \<^verbatim>\<open>set\<close> does on an unhashable element.
\<close>

definition map_get :: "(pykey \<times> string option) list \<Rightarrow> pykey \<Rightarrow> string option" where
  "map_get m k = (case map_of m k of None \<Rightarrow> Some [] | Some v \<Rightarrow> v)"

definition assemble_proposal ::
  "externals \<Rightarrow> store \<Rightarrow> string \<Rightarrow> string list \<Rightarrow> json \<Rightarrow> py_error + proposal option" where
  "assemble_proposal ext s user_input user_tags data =
     (case data of
        JObj d \<Rightarrow>
          (let missing_info =
                 (case dict_get d ''missing_info'' (JList []) of JList xs \<Rightarrow> xs | _ \<Rightarrow> []);
               date_str = today_isoformat ext;
               account_map = load_accounts s;
               bill_map = load_bills s;
               bill_id = lower (py_str ext (dict_get d ''bill_id'' (JStr ''unknown'')));
               source_id = lower (py_str ext (dict_get d ''source_id'' (JStr ''unknown'')));
               destination_id = lower (py_str ext (dict_get d ''destination_id'' (JStr ''unknown'')))
           in case dict_get d ''tags'' (JList []) of
                JList model_tags \<Rightarrow>
                  ebind (py_set (map JStr user_tags @ model_tags)) (\<lambda>tags.
                    Inr (Some
                      \<lparr>pr_type = dict_get d ''type'' (JStr ''withdrawal''),
                       pr_amount = py_str ext (dict_get d ''amount'' (JStr ''0'')),
                       pr_description = dict_get d ''description'' (JStr user_input),
                       pr_source_id = dict_get d ''source_id'' (JStr ''unknown''),
                       pr_destination_id = dict_get d ''destination_id'' (JStr ''unknown''),
                       pr_source_name = map_get account_map (StrKey source_id),
                       pr_destination_name = map_get account_map (StrKey destination_id),
                       pr_currency_code = dict_get d ''currency_code'' (JStr ''USD''),
                       pr_date = date_str,
                       pr_category_name = dict_get d ''category_name'' (JStr []),
                       pr_tags = tags,
                       pr_bill_name = map_get bill_map (StrKey bill_id),
                       pr_bill_id = dict_get d ''bill_id'' (JStr ''unknown''),
                       pr_missing_info = missing_info\<rparr>))
              | _ \<Rightarrow> Inl TypeError)
      | _ \<Rightarrow> Inl AttributeError)"

text \<open>
  \<^verbatim>\<open>
  def determine_intent(user_input):
      user_input, user_tags = extract_tags_from_input(user_input)
      context_snippet = build_prompt_context()
      similar_tids = find_similar_transactions(user_input, top_k=1)
      ...                                   # the exemplar, above
      similar_context = ""
      if similar_tids:
          similar_context = f"""... {context_info[...]} ..."""
      prompt = f"""... {context_snippet} ... {user_input} ... {similar_context} ... {user_tags} ..."""
      try:
          response = client.chat.completions.create(model="gpt-4o-mini",
              messages=[{"role": "user", "content": prompt}], temperature=0.4)
          response_str = response.choices[0].message.content.strip()
      except Exception as e:
          logger.error(f"OpenAI error: {e}")
          return None
      try:
          data = json.loads(response_str)
      except json.JSONDecodeError:
          logger.error("LLM did not return valid JSON.")
          return None
      ...                                   # step 5, above
  \<close>
  The result is \<open>Inl e\<close> when the call raises \<open>e\<close>, \<open>Inr None\<close> when it returns \<^verbatim>\<open>None\<close> and
  \<open>Inr (Some p)\<close> when it returns the proposal \<open>p\<close>. The second component lists the
  prompts sent to the extraction model, in order.
\<close>

definition determine_intent ::
  "externals \<Rightarrow> store \<Rightarrow> string \<Rightarrow> (py_error + proposal option) \<times> prompt list" where
  "determine_intent ext s raw_input =
     (case extract_tags_from_input raw_input of
        Inl e \<Rightarrow> (Inl e, [])
      | Inr (user_input, user_tags) \<Rightarrow>
          (let context_snippet = build_prompt_context s;
               similar_tids = fst (find_similar_transactions ext s user_input 1);
               context_info = exemplar_context ext s similar_tids;
               prompt = \<lparr>p_context_snippet = context_snippet,
                         p_user_input = user_input,
                         p_similar_context = (if similar_tids \<noteq> [] then Some context_info else None),
                         p_user_tags = user_tags\<rparr>
           in case chat_completion ext prompt of
                None \<Rightarrow> (Inr None, [prompt])
              | Some content \<Rightarrow>
                  (case json_loads ext (strip content) of
                     None \<Rightarrow> (Inr None, [prompt])
                   | Some data \<Rightarrow>
                       (assemble_proposal ext s user_input user_tags data, [prompt]))))"

section \<open>The ledger's HTTP interface (\<^verbatim>\<open>firefly_sync.call_firefly_api_curl\<close>)\<close>

text \<open>
  \<^verbatim>\<open>
  def call_firefly_api_curl(endpoint, method="GET", data=None):
      url = f"{FIREFLY_API_URL.rstrip('/')}/{endpoint.lstrip('/')}"
      curl_cmd = ["curl", "-X", method, url, "-H", f"Authorization: Bearer {token}", ...]
      if method == "POST" and data:
          payload = json.dumps(data)
          curl_cmd += ["-H", "Content-Type: application/json", "-d", payload]
      result = subprocess.run(curl_cmd, capture_output=True, text=True)
      if result.returncode != 0:
          return None
      try:
          return json.loads(result.stdout)
      except json.JSONDecodeError:
          return None
  \<close>
  The command is the method, the URL and the payload; the token is a constant of the
  configuration. \<open>run_curl\<close> returns the exit code and the standard output.
\<close>

definition rstrip_chars :: "string \<Rightarrow> string \<Rightarrow> string" where
  "rstrip_chars cs s = rev (dropWhile (\<lambda>c. c \<in> set cs) (rev s))"

definition lstrip_chars :: "string \<Rightarrow> string \<Rightarrow> string" where
  "lstrip_chars cs s = dropWhile (\<lambda>c. c \<in> set cs) s"

definition curl_command :: "externals \<Rightarrow> string \<Rightarrow> string \<Rightarrow> payload option \<Rightarrow> curl_cmd" where
  "curl_command ext endpoint method data =
     \<lparr>c_method = method,
      c_url = rstrip_chars ''/'' (firefly_api_url ext) @ ''/'' @ lstrip_chars ''/'' endpoint,
      c_payload = (if method = ''POST'' then data else None)\<rparr>"

definition call_firefly_api_curl ::
  "externals \<Rightarrow> string \<Rightarrow> string \<Rightarrow> payload option \<Rightarrow> json option" where
  "call_firefly_api_curl ext endpoint method data =
     (let result = run_curl ext (curl_command ext endpoint method data)
      in if fst result \<noteq> 0 then None else json_loads ext (snd result))"

section \<open>The Transaction Submitter (\<^verbatim>\<open>main.post_transaction\<close>, \<^verbatim>\<open>final_prompt.process\<close>)\<close>

text \<open>
  \<^verbatim>\<open>
  async def post_transaction(proposal: dict):
      endpoint = "/transactions"
      transaction = {"type": proposal["type"], "date": proposal["date"],
                     "amount": str(proposal["amount"]), "description": proposal["description"],
                     "currency_code": proposal["currency_code"],
                     "category_name": proposal["category_name"]}
      if proposal.get("source_id") != "unknown":
          transaction["source_id"] = int(proposal["source_id"])
      if proposal.get("destination_id") != "unknown":
          transaction["destination_id"] = int(proposal["destination_id"])
      if proposal.get("bill_id") != "unknown":
          transaction["bill_id"] = int(proposal["bill_id"])
      if proposal.get("tags"):
          transaction["tags"] = proposal["tags"]
      payload = {"transactions": [transaction]}
      response = call_firefly_api_curl(endpoint, method="POST", data=payload)
      if response and "errors" not in response:
          transaction_data = response.get("data", {}).get("attributes", {}).get("transactions", [])
          if transaction_data:
              transaction_details = transaction_data[0]
              success_message = (f"... Transaction successfully inserted:\n"
                                 f"Type: {transaction_details['type']}\n" ...)
              return success_message
          return True
      elif response and "errors" in response:
          return response
      else:
          return False
  \<close>
  The proposal is the one the resolver returns. The result is the exception, or what the
  function returns: the message (\<open>Posted\<close>), \<^verbatim>\<open>True\<close>, the response with its errors
  (\<open>Rejected\<close>) or \<^verbatim>\<open>False\<close>; the second component lists the requests sent, in order.
\<close>

datatype post_result = Posted string | PostedTrue | Rejected json | PostedFalse

text \<open>The check mark U+2705 that opens the message, in UTF-8.\<close>

definition check_mark :: string where
  "check_mark = [CHR 0xE2, CHR 0x9C, CHR 0x85]"

definition optional_id :: "externals \<Rightarrow> json \<Rightarrow> py_error + int option" where
  "optional_id ext v =
     (if v \<noteq> JStr ''unknown'' then ebind (py_int ext v) (\<lambda>i. Inr (Some i)) else Inr None)"

definition transaction_of :: "externals \<Rightarrow> proposal \<Rightarrow> py_error + transaction_payload" where
  "transaction_of ext proposal =
     (let transaction =
            \<lparr>tp_type = pr_type proposal,
             tp_date = pr_date proposal,
             tp_amount = pr_amount proposal,
             tp_description = pr_description proposal,
             tp_currency_code = pr_currency_code proposal,
             tp_category_name = pr_category_name proposal,
             tp_source_id = None, tp_destination_id = None, tp_bill_id = None,
             tp_tags = None\<rparr>
      in ebind (optional_id ext (pr_source_id proposal)) (\<lambda>source_id.
         ebind (optional_id ext (pr_destination_id proposal)) (\<lambda>destination_id.
         ebind (optional_id ext (pr_bill_id proposal)) (\<lambda>bill_id.
           Inr (transaction
                  \<lparr>tp_source_id := source_id,
                   tp_destination_id := destination_id,
                   tp_bill_id := bill_id,
                   tp_tags := (if pr_tags proposal \<noteq> {} then Some (pr_tags proposal)
                               else None)\<rparr>)))))"

definition success_message :: "externals \<Rightarrow> json \<Rightarrow> py_error + string" where
  "success_message ext transaction_details =
     ebind (py_getitem transaction_details ''type'') (\<lambda>ty.
     ebind (py_getitem transaction_details ''amount'') (\<lambda>amount.
     ebind (py_getitem transaction_details ''currency_code'') (\<lambda>currency_code.
     ebind (py_getitem transaction_details ''description'') (\<lambda>description.
     ebind (py_getitem transaction_details ''source_name'') (\<lambda>source_name.
     ebind (py_getitem transaction_details ''source_id'') (\<lambda>source_id.
     ebind (py_getitem transaction_details ''destination_name'') (\<lambda>destination_name.
     ebind (py_getitem transaction_details ''destination_id'') (\<lambda>destination_id.
     ebind (py_getitem transaction_details ''tags'') (\<lambda>tags.
     ebind (py_join '', '' tags) (\<lambda>tags_text.
     ebind (py_getitem transaction_details ''category_name'') (\<lambda>category_name.
     ebind (py_getitem transaction_details ''date'') (\<lambda>date.
       Inr (check_mark @ '' Transaction successfully inserted:'' @ [CHR 0x0A]
            @ ''Type: '' @ py_str ext ty @ [CHR 0x0A]
            @ ''Amount: '' @ py_str ext amount @ '' '' @ py_str ext currency_code @ [CHR 0x0A]
            @ ''Description: '' @ py_str ext description @ [CHR 0x0A]
            @ ''Source: '' @ py_str ext source_name
                @ '' (ID: '' @ py_str ext source_id @ '')'' @ [CHR 0x0A]
            @ ''Destination: '' @ py_str ext destination_name
                @ '' (ID: '' @ py_str ext destination_id @ '')'' @ [CHR 0x0A]
            @ ''Tags: '' @ tags_text @ [CHR 0x0A]
            @ ''Category: '' @ py_str ext category_name @ [CHR 0x0A]
            @ ''Date: '' @ py_str ext date @ [CHR 0x0A])))))))))))))"

definition post_transaction ::
  "externals \<Rightarrow> proposal \<Rightarrow> (py_error + post_result) \<times> curl_cmd list" where
  "post_transaction ext proposal =
     (let endpoint = ''/transactions'' in
      case transaction_of ext proposal of
        Inl e \<Rightarrow> (Inl e, [])
      | Inr transaction \<Rightarrow>
          (let payload = Transactions transaction;
               response = call_firefly_api_curl ext endpoint ''POST'' (Some payload);
               sent = [curl_command ext endpoint ''POST'' (Some payload)]
           in case response of
                None \<Rightarrow> (Inr PostedFalse, sent)
              | Some response \<Rightarrow>
                  if \<not> truthy response then (Inr PostedFalse, sent)
                  else
                    (ebind (py_in ''errors'' response) (\<lambda>has_errors.
                       if \<not> has_errors then
                         ebind (py_get response ''data'' (JObj [])) (\<lambda>data.
                         ebind (py_get data ''attributes'' (JObj [])) (\<lambda>attributes.
                         ebind (py_get attributes ''transactions'' (JList [])) (\<lambda>transaction_data.
                           if truthy transaction_data then
                             ebind (py_getitem0 transaction_data) (\<lambda>transaction_details.
                             ebind (success_message ext transaction_details) (\<lambda>message.
                               Inr (Posted message)))
                           else Inr PostedTrue)))
                       else Inr (Rejected response)),
                     sent)))"

text \<open>
  \<^verbatim>\<open>
  # final_prompt.py
  def call_firefly_api_curl(endpoint, method="GET", data=None):
      ...
      result = subprocess.run(curl_cmd, capture_output=True, text=True)
      if result.returncode != 0:
          return None
      return json.loads(result.stdout) if result.stdout else None

  def process(proposal):
      payload = {"transactions": [{
          "type": proposal["intent"], "amount": proposal["amount"],
          "description": proposal["description"], "source_id": proposal["source_id"],
          "destination_id": proposal["destination_id"],
          "currency_code": "JPY" if proposal["currency"] == "yen" else "USD",
          "date": datetime.date.today().isoformat(),
          "category_name": proposal.get("category_name", ""),
          "bill_id": proposal["bill_id"], "tags": proposal.get("tags", [])}]}
      response = call_firefly_api_curl("/transactions", "POST", payload)
      return response and "data" in response
  \<close>
  This \<^verbatim>\<open>call_firefly_api_curl\<close> does not catch the \<^verbatim>\<open>JSONDecodeError\<close>, a \<^verbatim>\<open>ValueError\<close>.
  \<^verbatim>\<open>x and y\<close> is \<open>x\<close> when \<open>x\<close> is false, and \<open>y\<close> otherwise.
\<close>

definition call_firefly_api_curl_final ::
  "externals \<Rightarrow> string \<Rightarrow> string \<Rightarrow> payload option \<Rightarrow> py_error + json option" where
  "call_firefly_api_curl_final ext endpoint method data =
     (let result = run_curl ext (curl_command ext endpoint method data)
      in if fst result \<noteq> 0 then Inr None
         else if snd result \<noteq> [] then
           (case json_loads ext (snd result) of
              None \<Rightarrow> Inl ValueError
            | Some v \<Rightarrow> Inr (Some v))
         else Inr None)"

definition process :: "externals \<Rightarrow> json \<Rightarrow> py_error + json" where
  "process ext proposal =
     ebind (py_getitem proposal ''intent'') (\<lambda>intent.
     ebind (py_getitem proposal ''amount'') (\<lambda>amount.
     ebind (py_getitem proposal ''description'') (\<lambda>description.
     ebind (py_getitem proposal ''source_id'') (\<lambda>source_id.
     ebind (py_getitem proposal ''destination_id'') (\<lambda>destination_id.
     ebind (py_getitem proposal ''currency'') (\<lambda>currency.
     ebind (py_get proposal ''category_name'' (JStr [])) (\<lambda>category_name.
     ebind (py_getitem proposal ''bill_id'') (\<lambda>bill_id.
     ebind (py_get proposal ''tags'' (JList [])) (\<lambda>tags.
       let payload = FinalTransactions
             \<lparr>fp_type = intent, fp_amount = amount, fp_description = description,
              fp_source_id = source_id, fp_destination_id = destination_id,
              fp_currency_code = (if currency = JStr ''yen'' then ''JPY'' else ''USD''),
              fp_date = today_isoformat ext,
              fp_category_name = category_name, fp_bill_id = bill_id, fp_tags = tags\<rparr>
       in ebind (call_firefly_api_curl_final ext ''/transactions'' ''POST'' (Some payload))
            (\<lambda>response.
               case response of
                 None \<Rightarrow> Inr JNull
               | Some response \<Rightarrow>
                   if \<not> truthy response then Inr response
                   else ebind (py_in ''data'' response) (\<lambda>has_data. Inr (JBool has_data))))))))))))"

section \<open>The Sync Engine (\<^verbatim>\<open>firefly_sync.py\<close>)\<close>

text \<open>
  Binding a Python value to a statement parameter. An integer must fit 64 bits; a column
  of \<^verbatim>\<open>TEXT\<close> affinity stores a number as its text; a list or a dict cannot be bound.
\<close>

definition bind_int :: "int \<Rightarrow> py_error + int" where
  "bind_int i = (if - (2 ^ 63) \<le> i \<and> i < 2 ^ 63 then Inr i else Inl OverflowError)"

fun bind_text :: "externals \<Rightarrow> json \<Rightarrow> py_error + string option" where
  "bind_text ext JNull = Inr None"
| "bind_text ext (JStr s) = Inr (Some s)"
| "bind_text ext (JInt i) = ebind (bind_int i) (\<lambda>i. Inr (Some (str_int i)))"
| "bind_text ext (JBool b) = Inr (Some (if b then ''1'' else ''0''))"
| "bind_text ext (JFloat r) = Inr (Some (real_to_text ext r))"
| "bind_text ext (JList xs) = Inl InterfaceError"
| "bind_text ext (JObj kvs) = Inl InterfaceError"

text \<open>
  The head of each of the four loops:
  \<^verbatim>\<open>
      endpoint = f"/accounts?type=asset,expense,revenue&page={page}"
      if last_sync_time:
          endpoint += f"&updated_at={last_sync_time}"
      data = call_firefly_api_curl(endpoint)
      if not data or "data" not in data:
          break
      page_data = data["data"]
      if not page_data:
          break
      for item in page_data:
  \<close>
  \<open>fetch_page\<close> returns \<open>Inr None\<close> for \<^verbatim>\<open>break\<close>, the items to loop over, or the exception.
\<close>

definition page_query :: "nat \<Rightarrow> string option \<Rightarrow> string" where
  "page_query page last_sync_time =
     ''page='' @ str_nat page @
       (case last_sync_time of
          None \<Rightarrow> []
        | Some t \<Rightarrow> if t \<noteq> [] then ''&updated_at='' @ t else [])"

definition fetch_page :: "externals \<Rightarrow> string \<Rightarrow> py_error + json list option" where
  "fetch_page ext endpoint =
     (case call_firefly_api_curl ext endpoint ''GET'' None of
        None \<Rightarrow> Inr None
      | Some data \<Rightarrow>
          if \<not> truthy data then Inr None
          else ebind (py_in ''data'' data) (\<lambda>has_data.
            if \<not> has_data then Inr None
            else ebind (py_getitem data ''data'') (\<lambda>page_data.
              if \<not> truthy page_data then Inr None
              else ebind (py_iter page_data) (\<lambda>items. Inr (Some items)))))"

text \<open>
  The body of the loop over the items, with the state it writes. An exception leaves the
  function before \<^verbatim>\<open>conn.commit()\<close>, so the page's writes are lost.
\<close>

fun efold :: "('a \<Rightarrow> 't \<Rightarrow> py_error + 't) \<Rightarrow> 'a list \<Rightarrow> 't \<Rightarrow> py_error + 't" where
  "efold f [] t = Inr t"
| "efold f (x # xs) t = ebind (f x t) (efold f xs)"

datatype 't page_step = Stop | Raise py_error | Commit 't

definition page_step ::
  "externals \<Rightarrow> (json \<Rightarrow> 't \<Rightarrow> py_error + 't) \<Rightarrow> string \<Rightarrow> 't \<Rightarrow> 't page_step" where
  "page_step ext item_fn endpoint tbl =
     (case fetch_page ext endpoint of
        Inl e \<Rightarrow> Raise e
      | Inr None \<Rightarrow> Stop
      | Inr (Some items) \<Rightarrow>
          (case efold item_fn items tbl of Inl e \<Rightarrow> Raise e | Inr tbl' \<Rightarrow> Commit tbl'))"

text \<open>
  \<^verbatim>\<open>while True: ... conn.commit(); page += 1\<close>. The loop ends at the first page that
  breaks or raises; the result is the exception, if any, and the committed table. A ledger
  that never serves such a page keeps the loop running: the result is \<open>None\<close>.
\<close>

partial_function (option) sync_loop ::
  "(nat \<Rightarrow> 't \<Rightarrow> 't page_step) \<Rightarrow> nat \<Rightarrow> 't \<Rightarrow> (py_error option \<times> 't) option" where
  "sync_loop step page tbl =
     (case step page tbl of
        Stop \<Rightarrow> Some (None, tbl)
      | Raise e \<Rightarrow> Some (Some e, tbl)
      | Commit tbl' \<Rightarrow> sync_loop step (Suc page) tbl')"

text \<open>
  \<^verbatim>\<open>
      for item in page_data:
          acc_id = int(item["id"])
          attrs = item["attributes"]
          name = attrs.get("name", "")
          acc_type = attrs.get("type", "")
          currency = attrs.get("currency_code", "")
          last_updated = attrs.get("updated_at", "")
          if acc_type in ["reconciliation", "initial-balance"]:
              continue
          result = cur.execute("""INSERT OR REPLACE INTO accounts
              (id, name, type, currency, last_updated) VALUES (?, ?, ?, ?, ?)""",
              (acc_id, name, acc_type, currency, last_updated))
  \<close>
  \<open>parse_account\<close> is what the body computes before the statement runs: \<open>None\<close> for
  \<^verbatim>\<open>continue\<close>, or the key and the row.
\<close>

definition parse_account :: "externals \<Rightarrow> json \<Rightarrow> py_error + (int \<times> account_row) option" where
  "parse_account ext item =
     ebind (py_getitem item ''id'') (\<lambda>id_val.
     ebind (py_int ext id_val) (\<lambda>acc_id.
     ebind (py_getitem item ''attributes'') (\<lambda>attrs.
     ebind (py_get attrs ''name'' (JStr [])) (\<lambda>name.
     ebind (py_get attrs ''type'' (JStr [])) (\<lambda>acc_type.
     ebind (py_get attrs ''currency_code'' (JStr [])) (\<lambda>currency.
     ebind (py_get attrs ''updated_at'' (JStr [])) (\<lambda>last_updated.
       if acc_type \<in> set [JStr ''reconciliation'', JStr ''initial-balance''] then Inr None
       else
         ebind (bind_int acc_id) (\<lambda>k.
         ebind (bind_text ext name) (\<lambda>n.
         ebind (bind_text ext acc_type) (\<lambda>t.
         ebind (bind_text ext currency) (\<lambda>c.
         ebind (bind_text ext last_updated) (\<lambda>u.
           Inr (Some (k, \<lparr>a_name = n, a_type = t, a_currency = c,
                           a_last_updated = u\<rparr>))))))))))))))"

definition account_item ::
  "externals \<Rightarrow> json \<Rightarrow> (int \<times> account_row) list \<Rightarrow> py_error + (int \<times> account_row) list" where
  "account_item ext item tbl =
     ebind (parse_account ext item) (\<lambda>r.
       Inr (case r of None \<Rightarrow> tbl | Some (k, row) \<Rightarrow> upsert k row tbl))"

definition sync_accounts ::
  "externals \<Rightarrow> string option \<Rightarrow> store \<Rightarrow> (py_error option \<times> store) option" where
  "sync_accounts ext last_sync_time s =
     map_option (\<lambda>r. (fst r, s\<lparr>accounts := snd r\<rparr>))
       (sync_loop
          (\<lambda>page. page_step ext (account_item ext)
             (''/accounts?type=asset,expense,revenue&'' @ page_query page last_sync_time))
          1 (accounts s))"

text \<open>
  \<^verbatim>\<open>
          cat_id = int(item["id"])
          attrs = item["attributes"]
          name = attrs.get("name", "")
          last_updated = attrs.get("updated_at", "")
          result = cur.execute("""INSERT OR REPLACE INTO categories (id, name, last_updated)
              VALUES (?, ?, ?)""", (cat_id, name, last_updated))
  \<close>
\<close>

definition parse_category :: "externals \<Rightarrow> json \<Rightarrow> py_error + (int \<times> category_row)" where
  "parse_category ext item =
     ebind (py_getitem item ''id'') (\<lambda>id_val.
     ebind (py_int ext id_val) (\<lambda>cat_id.
     ebind (py_getitem item ''attributes'') (\<lambda>attrs.
     ebind (py_get attrs ''name'' (JStr [])) (\<lambda>name.
     ebind (py_get attrs ''updated_at'' (JStr [])) (\<lambda>last_updated.
     ebind (bind_int cat_id) (\<lambda>k.
     ebind (bind_text ext name) (\<lambda>n.
     ebind (bind_text ext last_updated) (\<lambda>u.
       Inr (k, \<lparr>c_name = n, c_last_updated = u\<rparr>)))))))))"

definition category_item ::
  "externals \<Rightarrow> json \<Rightarrow> (int \<times> category_row) list \<Rightarrow> py_error + (int \<times> category_row) list" where
  "category_item ext item tbl =
     ebind (parse_category ext item) (\<lambda>r. Inr (upsert (fst r) (snd r) tbl))"

definition sync_categories ::
  "externals \<Rightarrow> string option \<Rightarrow> store \<Rightarrow> (py_error option \<times> store) option" where
  "sync_categories ext last_sync_time s =
     map_option (\<lambda>r. (fst r, s\<lparr>categories := snd r\<rparr>))
       (sync_loop
          (\<lambda>page. page_step ext (category_item ext)
             (''/categories?'' @ page_query page last_sync_time))
          1 (categories s))"

text \<open>
  \<^verbatim>\<open>
          bill_id = int(item["id"])
          attrs = item["attributes"]
          name = attrs.get("name", "")
          amount_min = float(attrs.get("amount_min", 0.0))
          amount_max = float(attrs.get("amount_max", 0.0))
          last_updated = attrs.get("updated_at", "")
          result = cur.execute("""INSERT OR REPLACE INTO bills
              (id, name, amount_min, amount_max, last_updated) VALUES (?, ?, ?, ?, ?)""",
              (bill_id, name, amount_min, amount_max, last_updated))
  \<close>
\<close>

definition parse_bill :: "externals \<Rightarrow> json \<Rightarrow> py_error + (int \<times> bill_row)" where
  "parse_bill ext item =
     ebind (py_getitem item ''id'') (\<lambda>id_val.
     ebind (py_int ext id_val) (\<lambda>bill_id.
     ebind (py_getitem item ''attributes'') (\<lambda>attrs.
     ebind (py_get attrs ''name'' (JStr [])) (\<lambda>name.
     ebind (py_get attrs ''amount_min'' (JFloat 0)) (\<lambda>min_val.
     ebind (py_float ext min_val) (\<lambda>amount_min.
     ebind (py_get attrs ''amount_max'' (JFloat 0)) (\<lambda>max_val.
     ebind (py_float ext max_val) (\<lambda>amount_max.
     ebind (py_get attrs ''updated_at'' (JStr [])) (\<lambda>last_updated.
     ebind (bind_int bill_id) (\<lambda>k.
     ebind (bind_text ext name) (\<lambda>n.
     ebind (bind_text ext last_updated) (\<lambda>u.
       Inr (k, \<lparr>b_name = n, b_amount_min = amount_min, b_amount_max = amount_max,
                 b_last_updated = u\<rparr>)))))))))))))"

definition bill_item ::
  "externals \<Rightarrow> json \<Rightarrow> (int \<times> bill_row) list \<Rightarrow> py_error + (int \<times> bill_row) list" where
  "bill_item ext item tbl =
     ebind (parse_bill ext item) (\<lambda>r. Inr (upsert (fst r) (snd r) tbl))"

definition sync_bills ::
  "externals \<Rightarrow> string option \<Rightarrow> store \<Rightarrow> (py_error option \<times> store) option" where
  "sync_bills ext last_sync_time s =
     map_option (\<lambda>r. (fst r, s\<lparr>bills := snd r\<rparr>))
       (sync_loop
          (\<lambda>page. page_step ext (bill_item ext) (''/bills?'' @ page_query page last_sync_time))
          1 (bills s))"

text \<open>
  \<^verbatim>\<open>
          trans_id = int(item["id"])
          attrs = item["attributes"]
          trans = attrs["transactions"][0]
          description = trans.get("description", "")
          amount = float(trans.get("amount", 0.0))
          created_at = attrs.get("created_at", "")
          source_id = int(trans.get("source_id", 0)) or None
          destination_id = int(trans.get("destination_id", 0)) or None
          cat_val = trans.get("category_id")
          if cat_val is not None:
              category_id = int(cat_val)
          else:
              category_id = None
          trans_type = trans.get("type", "withdrawal")
          source_name = trans.get("source_name", "")
          destination_name = trans.get("destination_name", "")
          category_name = trans.get("category_name", "")
          last_updated = attrs.get("updated_at", "")
          tags = trans.get("tags", []) or []
          result = cur.execute("""INSERT OR REPLACE INTO transactions (id, description, amount,
              created_at, source_id, destination_id, category_id, type, source_name,
              destination_name, category_name, last_updated)
              VALUES (?, ?, ?, ?, ?, ?, ?, ?, ?, ?, ?, ?)""", (...))
          for tag in tags:
              if tag:
                  cur.execute("INSERT INTO transactions_tags (transaction_id, name) VALUES (?, ?)",
                              (trans_id, tag))
  \<close>
  \<open>parse_transaction\<close> gives the key, the row and the names of the tag rows to append.
\<close>

definition int_or_none :: "int \<Rightarrow> int option" where
  "int_or_none i = (if i \<noteq> 0 then Some i else None)"

definition bind_int_opt :: "int option \<Rightarrow> py_error + int option" where
  "bind_int_opt v = (case v of None \<Rightarrow> Inr None | Some i \<Rightarrow> ebind (bind_int i) (\<lambda>k. Inr (Some k)))"

fun bind_tags :: "externals \<Rightarrow> json list \<Rightarrow> py_error + string option list" where
  "bind_tags ext [] = Inr []"
| "bind_tags ext (tag # tags) =
     (if truthy tag
      then ebind (bind_text ext tag) (\<lambda>n. ebind (bind_tags ext tags) (\<lambda>ns. Inr (n # ns)))
      else bind_tags ext tags)"

definition parse_transaction ::
  "externals \<Rightarrow> json \<Rightarrow> py_error + (int \<times> transaction_row \<times> string option list)" where
  "parse_transaction ext item =
     ebind (py_getitem item ''id'') (\<lambda>id_val.
     ebind (py_int ext id_val) (\<lambda>trans_id.
     ebind (py_getitem item ''attributes'') (\<lambda>attrs.
     ebind (py_getitem attrs ''transactions'') (\<lambda>splits.
     ebind (py_getitem0 splits) (\<lambda>trans.
     ebind (py_get trans ''description'' (JStr [])) (\<lambda>description.
     ebind (py_get trans ''amount'' (JFloat 0)) (\<lambda>amount_val.
     ebind (py_float ext amount_val) (\<lambda>amount.
     ebind (py_get attrs ''created_at'' (JStr [])) (\<lambda>created_at.
     ebind (py_get trans ''source_id'' (JInt 0)) (\<lambda>source_val.
     ebind (py_int ext source_val) (\<lambda>source_int.
     ebind (py_get trans ''destination_id'' (JInt 0)) (\<lambda>destination_val.
     ebind (py_int ext destination_val) (\<lambda>destination_int.
     ebind (py_get trans ''category_id'' JNull) (\<lambda>cat_val.
     ebind (if cat_val \<noteq> JNull then ebind (py_int ext cat_val) (\<lambda>i. Inr (Some i))
            else Inr None) (\<lambda>category_id.
     ebind (py_get trans ''type'' (JStr ''withdrawal'')) (\<lambda>trans_type.
     ebind (py_get trans ''source_name'' (JStr [])) (\<lambda>source_name.
     ebind (py_get trans ''destination_name'' (JStr [])) (\<lambda>destination_name.
     ebind (py_get trans ''category_name'' (JStr [])) (\<lambda>category_name.
     ebind (py_get attrs ''updated_at'' (JStr [])) (\<lambda>last_updated.
     ebind (py_get trans ''tags'' (JList [])) (\<lambda>tags_val.
       let source_id = int_or_none source_int;
           destination_id = int_or_none destination_int;
           tags = (if truthy tags_val then tags_val else JList [])
       in
         ebind (bind_int trans_id) (\<lambda>k.
         ebind (bind_text ext description) (\<lambda>d.
         ebind (bind_text ext created_at) (\<lambda>c.
         ebind (bind_int_opt source_id) (\<lambda>sid.
         ebind (bind_int_opt destination_id) (\<lambda>did.
         ebind (bind_int_opt category_id) (\<lambda>cid.
         ebind (bind_text ext trans_type) (\<lambda>ty.
         ebind (bind_text ext source_name) (\<lambda>sn.
         ebind (bind_text ext destination_name) (\<lambda>dn.
         ebind (bind_text ext category_name) (\<lambda>cn.
         ebind (bind_text ext last_updated) (\<lambda>u.
         ebind (py_iter tags) (\<lambda>tag_list.
         ebind (bind_tags ext tag_list) (\<lambda>names.
           Inr (k, \<lparr>t_description = d, t_amount = amount, t_created_at = c,
                     t_source_id = sid, t_destination_id = did, t_category_id = cid,
                     t_type = ty, t_source_name = sn, t_destination_name = dn,
                     t_category_name = cn, t_last_updated = u\<rparr>,
                names)))))))))))))))))))))))))))))))))))"

definition transaction_item ::
  "externals \<Rightarrow> json \<Rightarrow> (int \<times> transaction_row) list \<times> (int \<times> string option) list
     \<Rightarrow> py_error + (int \<times> transaction_row) list \<times> (int \<times> string option) list" where
  "transaction_item ext item tbl =
     ebind (parse_transaction ext item) (\<lambda>r.
       case r of (trans_id, row, names) \<Rightarrow>
         Inr (upsert trans_id row (fst tbl), snd tbl @ map (Pair trans_id) names))"

definition sync_transactions ::
  "externals \<Rightarrow> string option \<Rightarrow> store \<Rightarrow> (py_error option \<times> store) option" where
  "sync_transactions ext last_sync_time s =
     map_option (\<lambda>r. (fst r, s\<lparr>transactions := fst (snd r), transactions_tags := snd (snd r)\<rparr>))
       (sync_loop
          (\<lambda>page. page_step ext (transaction_item ext)
             (''/transactions?'' @ page_query page last_sync_time))
          1 (transactions s, transactions_tags s))"

text \<open>
  The embedding backfill.
  \<^verbatim>\<open>
  def store_transaction_embeddings():
      cur.execute("""
          SELECT t.id, t.description, t.source_name, t.destination_name, t.category_name,
                 GROUP_CONCAT(tt.name, ', ') AS tags, t.amount
          FROM transactions t
          LEFT JOIN transactions_tags tt ON t.id = tt.transaction_id
          WHERE t.id NOT IN (SELECT transaction_id FROM transaction_embeddings)
          GROUP BY t.id, t.description, t.source_name, t.destination_name, t.category_name
      """)
      rows = cur.fetchall()
      for trans_id, desc, src_name, dest_name, cat_name, tags, amount in rows:
          parts = [desc or ""]
          if src_name:
              parts.append(f"source {src_name}")  # Emphasize source
              parts.append(f"from {src_name}")
          if dest_name:
              parts.append(f"destination {dest_name}")  # Emphasize destination
              parts.append(f"to {dest_name}")
          if cat_name:
              parts.append(f"category {cat_name}")
          if tags:
              parts.append(f"tags {tags}")
          if amount:
              parts.append(f"amount {amount}")
          embedding_text = " ".join(parts)
          embedding = model.encode(embedding_text).tobytes()
          result = cur.execute("INSERT OR REPLACE INTO transaction_embeddings
                                (transaction_id, embedding) VALUES (?, ?)", (trans_id, embedding))
      conn.commit()
  \<close>
  \<^verbatim>\<open>GROUP_CONCAT\<close> joins the names that are not \<^verbatim>\<open>NULL\<close> and is \<^verbatim>\<open>NULL\<close> when there is
  none. The query gives the aggregate no order, so the names are joined in the order the
  engine visits the tag rows of the transaction (\<open>group_order\<close>). \<open>text_truthy\<close> is
  \<^verbatim>\<open>if x:\<close> on a text column.
\<close>

definition group_concat :: "string \<Rightarrow> string option list \<Rightarrow> string option" where
  "group_concat sep names =
     (let xs = [n. Some n \<leftarrow> names] in if xs = [] then None else Some (join sep xs))"

definition text_truthy :: "string option \<Rightarrow> bool" where
  "text_truthy v = (case v of None \<Rightarrow> False | Some x \<Rightarrow> x \<noteq> [])"

definition or_empty :: "string option \<Rightarrow> string" where
  "or_empty v = (if text_truthy v then fmt_text v else [])"

definition embedding_text ::
  "externals \<Rightarrow> string option \<Rightarrow> string option \<Rightarrow> string option \<Rightarrow> string option
     \<Rightarrow> string option \<Rightarrow> rat \<Rightarrow> string" where
  "embedding_text ext desc src_name dest_name cat_name tags amount =
     (let parts = [or_empty desc];
          parts = (if text_truthy src_name
                   then (parts @ [''source '' @ fmt_text src_name]) @ [''from '' @ fmt_text src_name]
                   else parts);
          parts = (if text_truthy dest_name
                   then (parts @ [''destination '' @ fmt_text dest_name]) @ [''to '' @ fmt_text dest_name]
                   else parts);
          parts = (if text_truthy cat_name then parts @ [''category '' @ fmt_text cat_name]
                   else parts);
          parts = (if text_truthy tags then parts @ [''tags '' @ fmt_text tags] else parts);
          parts = (if amount \<noteq> 0 then parts @ [''amount '' @ float_str ext amount] else parts)
      in join '' '' parts)"

definition embedding_rows ::
  "externals \<Rightarrow> store \<Rightarrow> (int \<times> transaction_row \<times> string option) list" where
  "embedding_rows ext s =
     [(trans_id, t, group_concat '', '' (group_order ext (tag_rows_of s trans_id))).
        (trans_id, t) \<leftarrow> transactions s,
        trans_id \<notin> set (map fst (transaction_embeddings s))]"

definition row_text :: "externals \<Rightarrow> transaction_row \<Rightarrow> string option \<Rightarrow> string" where
  "row_text ext t tags =
     embedding_text ext (t_description t) (t_source_name t) (t_destination_name t)
       (t_category_name t) tags (t_amount t)"

definition store_transaction_embeddings :: "externals \<Rightarrow> store \<Rightarrow> store" where
  "store_transaction_embeddings ext s =
     s\<lparr>transaction_embeddings :=
         foldl (\<lambda>tbl row.
                  case row of (trans_id, t, tags) \<Rightarrow>
                    upsert trans_id (tobytes ext (encode ext (row_text ext t tags))) tbl)
           (transaction_embeddings s) (embedding_rows ext s)\<rparr>"

text \<open>
  \<^verbatim>\<open>
  def main():
      last_sync_time = "2025-01-01T00:00:00Z"
      init_db()
      sync_accounts(last_sync_time)
      sync_categories(last_sync_time)
      sync_bills(last_sync_time)
      sync_transactions(last_sync_time)
      store_transaction_embeddings()
  \<close>
  \<^verbatim>\<open>init_db\<close> creates the tables that do not exist and changes no row. An exception ends
  the run at the step that raises it.
\<close>

definition main :: "externals \<Rightarrow> store \<Rightarrow> (py_error option \<times> store) option" where
  "main ext s =
     (let last_sync_time = Some ''2025-01-01T00:00:00Z'' in
      case sync_accounts ext last_sync_time s of
        None \<Rightarrow> None
      | Some (Some e, s1) \<Rightarrow> Some (Some e, s1)
      | Some (None, s1) \<Rightarrow>
     (case sync_categories ext last_sync_time s1 of
        None \<Rightarrow> None
      | Some (Some e, s2) \<Rightarrow> Some (Some e, s2)
      | Some (None, s2) \<Rightarrow>
     (case sync_bills ext last_sync_time s2 of
        None \<Rightarrow> None
      | Some (Some e, s3) \<Rightarrow> Some (Some e, s3)
      | Some (None, s3) \<Rightarrow>
     (case sync_transactions ext last_sync_time s3 of
        None \<Rightarrow> None
      | Some (Some e, s4) \<Rightarrow> Some (Some e, s4)
      | Some (None, s4) \<Rightarrow> Some (None, store_transaction_embeddings ext s4)))))"

section \<open>A sync run as a plan of writes\<close>

text \<open>
  Stated apart from the loops, for the proofs about repeated runs. What a page makes the
  loop do depends on the ledger's answer only, not on the table: \<open>page_plan\<close> is the list
  of writes of a page, \<open>Stop\<close> or the exception, and \<open>planned\<close> is the step that applies
  the writes of the plan. \<open>replays\<close> says of a finished loop that it applied a list of
  writes and that the loop applies the same writes to any other table. \<open>upserts\<close> says
  of a write that it keeps a table keyed and overrides it by a fixed map.
\<close>

fun parse_all :: "('a \<Rightarrow> py_error + 'op) \<Rightarrow> 'a list \<Rightarrow> py_error + 'op list" where
  "parse_all parse [] = Inr []"
| "parse_all parse (x # xs) =
     ebind (parse x) (\<lambda>op. ebind (parse_all parse xs) (\<lambda>ops. Inr (op # ops)))"

definition page_plan ::
  "externals \<Rightarrow> (json \<Rightarrow> py_error + 'op) \<Rightarrow> string \<Rightarrow> 'op list page_step" where
  "page_plan ext parse endpoint =
     (case fetch_page ext endpoint of
        Inl e \<Rightarrow> Raise e
      | Inr None \<Rightarrow> Stop
      | Inr (Some items) \<Rightarrow>
          (case parse_all parse items of Inl e \<Rightarrow> Raise e | Inr ops \<Rightarrow> Commit ops))"

definition planned :: "(nat \<Rightarrow> 'op list page_step) \<Rightarrow> ('op \<Rightarrow> 't \<Rightarrow> 't) \<Rightarrow> nat \<Rightarrow> 't \<Rightarrow> 't page_step" where
  "planned plan app page tbl =
     (case plan page of Stop \<Rightarrow> Stop | Raise e \<Rightarrow> Raise e | Commit ops \<Rightarrow> Commit (fold app ops tbl))"

definition replays ::
  "(nat \<Rightarrow> 'op list page_step) \<Rightarrow> ('op \<Rightarrow> 't \<Rightarrow> 't) \<Rightarrow> (nat \<Rightarrow> 't \<Rightarrow> 't page_step) \<Rightarrow> nat \<Rightarrow> 't
     \<Rightarrow> py_error option \<times> 't \<Rightarrow> bool" where
  "replays plan app step page tbl r =
     (step = planned plan app \<longrightarrow>
       (\<exists>ops. snd r = fold app ops tbl \<and>
          (\<forall>tbl2. sync_loop step page tbl2 = Some (fst r, fold app ops tbl2))))"

definition upserts :: "('op \<Rightarrow> (int \<times> 'r) list \<Rightarrow> (int \<times> 'r) list) \<Rightarrow> bool" where
  "upserts app = (\<forall>op. \<exists>g. \<forall>tbl. keyed tbl \<longrightarrow> keyed (app op tbl) \<and> map_of (app op tbl) = map_of tbl ++ g)"

text \<open>
  The write of one transaction item on the pair of the transaction table and the tag
  table, and the tag rows a list of such writes appends.
\<close>

definition tx_app ::
  "int \<times> transaction_row \<times> string option list
     \<Rightarrow> (int \<times> transaction_row) list \<times> (int \<times> string option) list
     \<Rightarrow> (int \<times> transaction_row) list \<times> (int \<times> string option) list" where
  "tx_app r tbl =
     (case r of (trans_id, row, names) \<Rightarrow>
        (upsert trans_id row (fst tbl), snd tbl @ map (Pair trans_id) names))"

definition tag_rows_added :: "(int \<times> transaction_row \<times> string option list) list \<Rightarrow> (int \<times> string option) list" where
  "tag_rows_added ops = concat (map (\<lambda>r. map (Pair (fst r)) (snd (snd r))) ops)"

section \<open>Sample collaborators and inputs\<close>

text \<open>
  Concrete collaborators on which the theorems are evaluated. \<open>sample_ext\<close> is a ledger
  that cannot be reached, an extraction model that answers with the empty JSON object and
  a parser that knows that answer only; the others change single fields of it. Its
  database engine visits the rows of a group in the order of their names, as SQLite does
  when it answers the join of the backfill query from an index on the tag table.
\<close>

definition sample_ext :: externals where
  "sample_ext =
     \<lparr>firefly_api_url = ''https://firefly.example/api/v1/'',
      run_curl = (\<lambda>cmd. (7, [])),
      json_loads = (\<lambda>s. if s = ''{}'' then Some (JObj []) else None),
      py_int = (\<lambda>v. case v of JInt i \<Rightarrow> Inr i | _ \<Rightarrow> Inl ValueError),
      py_float = (\<lambda>v. case v of JFloat r \<Rightarrow> Inr r | JInt i \<Rightarrow> Inr (of_int i) | _ \<Rightarrow> Inl ValueError),
      float_str = (\<lambda>r. ''768.0''),
      repr_container = (\<lambda>v. ''[]''),
      real_to_text = (\<lambda>r. ''768.0''),
      group_order = sort,
      encode = (\<lambda>t. [of_nat (length t)]),
      tobytes = (\<lambda>v. replicate (4 * length v) (CHR ''x'')),
      frombuffer = (\<lambda>b. if b = ''aaaa'' then Inr [1] else if b = ''bbbb'' then Inr [2]
                         else if b = ''cccc'' then Inr [3] else Inl ValueError),
      cosine_similarity = (\<lambda>u v. if length u = length v then Inr (- \<bar>hd u - hd v\<bar>) else Inl ValueError),
      chat_completion = (\<lambda>p. Some '' {} ''),
      today_isoformat = ''2026-11-04''\<rparr>"

text \<open>A model that echoes an old date and adds tags of its own.\<close>

definition dated_response :: json where
  "dated_response = JObj [(''type'', JStr ''withdrawal''), (''amount'', JStr ''768''),
     (''date'', JStr ''2023-10-05''), (''tags'', JList [JStr ''food'', JStr ''rent''])]"

definition dated_ext :: externals where
  "dated_ext = sample_ext\<lparr>chat_completion := (\<lambda>p. Some ''R''),
                           json_loads := (\<lambda>s. if s = ''R'' then Some dated_response else None)\<rparr>"

definition dated_input :: string where
  "dated_input = ''lunch on 2024-01-31 tags:Rent''"

definition dated_prompt :: prompt where
  "dated_prompt =
     \<lparr>p_context_snippet = build_prompt_context empty_store,
      p_user_input = ''lunch on 2024-01-31'',
      p_similar_context = None,
      p_user_tags = [''rent'']\<rparr>"

definition dated_proposal :: proposal where
  "dated_proposal =
     \<lparr>pr_type = JStr ''withdrawal'', pr_amount = ''768'',
      pr_description = JStr ''lunch on 2024-01-31'',
      pr_source_id = JStr ''unknown'', pr_destination_id = JStr ''unknown'',
      pr_source_name = Some [], pr_destination_name = Some [],
      pr_currency_code = JStr ''USD'', pr_date = ''2026-11-04'',
      pr_category_name = JStr [], pr_tags = {JStr ''rent'', JStr ''food''},
      pr_bill_name = Some [], pr_bill_id = JStr ''unknown'', pr_missing_info = []\<rparr>"

text \<open>A model whose answer is not JSON.\<close>

definition garbled_ext :: externals where
  "garbled_ext = sample_ext\<lparr>chat_completion := (\<lambda>p. Some ''Sorry, I cannot help.'')\<rparr>"

text \<open>
  A ledger that answers every request with the body of a 401, which \<^verbatim>\<open>curl\<close> prints
  with exit code 0, and a proposal of the form \<^verbatim>\<open>final_prompt.process\<close> takes.
\<close>

definition unauthenticated_ext :: externals where
  "unauthenticated_ext = sample_ext
     \<lparr>run_curl := (\<lambda>cmd. (0, ''401'')),
      json_loads := (\<lambda>out. if out = ''401'' then Some (JObj [(''message'', JStr ''Unauthenticated.'')])
                            else None)\<rparr>"

definition final_proposal :: json where
  "final_proposal =
     JObj [(''intent'', JStr ''withdrawal''), (''description'', JStr ''Sukiya expense''),
           (''amount'', JStr ''768''), (''currency'', JStr ''yen''),
           (''source_id'', JStr ''12''), (''destination_id'', JStr ''0''),
           (''bill_id'', JStr ''unknown''), (''category_name'', JStr []), (''tags'', JList [])]"

text \<open>The top-level keys the prompt documents for the model's answer.\<close>

definition documented_keys :: "string set" where
  "documented_keys = {''type'', ''amount'', ''description'', ''source_id'', ''destination_id'',
     ''currency_code'', ''date'', ''category_name'', ''tags'', ''missing_info'', ''bill_id''}"

text \<open>
  The value the resolver takes for a key the answer lacks, and the value it reads for a
  key: the answer's value or, when the key is absent, that default.
\<close>

definition default_of :: "string \<Rightarrow> string \<Rightarrow> json" where
  "default_of user_input k =
     (if k = ''type'' then JStr ''withdrawal''
      else if k = ''amount'' then JStr ''0''
      else if k = ''description'' then JStr user_input
      else if k = ''currency_code'' then JStr ''USD''
      else if k = ''category_name'' then JStr []
      else if k = ''tags'' \<or> k = ''missing_info'' then JList []
      else JStr ''unknown'')"

definition reply_field :: "string \<Rightarrow> (string \<times> json) list \<Rightarrow> string \<Rightarrow> json" where
  "reply_field user_input d k =
     (case map_of d k of Some v \<Rightarrow> v | None \<Rightarrow> default_of user_input k)"

text \<open>A model whose answer lacks documented keys and has a key of its own.\<close>

definition extra_response :: json where
  "extra_response = JObj [(''type'', JStr ''deposit''), (''confidence'', JStr ''high'')]"

definition extra_ext :: externals where
  "extra_ext = sample_ext\<lparr>chat_completion := (\<lambda>p. Some ''E''),
                           json_loads := (\<lambda>s. if s = ''E'' then Some extra_response else None)\<rparr>"



section \<open>What a scan of the stored embeddings yields\<close>

text \<open>
  Stated apart from the loop of \<open>find_similar_transactions\<close>: the (id, score) pairs of the
  rows whose embedding decodes and compares without an exception, in scan order, and the
  (id, exception) pairs of the other rows.
\<close>

definition decoded_rows :: "externals \<Rightarrow> rat list \<Rightarrow> (int \<times> string) list \<Rightarrow> (int \<times> rat) list" where
  "decoded_rows ext embedding rows =
     concat (map (\<lambda>row. case similarity_of ext embedding (snd row) of
                           Inr v \<Rightarrow> [(fst row, v)] | Inl e \<Rightarrow> []) rows)"

definition skipped_rows :: "externals \<Rightarrow> rat list \<Rightarrow> (int \<times> string) list \<Rightarrow> (int \<times> py_error) list" where
  "skipped_rows ext embedding rows =
     concat (map (\<lambda>row. case similarity_of ext embedding (snd row) of
                           Inr v \<Rightarrow> [] | Inl e \<Rightarrow> [(fst row, e)]) rows)"

text \<open>Five stored embeddings, one of them malformed, two with equal scores.\<close>

definition emb_store :: store where
  "emb_store = empty_store\<lparr>transaction_embeddings :=
      [(146, ''bbbb''), (148, ''cccc''), (150, ''zz''), (161, ''aaaa''), (170, ''cccc'')]\<rparr>"

section \<open>The text rendered for an embedding, as the specification words it\<close>

text \<open>
  The space-join of the description (or the empty string), the phrases of a name that is
  present for the source, the destination and the category, the phrase of the
  comma-joined tags, and the amount when it is not zero. \<open>joined\<close> puts the separator
  before every item but the first; \<open>phrases\<close> gives, for a text that is present and not
  empty, each of the given heads followed by it. \<open>tags\<close> are the tag names of the
  transaction, in the order they are joined.
\<close>

definition joined :: "string \<Rightarrow> string list \<Rightarrow> string" where
  "joined sep items =
     (case items of [] \<Rightarrow> [] | first # others \<Rightarrow> first @ concat (map (\<lambda>item. sep @ item) others))"

definition phrases :: "string list \<Rightarrow> string option \<Rightarrow> string list" where
  "phrases heads v =
     (case v of None \<Rightarrow> [] | Some n \<Rightarrow> if n \<noteq> [] then map (\<lambda>p. p @ n) heads else [])"

definition rendered_text :: "externals \<Rightarrow> transaction_row \<Rightarrow> string list \<Rightarrow> string" where
  "rendered_text ext t tags =
     joined '' ''
       ([case t_description t of None \<Rightarrow> [] | Some d \<Rightarrow> d]
        @ phrases [''source '', ''from ''] (t_source_name t)
        @ phrases [''destination '', ''to ''] (t_destination_name t)
        @ phrases [''category ''] (t_category_name t)
        @ phrases [''tags ''] (if tags = [] then None else Some (joined '', '' tags))
        @ (if t_amount t \<noteq> 0 then [''amount '' @ float_str ext (t_amount t)] else []))"

text \<open>The tag names of a transaction: the names, not \<^verbatim>\<open>NULL\<close>, of its rows in the tag table.\<close>

definition tag_names :: "store \<Rightarrow> int \<Rightarrow> string list" where
  "tag_names s tid = [n. (i, Some n) \<leftarrow> transactions_tags s, i = tid]"

text \<open>One step of the backfill loop, named for the proofs.\<close>

definition emb_step :: "externals \<Rightarrow> (int \<times> string) list \<Rightarrow> int \<times> transaction_row \<times> string option \<Rightarrow> (int \<times> string) list" where
  "emb_step ext tbl row = (case row of (trans_id, t, tags) \<Rightarrow>
                    upsert trans_id (tobytes ext (encode ext (row_text ext t tags))) tbl)"

text \<open>
  A stored transaction with two tags, and the same store after a second sync has appended
  its tag again. \<open>topup_ext\<close> has an embedding model that encodes a text as the codes of
  its characters, stored one byte per code, so that the stored bytes show the text.
\<close>

definition topup_ext :: externals where
  "topup_ext = sample_ext\<lparr>encode := map (\<lambda>c. of_nat (of_char c)),
                           tobytes := map (\<lambda>r. char_of (nat \<lfloor>r\<rfloor>))\<rparr>"

definition topup_row :: transaction_row where
  "topup_row =
     \<lparr>t_description = Some ''Topup PayPay'', t_amount = 768, t_created_at = Some ''2025-02-01'',
      t_source_id = Some 1, t_destination_id = Some 16, t_category_id = None,
      t_type = Some ''deposit'', t_source_name = Some ''Yucho'',
      t_destination_name = Some ''PayPay'', t_category_name = Some ''Topup'',
      t_last_updated = None\<rparr>"

definition topup_store :: store where
  "topup_store = empty_store\<lparr>transactions := [(146, topup_row)],
     transactions_tags := [(146, Some ''paypay''), (146, Some ''foramazon'')]\<rparr>"

definition dup_store :: store where
  "dup_store = topup_store\<lparr>transactions_tags :=
     [(146, Some ''paypay''), (146, Some ''paypay''), (148, Some ''food'')]\<rparr>"

text \<open>
  A ledger with one transaction, served on the first page of the transactions and on no
  other page: \<^verbatim>\<open>curl\<close> prints the URL it is given and the parser knows the answer to each
  URL. \<open>synced_once\<close> and \<open>synced_twice\<close> are the store after one and after two runs
  from the empty store.
\<close>

definition ledger_item :: json where
  "ledger_item =
     JObj [(''type'', JStr ''transactions''), (''id'', JStr ''146''),
           (''attributes'', JObj
              [(''created_at'', JStr ''2025-02-01''), (''updated_at'', JNull),
               (''transactions'', JList [JObj
                  [(''description'', JStr ''Topup PayPay''), (''amount'', JStr ''768''),
                   (''source_id'', JStr ''1''), (''destination_id'', JStr ''16''),
                   (''type'', JStr ''deposit''), (''source_name'', JStr ''Yucho''),
                   (''destination_name'', JStr ''PayPay''), (''category_name'', JStr ''Topup''),
                   (''tags'', JList [JStr ''paypay''])]])])]"

definition ledger_ext :: externals where
  "ledger_ext = sample_ext
     \<lparr>run_curl := (\<lambda>cmd. (0, c_url cmd)),
      json_loads := (\<lambda>url.
        if url = ''https://firefly.example/api/v1/transactions?page=1&updated_at=2025-01-01T00:00:00Z''
        then Some (JObj [(''data'', JList [ledger_item])])
        else Some (JObj [(''data'', JList [])])),
      py_int := (\<lambda>v. case v of
           JInt i \<Rightarrow> Inr i
         | JStr n \<Rightarrow> (if n = ''146'' then Inr 146 else if n = ''16'' then Inr 16
                       else if n = ''1'' then Inr 1 else Inl ValueError)
         | _ \<Rightarrow> Inl ValueError),
      py_float := (\<lambda>v. case v of
           JFloat r \<Rightarrow> Inr r
         | JInt i \<Rightarrow> Inr (of_int i)
         | JStr n \<Rightarrow> (if n = ''768'' then Inr 768 else Inl ValueError)
         | _ \<Rightarrow> Inl ValueError)\<rparr>"

definition synced_once :: store where
  "synced_once = empty_store\<lparr>transactions := [(146, topup_row)],
     transactions_tags := [(146, Some ''paypay'')],
     transaction_embeddings := [(146, ''xxxx'')]\<rparr>"

definition synced_twice :: store where
  "synced_twice = synced_once\<lparr>transactions_tags := [(146, Some ''paypay''), (146, Some ''paypay'')]\<rparr>"

section \<open>The context block, as the specification words it\<close>

text \<open>
  A section is its title line, then one line per item or, when there is no item, the
  placeholder line. \<open>asset_accounts\<close> and \<open>bill_names\<close> are the (id, name) rows the two
  queries of the Context Builder return.
\<close>

definition render_section :: "string \<Rightarrow> string \<Rightarrow> string list \<Rightarrow> string" where
  "render_section title placeholder lines =
     title @ [CHR 0x0A] @ (if lines = [] then placeholder @ [CHR 0x0A] else concat lines)"

definition asset_accounts :: "store \<Rightarrow> (int \<times> string option) list" where
  "asset_accounts s =
     sort_key snd [(acc_id, a_name r). (acc_id, r) \<leftarrow> accounts s, a_type r = Some ''asset'']"

definition bill_names :: "store \<Rightarrow> (int \<times> string option) list" where
  "bill_names s = sort_key snd [(bill_id, b_name r). (bill_id, r) \<leftarrow> bills s]"

text \<open>A store that mirrors an expense account and an asset account.\<close>

definition expense_store :: store where
  "expense_store = empty_store\<lparr>accounts :=
     [(1, \<lparr>a_name = Some ''Sukiya'', a_type = Some ''expense'', a_currency = Some ''JPY'',
           a_last_updated = None\<rparr>),
      (12, \<lparr>a_name = Some ''wallet cash'', a_type = Some ''asset'', a_currency = Some ''JPY'',
            a_last_updated = None\<rparr>)]\<rparr>"

section \<open>Properties of the string operations\<close>


lemma prefix_append_long:
  "length sep \<le> length x \<Longrightarrow> prefix sep (x @ y) \<Longrightarrow> prefix sep x"
  by (metis prefix_length_prefix prefixI prefix_order.dual_order.refl)

lemma py_split_go_marker:
  assumes "sep \<noteq> []" and "\<not> contains sep (a @ butlast sep)"
  shows "py_split_go sep acc (a @ sep @ r) = (rev acc @ a) # py_split_go sep [] r"
  using assms
proof (induction a arbitrary: acc)
  case Nil
  then show ?case by (cases sep) simp_all
next
  case (Cons c a)
  obtain b l where sep: "sep = b @ [l]"
    using Cons.prems(1) by (cases sep rule: rev_cases) auto
  have np: "\<not> prefix sep (c # a @ sep @ r)"
  proof
    assume p: "prefix sep (c # a @ sep @ r)"
    have "prefix sep ((c # a @ b) @ (l # r))"
      using p by (simp add: sep)
    then have "prefix sep (c # a @ b)"
      by (rule prefix_append_long[rotated]) (simp add: sep)
    then show False using Cons.prems(2) by (simp add: sep)
  qed
  have nc: "\<not> contains sep (a @ butlast sep)"
    using Cons.prems(2) by simp
  show ?case
    using np Cons.IH[OF Cons.prems(1) nc, of "c # acc"] by simp
qed

lemma py_split_go_no_marker:
  "\<not> contains sep s \<Longrightarrow> sep \<noteq> [] \<Longrightarrow> py_split_go sep acc s = [rev acc @ s]"
  by (induction s arbitrary: acc) auto

lemma py_split_go_nonempty: "py_split_go sep acc s \<noteq> []"
  by (induction sep acc s rule: py_split_go.induct) auto

lemma contains_split_length:
  "sep \<noteq> [] \<Longrightarrow> contains sep s \<Longrightarrow> 2 \<le> length (py_split_go sep acc s)"
proof (induction sep acc s rule: py_split_go.induct)
  case (1 sep acc)
  then show ?case by simp
next
  case (2 sep acc c cs)
  show ?case
  proof (cases "prefix sep (c # cs)")
    case True
    have "py_split_go sep [] (drop (length sep) (c # cs)) \<noteq> []"
      by (rule py_split_go_nonempty)
    then have "1 \<le> length (py_split_go sep [] (drop (length sep) (c # cs)))"
      by (cases "py_split_go sep [] (drop (length sep) (c # cs))") simp_all
    then show ?thesis using True 2 by simp
  next
    case False
    then show ?thesis using 2 by simp
  qed
qed

lemma tags_marker_border:
  "contains ''tags:'' (a @ ''tags'') \<Longrightarrow> contains ''tags:'' a"
proof (induction a)
  case Nil
  then show ?case by simp
next
  case (Cons c a)
  show ?case
  proof (cases "prefix ''tags:'' (c # a @ ''tags'')")
    case True
    note pre = True
    have "prefix ''tags:'' (c # a)"
    proof (cases "5 \<le> length (c # a)")
      case True
      have "prefix ''tags:'' ((c # a) @ ''tags'')"
        using pre by (simp only: append_Cons)
      then show ?thesis
        by (rule prefix_append_long[rotated]) (use True in simp)
    next
      case False
      then have "length a < 4" by simp
      then consider "a = []" | x where "a = [x]" | x y where "a = [x, y]" | x y z where "a = [x, y, z]"
        by (cases a; simp; rename_tac a; case_tac a; simp; rename_tac a; case_tac a; simp; rename_tac a; case_tac a; simp)
      then show ?thesis using pre by cases auto
    qed
    then show ?thesis by simp
  next
    case False
    have "contains ''tags:'' (a @ ''tags'')"
      using Cons.prems False by (simp only: append_Cons contains.simps) blast
    then have "contains ''tags:'' a" by (rule Cons.IH)
    then show ?thesis by simp
  qed
qed


lemma contains_marker: "contains sep (a @ sep @ r)"
proof (induction a)
  case Nil
  show ?case
  proof (cases "sep @ r")
    case Nil
    then show ?thesis by simp
  next
    case (Cons x xs)
    have "prefix sep (x # xs)"
      unfolding Cons[symmetric] by simp
    then show ?thesis
      unfolding append_Nil Cons by simp
  qed
next
  case (Cons c a)
  then show ?case by simp
qed

lemma extract_tags_marker_split:
  assumes "\<not> contains ''tags:'' a" and "\<not> contains ''tags:'' b"
  shows "py_split_go ''tags:'' [] (a @ ''tags:'' @ b @ ''tags:'' @ c) =
         a # b # py_split_go ''tags:'' [] c"
proof -
  have na: "\<not> contains ''tags:'' (a @ butlast ''tags:'')"
    using assms(1) tags_marker_border[of a] by auto
  have nb: "\<not> contains ''tags:'' (b @ butlast ''tags:'')"
    using assms(2) tags_marker_border[of b] by auto
  have "py_split_go ''tags:'' [] (a @ ''tags:'' @ (b @ ''tags:'' @ c)) =
        (rev [] @ a) # py_split_go ''tags:'' [] (b @ ''tags:'' @ c)"
    by (rule py_split_go_marker[OF _ na]) simp
  moreover have "py_split_go ''tags:'' [] (b @ ''tags:'' @ c) =
        (rev [] @ b) # py_split_go ''tags:'' [] c"
    by (rule py_split_go_marker[OF _ nb]) simp
  ultimately show ?thesis by simp
qed

text \<open>
  C10. When the input holds the marker \<^verbatim>\<open>tags:\<close> twice or more, with \<open>a\<close> the text before the
  first marker and \<open>b\<close> the text between the first and the second, the cleaned input is
  \<open>a\<close> stripped and the tags are the comma-separated entries of \<open>b\<close>, trimmed, lower-cased,
  the empty ones dropped. The text \<open>c\<close> after the second marker reaches neither result.
\<close>

theorem extract_tags_two_markers:
  assumes "\<not> contains ''tags:'' a" and "\<not> contains ''tags:'' b"
  shows "extract_tags_from_input (a @ ''tags:'' @ b @ ''tags:'' @ c) =
         Inr (strip a,
              [lower (strip tag). tag \<leftarrow> py_split_go '','' [] (strip b), strip tag \<noteq> []])"
proof -
  have c: "contains ''tags:'' (a @ ''tags:'' @ b @ ''tags:'' @ c)"
    by (rule contains_marker)
  have s: "py_split ''tags:'' (a @ ''tags:'' @ b @ ''tags:'' @ c) =
           Inr (a # b # py_split_go ''tags:'' [] c)"
    unfolding py_split_def using extract_tags_marker_split[OF assms] by simp
  show ?thesis
    unfolding extract_tags_from_input_def
    by (subst if_P[OF c], subst s) (simp add: ebind_def py_split_def)
qed

theorem extract_tags_two_markers_witness:
  "extract_tags_from_input ''pay rent tags:Housing, ,RENT tags:x,y'' =
     Inr (''pay rent'', [''housing'', ''rent''])"
  using extract_tags_two_markers[of "''pay rent ''" "''Housing, ,RENT ''" "''x,y''"]
  by (simp add: strip_def lstrip_def rstrip_def is_space_def lower_def lower_char_def)

lemma extract_tags_never_raises: "\<exists>r. extract_tags_from_input s = Inr r"
proof (cases "contains ''tags:'' s")
  case True
  then have "2 \<le> length (py_split_go ''tags:'' [] s)"
    by (intro contains_split_length) simp_all
  then obtain p0 p1 ps where "py_split_go ''tags:'' [] s = p0 # p1 # ps"
    by (cases "py_split_go ''tags:'' [] s"; simp; rename_tac l; case_tac l; simp)
  then show ?thesis
    using True by (simp add: extract_tags_from_input_def ebind_def py_split_def Let_def)
next
  case False
  then show ?thesis by (simp add: extract_tags_from_input_def)
qed

lemma extract_example: "extract_tags_from_input ''pay rent tags:housing,rent'' = Inr (''pay rent'', [''housing'', ''rent''])"
  by (simp add: extract_tags_from_input_def ebind_def py_split_def strip_def lstrip_def rstrip_def is_space_def lower_def lower_char_def)

section \<open>Properties of the Intent Resolver\<close>

lemma determine_intent_fst_cases:
  "fst (determine_intent ext s raw) = Inr (Some p) \<Longrightarrow>
   \<exists>ui ut content data pr. extract_tags_from_input raw = Inr (ui, ut)
      \<and> snd (determine_intent ext s raw) = [pr]
      \<and> chat_completion ext pr = Some content
      \<and> json_loads ext (strip content) = Some data
      \<and> assemble_proposal ext s ui ut data = Inr (Some p)"
  unfolding determine_intent_def Let_def
  by (auto split: sum.splits option.splits prod.splits)

lemma assemble_proposal_date:
  "assemble_proposal ext s ui ut data = Inr (Some p) \<Longrightarrow> pr_date p = today_isoformat ext"
  unfolding assemble_proposal_def Let_def ebind_def
  by (auto split: json.splits sum.splits)

text \<open>
  C2. Every proposal \<open>determine_intent\<close> returns carries the current date of the clock, read
  when the proposal is assembled, whatever the user text and the model's answer say.
\<close>

theorem determine_intent_date:
  "fst (determine_intent ext s raw_input) = Inr (Some p) \<Longrightarrow> pr_date p = today_isoformat ext"
  using determine_intent_fst_cases assemble_proposal_date by blast


lemmas eval_defs = determine_intent_def assemble_proposal_def extract_tags_from_input_def
  ebind_def py_split_def strip_def lstrip_def rstrip_def is_space_def lower_def lower_char_def
  build_prompt_context_def load_accounts_def load_categories_def load_tags_def load_bills_def
  find_similar_transactions_def similarity_step_def similarity_of_def sort_desc_def
  exemplar_context_def tag_rows_of_def map_get_def dict_get_def py_set_def py_eq_def
  empty_store_def sample_ext_def dated_ext_def dated_response_def garbled_ext_def
  dated_input_def dated_prompt_def dated_proposal_def

lemma dated_run:
  "determine_intent dated_ext empty_store dated_input = (Inr (Some dated_proposal), [dated_prompt])"
  by (simp add: eval_defs)


theorem determine_intent_date_witness:
  "fst (determine_intent dated_ext empty_store dated_input) = Inr (Some dated_proposal)
   \<and> contains ''2024-01-31'' dated_input
   \<and> py_getitem dated_response ''date'' = Inr (JStr ''2023-10-05'')
   \<and> today_isoformat dated_ext = ''2026-11-04''
   \<and> pr_date dated_proposal = ''2026-11-04''"
proof -
  have run: "fst (determine_intent dated_ext empty_store dated_input) = Inr (Some dated_proposal)"
    by (simp add: dated_run)
  have "pr_date dated_proposal = today_isoformat dated_ext"
    by (rule determine_intent_date[OF run])
  moreover have "today_isoformat dated_ext = ''2026-11-04''"
    by (simp add: dated_ext_def sample_ext_def)
  moreover have "contains ''2024-01-31'' dated_input"
    by (simp add: dated_input_def)
  moreover have "py_getitem dated_response ''date'' = Inr (JStr ''2023-10-05'')"
    by (simp add: dated_response_def)
  ultimately show ?thesis using run by simp
qed

lemma py_set_go_hashable:
  "list_all hashable xs \<Longrightarrow> \<exists>ys. py_set_go acc xs = Inr ys"
  by (induction xs arbitrary: acc) auto

lemma hashable_JStr: "list_all hashable (map JStr ts)"
  by (induction ts) auto

lemma py_str_loads: "py_str (ext\<lparr>json_loads := f\<rparr>) v = py_str ext v"
  by (cases v) simp_all

lemma find_similar_loads:
  "find_similar_transactions (ext\<lparr>json_loads := f\<rparr>) s d k = find_similar_transactions ext s d k"
  unfolding find_similar_transactions_def similarity_step_def similarity_of_def by simp

lemma exemplar_loads: "exemplar_context (ext\<lparr>json_loads := f\<rparr>) s ts = exemplar_context ext s ts"
  unfolding exemplar_context_def by (simp add: Let_def split: list.splits option.splits)

lemma assemble_loads:
  "assemble_proposal (ext\<lparr>json_loads := f\<rparr>) s ui ut data = assemble_proposal ext s ui ut data"
  unfolding assemble_proposal_def by (simp add: Let_def py_str_loads split: json.splits)

lemma dict_get_reply:
  "dict_get d ''type'' (JStr ''withdrawal'') = reply_field ui d ''type''"
  "dict_get d ''amount'' (JStr ''0'') = reply_field ui d ''amount''"
  "dict_get d ''description'' (JStr ui) = reply_field ui d ''description''"
  "dict_get d ''source_id'' (JStr ''unknown'') = reply_field ui d ''source_id''"
  "dict_get d ''destination_id'' (JStr ''unknown'') = reply_field ui d ''destination_id''"
  "dict_get d ''currency_code'' (JStr ''USD'') = reply_field ui d ''currency_code''"
  "dict_get d ''category_name'' (JStr []) = reply_field ui d ''category_name''"
  "dict_get d ''tags'' (JList []) = reply_field ui d ''tags''"
  "dict_get d ''bill_id'' (JStr ''unknown'') = reply_field ui d ''bill_id''"
  "dict_get d ''missing_info'' (JList []) = reply_field ui d ''missing_info''"
  unfolding dict_get_def reply_field_def default_of_def by (simp_all split: option.splits)

lemma reply_field_documented:
  assumes "\<forall>k\<in>documented_keys. map_of d' k = map_of d k" and "k \<in> documented_keys"
  shows "reply_field ui d' k = reply_field ui d k"
  using assms unfolding reply_field_def by simp

lemma assemble_proposal_reply:
  "assemble_proposal ext s ui ut (JObj d) =
     (case reply_field ui d ''tags'' of
        JList model_tags \<Rightarrow>
          ebind (py_set (map JStr ut @ model_tags)) (\<lambda>tags.
            Inr (Some
              \<lparr>pr_type = reply_field ui d ''type'',
               pr_amount = py_str ext (reply_field ui d ''amount''),
               pr_description = reply_field ui d ''description'',
               pr_source_id = reply_field ui d ''source_id'',
               pr_destination_id = reply_field ui d ''destination_id'',
               pr_source_name = map_get (load_accounts s)
                  (StrKey (lower (py_str ext (reply_field ui d ''source_id'')))),
               pr_destination_name = map_get (load_accounts s)
                  (StrKey (lower (py_str ext (reply_field ui d ''destination_id'')))),
               pr_currency_code = reply_field ui d ''currency_code'',
               pr_date = today_isoformat ext,
               pr_category_name = reply_field ui d ''category_name'',
               pr_tags = tags,
               pr_bill_name = map_get (load_bills s)
                  (StrKey (lower (py_str ext (reply_field ui d ''bill_id'')))),
               pr_bill_id = reply_field ui d ''bill_id'',
               pr_missing_info =
                 (case reply_field ui d ''missing_info'' of JList xs \<Rightarrow> xs | _ \<Rightarrow> [])\<rparr>))
      | _ \<Rightarrow> Inl TypeError)"
  by (simp add: assemble_proposal_def Let_def dict_get_reply(1-7,9,10)[of d ui] dict_get_reply(8)[of d ui] cong: json.case_cong)

lemma assemble_proposal_documented:
  assumes "\<forall>k\<in>documented_keys. map_of d' k = map_of d k"
  shows "assemble_proposal ext s ui ut (JObj d') = assemble_proposal ext s ui ut (JObj d)"
proof -
  have "reply_field ui d' k = reply_field ui d k" if "k \<in> documented_keys" for k
    using reply_field_documented[OF assms that] .
  then have "reply_field ui d' ''type'' = reply_field ui d ''type''"
    "reply_field ui d' ''amount'' = reply_field ui d ''amount''"
    "reply_field ui d' ''description'' = reply_field ui d ''description''"
    "reply_field ui d' ''source_id'' = reply_field ui d ''source_id''"
    "reply_field ui d' ''destination_id'' = reply_field ui d ''destination_id''"
    "reply_field ui d' ''currency_code'' = reply_field ui d ''currency_code''"
    "reply_field ui d' ''category_name'' = reply_field ui d ''category_name''"
    "reply_field ui d' ''tags'' = reply_field ui d ''tags''"
    "reply_field ui d' ''bill_id'' = reply_field ui d ''bill_id''"
    "reply_field ui d' ''missing_info'' = reply_field ui d ''missing_info''"
    by (simp_all add: documented_keys_def)
  then show ?thesis unfolding assemble_proposal_reply by (simp cong: json.case_cong)
qed

lemma assemble_proposal_only_objects:
  "assemble_proposal ext s ui ut data = Inr (Some p) \<Longrightarrow> \<exists>d. data = JObj d"
  unfolding assemble_proposal_def by (cases data) simp_all


lemma py_set_hashable:
  "list_all hashable xs \<Longrightarrow> \<exists>tags. py_set xs = Inr tags"
  unfolding py_set_def ebind_def using py_set_go_hashable[of xs "[]"] by auto

text \<open>
  C3, as the code has it. One prompt is sent, whatever happens afterwards. When the call
  to the model fails or its answer does not parse as JSON the resolver returns \<^verbatim>\<open>None\<close>.
  A proposal is returned only for an answer that parses as a JSON object. Such an object
  is accepted whatever its keys, provided the value under \<^verbatim>\<open>tags\<close>, if any, is a list of
  hashable values: every field of the proposal is read from the documented key of its
  name, an absent key takes its default, and keys outside the documented set are ignored
  (an object with the same values under the documented keys gives the same proposal).
\<close>

theorem determine_intent_parse_failure:
  "\<exists>ui ut pr.
     extract_tags_from_input raw_input = Inr (ui, ut) \<and>
     snd (determine_intent ext s raw_input) = [pr] \<and>
     (chat_completion ext pr = None \<longrightarrow> fst (determine_intent ext s raw_input) = Inr None) \<and>
     (\<forall>content.
        chat_completion ext pr = Some content \<longrightarrow>
          (json_loads ext (strip content) = None \<longrightarrow>
             fst (determine_intent ext s raw_input) = Inr None) \<and>
          (\<forall>p. fst (determine_intent ext s raw_input) = Inr (Some p) \<longrightarrow>
             (\<exists>d. json_loads ext (strip content) = Some (JObj d))) \<and>
          (\<forall>d model_tags.
             json_loads ext (strip content) = Some (JObj d) \<longrightarrow>
             reply_field ui d ''tags'' = JList model_tags \<longrightarrow>
             list_all hashable model_tags \<longrightarrow>
             (\<exists>p. fst (determine_intent ext s raw_input) = Inr (Some p)
                \<and> pr_type p = reply_field ui d ''type''
                \<and> pr_amount p = py_str ext (reply_field ui d ''amount'')
                \<and> pr_description p = reply_field ui d ''description''
                \<and> pr_source_id p = reply_field ui d ''source_id''
                \<and> pr_destination_id p = reply_field ui d ''destination_id''
                \<and> pr_currency_code p = reply_field ui d ''currency_code''
                \<and> pr_category_name p = reply_field ui d ''category_name''
                \<and> pr_bill_id p = reply_field ui d ''bill_id''
                \<and> pr_missing_info p =
                    (case reply_field ui d ''missing_info'' of JList xs \<Rightarrow> xs | _ \<Rightarrow> [])
                \<and> py_set (map JStr ut @ model_tags) = Inr (pr_tags p)
                \<and> pr_source_name p = map_get (load_accounts s)
                     (StrKey (lower (py_str ext (reply_field ui d ''source_id''))))
                \<and> pr_destination_name p = map_get (load_accounts s)
                     (StrKey (lower (py_str ext (reply_field ui d ''destination_id''))))
                \<and> pr_bill_name p = map_get (load_bills s)
                     (StrKey (lower (py_str ext (reply_field ui d ''bill_id''))))
                \<and> pr_date p = today_isoformat ext
                \<and> (\<forall>d'. (\<forall>k\<in>documented_keys. map_of d' k = map_of d k) \<longrightarrow>
                      fst (determine_intent (ext\<lparr>json_loads := (\<lambda>x. Some (JObj d'))\<rparr>) s raw_input)
                        = Inr (Some p)))))"
proof -
  obtain ui ut where ex: "extract_tags_from_input raw_input = Inr (ui, ut)"
    using extract_tags_never_raises[of raw_input] by auto
  define pr where "pr = \<lparr>p_context_snippet = build_prompt_context s,
       p_user_input = ui,
       p_similar_context = (if fst (find_similar_transactions ext s ui 1) \<noteq> []
          then Some (exemplar_context ext s (fst (find_similar_transactions ext s ui 1))) else None),
       p_user_tags = ut\<rparr>"
  have run: "determine_intent ext' s raw_input =
       (case chat_completion ext pr of
          None \<Rightarrow> (Inr None, [pr])
        | Some content \<Rightarrow>
            (case json_loads ext' (strip content) of
               None \<Rightarrow> (Inr None, [pr])
             | Some data \<Rightarrow> (assemble_proposal ext s ui ut data, [pr])))"
    if "ext' = ext\<lparr>json_loads := f\<rparr>" for ext' f
    unfolding determine_intent_def Let_def ex pr_def that
    by (simp add: find_similar_loads exemplar_loads assemble_loads cong: option.case_cong)
  have same: "ext = ext\<lparr>json_loads := json_loads ext\<rparr>" by simp
  note run0 = run[OF same]
  have snd: "snd (determine_intent ext s raw_input) = [pr]"
    unfolding run0 by (simp split: option.splits)
  have api: "fst (determine_intent ext s raw_input) = Inr None" if "chat_completion ext pr = None"
    unfolding run0 using that by simp
  have fail: "fst (determine_intent ext s raw_input) = Inr None"
    if "chat_completion ext pr = Some content" "json_loads ext (strip content) = None" for content
    unfolding run0 using that by simp
  have only: "\<exists>d. json_loads ext (strip content) = Some (JObj d)"
    if "chat_completion ext pr = Some content" "fst (determine_intent ext s raw_input) = Inr (Some p)"
    for content p
    using that unfolding run0
    by (auto split: option.splits dest: assemble_proposal_only_objects)
  have ok: "\<exists>p. fst (determine_intent ext s raw_input) = Inr (Some p)
                \<and> pr_type p = reply_field ui d ''type''
                \<and> pr_amount p = py_str ext (reply_field ui d ''amount'')
                \<and> pr_description p = reply_field ui d ''description''
                \<and> pr_source_id p = reply_field ui d ''source_id''
                \<and> pr_destination_id p = reply_field ui d ''destination_id''
                \<and> pr_currency_code p = reply_field ui d ''currency_code''
                \<and> pr_category_name p = reply_field ui d ''category_name''
                \<and> pr_bill_id p = reply_field ui d ''bill_id''
                \<and> pr_missing_info p =
                    (case reply_field ui d ''missing_info'' of JList xs \<Rightarrow> xs | _ \<Rightarrow> [])
                \<and> py_set (map JStr ut @ model_tags) = Inr (pr_tags p)
                \<and> pr_source_name p = map_get (load_accounts s)
                     (StrKey (lower (py_str ext (reply_field ui d ''source_id''))))
                \<and> pr_destination_name p = map_get (load_accounts s)
                     (StrKey (lower (py_str ext (reply_field ui d ''destination_id''))))
                \<and> pr_bill_name p = map_get (load_bills s)
                     (StrKey (lower (py_str ext (reply_field ui d ''bill_id''))))
                \<and> pr_date p = today_isoformat ext
                \<and> (\<forall>d'. (\<forall>k\<in>documented_keys. map_of d' k = map_of d k) \<longrightarrow>
                      fst (determine_intent (ext\<lparr>json_loads := (\<lambda>x. Some (JObj d'))\<rparr>) s raw_input)
                        = Inr (Some p))"
    if c: "chat_completion ext pr = Some content"
      and l: "json_loads ext (strip content) = Some (JObj d)"
      and t: "reply_field ui d ''tags'' = JList model_tags"
      and h: "list_all hashable model_tags"
    for content d model_tags
  proof -
    have "list_all hashable (map JStr ut @ model_tags)"
      using h hashable_JStr by simp
    then obtain tags where tags: "py_set (map JStr ut @ model_tags) = Inr tags"
      using py_set_hashable by blast
    define p where "p =
              \<lparr>pr_type = reply_field ui d ''type'',
               pr_amount = py_str ext (reply_field ui d ''amount''),
               pr_description = reply_field ui d ''description'',
               pr_source_id = reply_field ui d ''source_id'',
               pr_destination_id = reply_field ui d ''destination_id'',
               pr_source_name = map_get (load_accounts s)
                  (StrKey (lower (py_str ext (reply_field ui d ''source_id'')))),
               pr_destination_name = map_get (load_accounts s)
                  (StrKey (lower (py_str ext (reply_field ui d ''destination_id'')))),
               pr_currency_code = reply_field ui d ''currency_code'',
               pr_date = today_isoformat ext,
               pr_category_name = reply_field ui d ''category_name'',
               pr_tags = tags,
               pr_bill_name = map_get (load_bills s)
                  (StrKey (lower (py_str ext (reply_field ui d ''bill_id'')))),
               pr_bill_id = reply_field ui d ''bill_id'',
               pr_missing_info =
                 (case reply_field ui d ''missing_info'' of JList xs \<Rightarrow> xs | _ \<Rightarrow> [])\<rparr>"
    have p: "assemble_proposal ext s ui ut (JObj d) = Inr (Some p)"
      unfolding assemble_proposal_reply t by (simp add: tags ebind_def p_def)
    have fields: "pr_type p = reply_field ui d ''type''"
        "pr_amount p = py_str ext (reply_field ui d ''amount'')"
        "pr_description p = reply_field ui d ''description''"
        "pr_source_id p = reply_field ui d ''source_id''"
        "pr_destination_id p = reply_field ui d ''destination_id''"
        "pr_currency_code p = reply_field ui d ''currency_code''"
        "pr_category_name p = reply_field ui d ''category_name''"
        "pr_bill_id p = reply_field ui d ''bill_id''"
        "pr_missing_info p =
            (case reply_field ui d ''missing_info'' of JList xs \<Rightarrow> xs | _ \<Rightarrow> [])"
        "pr_tags p = tags"
        "pr_source_name p = map_get (load_accounts s)
             (StrKey (lower (py_str ext (reply_field ui d ''source_id''))))"
        "pr_destination_name p = map_get (load_accounts s)
             (StrKey (lower (py_str ext (reply_field ui d ''destination_id''))))"
        "pr_bill_name p = map_get (load_bills s)
             (StrKey (lower (py_str ext (reply_field ui d ''bill_id''))))"
        "pr_date p = today_isoformat ext"
      by (simp_all add: p_def)
    have here: "fst (determine_intent ext s raw_input) = Inr (Some p)"
      unfolding run0 using c l p by simp
    have other: "fst (determine_intent (ext\<lparr>json_loads := (\<lambda>x. Some (JObj d'))\<rparr>) s raw_input)
                   = Inr (Some p)"
      if "\<forall>k\<in>documented_keys. map_of d' k = map_of d k" for d'
      unfolding run[OF refl] using c p assemble_proposal_documented[OF that, of ext s ui ut]
      by simp
    show ?thesis
      using here fields tags other by simp
  qed
  show ?thesis
    apply (rule exI[of _ ui], rule exI[of _ ut], rule exI[of _ pr])
    apply (intro conjI allI impI)
    subgoal by (rule ex)
    subgoal by (rule snd)
    subgoal by (rule api)
    subgoal by (rule fail)
    subgoal by (rule only)
    subgoal by (rule ok)
    done
qed


theorem determine_intent_parse_failure_witness:
  "fst (determine_intent garbled_ext empty_store ''coffee'') = Inr None
   \<and> length (snd (determine_intent garbled_ext empty_store ''coffee'')) = 1
   \<and> json_loads extra_ext (strip ''E'') =
        Some (JObj [(''type'', JStr ''deposit''), (''confidence'', JStr ''high'')])
   \<and> (\<exists>p. fst (determine_intent extra_ext empty_store ''coffee'') = Inr (Some p)
        \<and> pr_type p = JStr ''deposit'' \<and> pr_amount p = ''0''
        \<and> pr_description p = JStr ''coffee'' \<and> pr_source_id p = JStr ''unknown''
        \<and> pr_destination_id p = JStr ''unknown'' \<and> pr_currency_code p = JStr ''USD''
        \<and> pr_category_name p = JStr [] \<and> pr_bill_id p = JStr ''unknown''
        \<and> pr_missing_info p = [] \<and> pr_tags p = {}
        \<and> fst (determine_intent
                  (extra_ext\<lparr>json_loads := (\<lambda>x. Some (JObj [(''type'', JStr ''deposit'')]))\<rparr>)
                  empty_store ''coffee'') = Inr (Some p))"
proof -
  have input: "extract_tags_from_input ''coffee'' = Inr (''coffee'', [])"
    by (simp add: extract_tags_from_input_def)
  obtain pr where pr: "snd (determine_intent garbled_ext empty_store ''coffee'') = [pr]"
    and fail: "\<And>content. chat_completion garbled_ext pr = Some content \<Longrightarrow>
                 json_loads garbled_ext (strip content) = None \<Longrightarrow>
                 fst (determine_intent garbled_ext empty_store ''coffee'') = Inr None"
    using determine_intent_parse_failure[of "''coffee''" garbled_ext empty_store] by blast
  have "chat_completion garbled_ext pr = Some ''Sorry, I cannot help.''"
    by (simp add: garbled_ext_def sample_ext_def)
  moreover have "json_loads garbled_ext (strip ''Sorry, I cannot help.'') = None"
    by (simp add: garbled_ext_def sample_ext_def strip_def lstrip_def rstrip_def is_space_def)
  ultimately have none: "fst (determine_intent garbled_ext empty_store ''coffee'') = Inr None"
    by (rule fail)
  let ?d = "[(''type'', JStr ''deposit''), (''confidence'', JStr ''high'')]"
  have loads: "json_loads extra_ext (strip ''E'') = Some (JObj ?d)"
    by (simp add: extra_ext_def extra_response_def sample_ext_def strip_def lstrip_def
        rstrip_def is_space_def)
  obtain ui ut pr' where ex: "extract_tags_from_input ''coffee'' = Inr (ui, ut)"
    and ok: "\<And>content d model_tags. chat_completion extra_ext pr' = Some content \<Longrightarrow>
        json_loads extra_ext (strip content) = Some (JObj d) \<Longrightarrow>
        reply_field ui d ''tags'' = JList model_tags \<Longrightarrow> list_all hashable model_tags \<Longrightarrow>
        \<exists>p. fst (determine_intent extra_ext empty_store ''coffee'') = Inr (Some p)
                \<and> pr_type p = reply_field ui d ''type''
                \<and> pr_amount p = py_str extra_ext (reply_field ui d ''amount'')
                \<and> pr_description p = reply_field ui d ''description''
                \<and> pr_source_id p = reply_field ui d ''source_id''
                \<and> pr_destination_id p = reply_field ui d ''destination_id''
                \<and> pr_currency_code p = reply_field ui d ''currency_code''
                \<and> pr_category_name p = reply_field ui d ''category_name''
                \<and> pr_bill_id p = reply_field ui d ''bill_id''
                \<and> pr_missing_info p =
                    (case reply_field ui d ''missing_info'' of JList xs \<Rightarrow> xs | _ \<Rightarrow> [])
                \<and> py_set (map JStr ut @ model_tags) = Inr (pr_tags p)
                \<and> pr_source_name p = map_get (load_accounts empty_store)
                     (StrKey (lower (py_str extra_ext (reply_field ui d ''source_id''))))
                \<and> pr_destination_name p = map_get (load_accounts empty_store)
                     (StrKey (lower (py_str extra_ext (reply_field ui d ''destination_id''))))
                \<and> pr_bill_name p = map_get (load_bills empty_store)
                     (StrKey (lower (py_str extra_ext (reply_field ui d ''bill_id''))))
                \<and> pr_date p = today_isoformat extra_ext
                \<and> (\<forall>d'. (\<forall>k\<in>documented_keys. map_of d' k = map_of d k) \<longrightarrow>
                      fst (determine_intent (extra_ext\<lparr>json_loads := (\<lambda>x. Some (JObj d'))\<rparr>)
                             empty_store ''coffee'') = Inr (Some p))"
    using determine_intent_parse_failure[of "''coffee''" extra_ext empty_store] by blast
  have ui: "ui = ''coffee''" and ut: "ut = []"
    using ex input by simp_all
  have "chat_completion extra_ext pr' = Some ''E''"
    by (simp add: extra_ext_def)
  moreover note loads
  moreover have "reply_field ui ?d ''tags'' = JList []"
    by (simp add: reply_field_def default_of_def)
  moreover have "list_all hashable []"
    by simp
  ultimately obtain p where p: "fst (determine_intent extra_ext empty_store ''coffee'') = Inr (Some p)"
    and fields: "pr_type p = reply_field ui ?d ''type''"
      "pr_amount p = py_str extra_ext (reply_field ui ?d ''amount'')"
      "pr_description p = reply_field ui ?d ''description''"
      "pr_source_id p = reply_field ui ?d ''source_id''"
      "pr_destination_id p = reply_field ui ?d ''destination_id''"
      "pr_currency_code p = reply_field ui ?d ''currency_code''"
      "pr_category_name p = reply_field ui ?d ''category_name''"
      "pr_bill_id p = reply_field ui ?d ''bill_id''"
      "pr_missing_info p =
          (case reply_field ui ?d ''missing_info'' of JList xs \<Rightarrow> xs | _ \<Rightarrow> [])"
      "py_set (map JStr ut @ []) = Inr (pr_tags p)"
    and other: "\<And>d'. (\<forall>k\<in>documented_keys. map_of d' k = map_of ?d k) \<Longrightarrow>
                  fst (determine_intent (extra_ext\<lparr>json_loads := (\<lambda>x. Some (JObj d'))\<rparr>)
                         empty_store ''coffee'') = Inr (Some p)"
    using ok[of "''E''" ?d "[]"] by blast
  have "\<forall>k\<in>documented_keys. map_of [(''type'', JStr ''deposit'')] k = map_of ?d k"
    by (simp add: documented_keys_def)
  from other[OF this] p fields none pr loads
  show ?thesis
    unfolding ui ut
    by (simp add: reply_field_def default_of_def py_set_def ebind_def)
qed

text \<open>
  The empty object has none of the documented keys and is turned into a proposal made of
  the defaults.
\<close>

theorem determine_intent_accepts_any_object:
  "fst (determine_intent sample_ext empty_store ''coffee'') =
     Inr (Some \<lparr>pr_type = JStr ''withdrawal'', pr_amount = ''0'',
           pr_description = JStr ''coffee'',
           pr_source_id = JStr ''unknown'',
           pr_destination_id = JStr ''unknown'', pr_source_name = Some [],
           pr_destination_name = Some [], pr_currency_code = JStr ''USD'',
           pr_date = ''2026-11-04'', pr_category_name = JStr [],
           pr_tags = {},
           pr_bill_name = Some [], pr_bill_id = JStr ''unknown'',
           pr_missing_info = []\<rparr>)
   \<and> map (chat_completion sample_ext) (snd (determine_intent sample_ext empty_store ''coffee''))
       = [Some '' {} '']
   \<and> json_loads sample_ext (strip '' {} '') = Some (JObj [])
   \<and> fst ` set ([] :: (string \<times> json) list) \<noteq> documented_keys"
  by (simp add: eval_defs documented_keys_def)

lemma py_eq_JStr [simp]: "py_eq (JStr a) y \<longleftrightarrow> y = JStr a"
  by (cases y) (auto simp: py_eq_def)











section \<open>Properties of the Embedding Index\<close>

lemma mset_insort_desc: "mset (insort_desc key x ys) = add_mset x (mset ys)"
  by (induction ys) auto

lemma mset_sort_desc: "mset (sort_desc key xs) = mset xs"
  by (induction xs) (auto simp: sort_desc_def mset_insort_desc)

lemma set_insort_desc: "set (insort_desc key x ys) = insert x (set ys)"
  by (induction ys) auto

lemma sorted_insort_desc:
  "sorted_wrt (\<lambda>a b. key b \<le> key a) ys \<Longrightarrow> sorted_wrt (\<lambda>a b. key b \<le> key a) (insort_desc key x ys)"
  by (induction ys) (auto simp: set_insort_desc)

lemma sorted_sort_desc: "sorted_wrt (\<lambda>a b. key b \<le> key a) (sort_desc key xs)"
  by (induction xs) (auto simp: sort_desc_def sorted_insort_desc)

lemma filter_insort_desc:
  "filter (\<lambda>y. key y = k) (insort_desc key x ys) =
     (if key x = k then x # filter (\<lambda>y. key y = k) ys else filter (\<lambda>y. key y = k) ys)"
  by (induction ys) auto

lemma sort_desc_stable:
  "filter (\<lambda>y. key y = k) (sort_desc key xs) = filter (\<lambda>y. key y = k) xs"
  by (induction xs) (auto simp: sort_desc_def filter_insort_desc)

lemma scan_rows:
  "foldl (similarity_step ext q) st rows =
     (fst st @ decoded_rows ext q rows, snd st @ skipped_rows ext q rows)"
proof (induction rows arbitrary: st)
  case Nil
  then show ?case by (simp add: decoded_rows_def skipped_rows_def)
next
  case (Cons r rows)
  have "foldl (similarity_step ext q) st (r # rows) =
        foldl (similarity_step ext q) (similarity_step ext q st r) rows"
    by simp
  also have "\<dots> = (fst (similarity_step ext q st r) @ decoded_rows ext q rows,
                    snd (similarity_step ext q st r) @ skipped_rows ext q rows)"
    by (rule Cons.IH)
  also have "\<dots> = (fst st @ decoded_rows ext q (r # rows), snd st @ skipped_rows ext q (r # rows))"
    by (cases "similarity_of ext q (snd r)")
       (simp_all add: similarity_step_def decoded_rows_def skipped_rows_def)
  finally show ?case .
qed

text \<open>
  C8. For every query and every count \<open>top_k\<close>, the result is the first \<open>top_k\<close> entries of
  a list \<open>ranked\<close> that holds exactly the pairs of the rows that decode, in descending order
  of the score, pairs of equal score in scan order; so it has at most \<open>top_k\<close> entries. A
  row that fails to decode is logged with its exception and left out, and the query
  returns all the same. Scores are compared as the numbers they denote.
\<close>

theorem find_similar_transactions_top_k:
  "\<exists>ranked.
     fst (find_similar_transactions ext s desc top_k) = take top_k ranked
   \<and> mset ranked = mset (decoded_rows ext (encode ext desc) (transaction_embeddings s))
   \<and> sorted_wrt (\<lambda>a b. snd b \<le> snd a) ranked
   \<and> (\<forall>v. filter (\<lambda>p. snd p = v) ranked =
            filter (\<lambda>p. snd p = v) (decoded_rows ext (encode ext desc) (transaction_embeddings s)))
   \<and> length (fst (find_similar_transactions ext s desc top_k)) \<le> top_k
   \<and> snd (find_similar_transactions ext s desc top_k) =
         skipped_rows ext (encode ext desc) (transaction_embeddings s)"
proof -
  let ?d = "decoded_rows ext (encode ext desc) (transaction_embeddings s)"
  have "fst (find_similar_transactions ext s desc top_k) = take top_k (sort_desc snd ?d)"
    and "snd (find_similar_transactions ext s desc top_k) =
         skipped_rows ext (encode ext desc) (transaction_embeddings s)"
    by (simp_all add: find_similar_transactions_def Let_def scan_rows)
  then show ?thesis
    using mset_sort_desc[of snd ?d] sorted_sort_desc[of snd ?d] sort_desc_stable[of snd _ ?d]
    by (intro exI[of _ "sort_desc snd ?d"]) simp
qed

theorem find_similar_transactions_top_k_witness:
  "find_similar_transactions sample_ext emb_store ''abc'' 3 =
     ([(148, 0), (170, 0), (146, - 1)], [(150, ValueError)])
   \<and> decoded_rows sample_ext (encode sample_ext ''abc'') (transaction_embeddings emb_store) =
     [(146, - 1), (148, 0), (161, - 2), (170, 0)]
   \<and> length (fst (find_similar_transactions sample_ext emb_store ''abc'' 3)) \<le> 3"
proof -
  have "length (fst (find_similar_transactions sample_ext emb_store ''abc'' 3)) \<le> 3"
    using find_similar_transactions_top_k[of sample_ext emb_store "''abc''" 3] by blast
  moreover have "find_similar_transactions sample_ext emb_store ''abc'' 3 =
     ([(148, 0), (170, 0), (146, - 1)], [(150, ValueError)])"
    by (simp add: find_similar_transactions_def similarity_step_def similarity_of_def ebind_def
        sort_desc_def emb_store_def empty_store_def sample_ext_def)
  moreover have "decoded_rows sample_ext (encode sample_ext ''abc'') (transaction_embeddings emb_store) =
     [(146, - 1), (148, 0), (161, - 2), (170, 0)]"
    by (simp add: decoded_rows_def similarity_of_def ebind_def emb_store_def empty_store_def
        sample_ext_def)
  ultimately show ?thesis by simp
qed

section \<open>Properties of the embedding backfill\<close>

lemma join_joined: "join sep xs = joined sep xs"
  unfolding joined_def by (induction sep xs rule: join.induct) simp_all

lemma present_names: "[n. Some n \<leftarrow> xs] = map the (filter (\<lambda>x. x \<noteq> None) xs)"
  by (induction xs) (auto split: option.splits)

lemma mset_present:
  "mset xs = mset ys \<Longrightarrow> mset [n. Some n \<leftarrow> xs] = mset [n. Some n \<leftarrow> ys]"
proof -
  assume eq: "mset xs = mset ys"
  have "mset [n. Some n \<leftarrow> zs] = image_mset the (filter_mset (\<lambda>x. x \<noteq> None) (mset zs))"
    for zs :: "'a option list"
    unfolding present_names by simp
  then show ?thesis using eq by simp
qed

lemma present_of_rows:
  "[n. (i, Some n) \<leftarrow> rows, i = k] = [n. Some n \<leftarrow> [name. (i, name) \<leftarrow> rows, i = k]]"
  by (induction rows) (auto split: option.splits)

lemma tag_names_rows: "tag_names s tid = [n. Some n \<leftarrow> tag_rows_of s tid]"
  unfolding tag_names_def tag_rows_of_def by (rule present_of_rows)

lemma row_text_rendered:
  "row_text ext t (group_concat '', '' names) = rendered_text ext t [n. Some n \<leftarrow> names]"
  unfolding row_text_def rendered_text_def embedding_text_def group_concat_def Let_def
    phrases_def text_truthy_def or_empty_def fmt_text_def join_joined
  by (simp split: option.splits)

lemma map_of_upsert: "map_of (upsert k v tbl) = (map_of tbl)(k \<mapsto> v)"
  by (induction tbl) (auto simp: fun_upd_twist)

lemma foldl_emb_other:
  "k \<notin> fst ` set rows \<Longrightarrow> map_of (foldl (emb_step ext) tbl rows) k = map_of tbl k"
  by (induction rows arbitrary: tbl) (auto simp: emb_step_def map_of_upsert)

lemma foldl_emb_row:
  "distinct (map fst rows) \<Longrightarrow> (k, t, tags) \<in> set rows \<Longrightarrow>
   map_of (foldl (emb_step ext) tbl rows) k = Some (tobytes ext (encode ext (row_text ext t tags)))"
proof (induction rows arbitrary: tbl)
  case Nil
  then show ?case by simp
next
  case (Cons r rows)
  show ?case
  proof (cases "r = (k, t, tags)")
    case True
    with Cons.prems(1) have "k \<notin> fst ` set rows" by auto
    then show ?thesis
      using True by (simp add: foldl_emb_other) (simp add: emb_step_def map_of_upsert)
  next
    case False
    with Cons.prems have "distinct (map fst rows)" "(k, t, tags) \<in> set rows" by auto
    then show ?thesis using Cons.IH by simp
  qed
qed

lemma keyed_distinct: "keyed rows \<Longrightarrow> distinct (map fst rows)"
  unfolding keyed_def by (simp add: strict_sorted_iff)

lemma comprehension_keys:
  "map fst [(i, f i t). (i, t) \<leftarrow> xs, P i] = filter P (map fst xs)"
  by (induction xs) auto

lemma embedding_rows_keys: "keyed (transactions s) \<Longrightarrow> distinct (map fst (embedding_rows ext s))"
proof -
  assume k: "keyed (transactions s)"
  have "map fst (embedding_rows ext s) =
        filter (\<lambda>i. i \<notin> set (map fst (transaction_embeddings s))) (map fst (transactions s))"
    unfolding embedding_rows_def by (rule comprehension_keys)
  then show ?thesis using keyed_distinct[OF k] by simp
qed

lemma store_transaction_embeddings_fold:
  "store_transaction_embeddings ext s =
     s\<lparr>transaction_embeddings := foldl (emb_step ext) (transaction_embeddings s) (embedding_rows ext s)\<rparr>"
  unfolding store_transaction_embeddings_def emb_step_def by simp

lemma topup_roundtrip: "tobytes topup_ext (encode topup_ext x) = x"
  by (simp add: topup_ext_def sample_ext_def comp_def)

lemma topup_ext_fields:
  "group_order topup_ext = sort" "float_str topup_ext = (\<lambda>r. ''768.0'')"
  by (simp_all add: topup_ext_def sample_ext_def)

text \<open>
  C7. For every transaction row that has no embedding yet, the backfill stores the
  embedding of the text the specification describes: description, then \<^verbatim>\<open>source\<close> and
  \<^verbatim>\<open>from\<close> with the source name, \<^verbatim>\<open>destination\<close> and \<^verbatim>\<open>to\<close> with the destination name,
  \<^verbatim>\<open>category\<close> with the category name, \<^verbatim>\<open>tags\<close> with its tag names joined by a comma and
  a space, \<^verbatim>\<open>amount\<close> with the amount when it is not zero. The tag names are those of all
  its rows in the tag table, each as often as the table holds it, in the order in which
  the database engine aggregates them; the engine visits every row of a group once.
\<close>

theorem store_transaction_embeddings_text:
  assumes "keyed (transactions s)"
      and "(tid, t) \<in> set (transactions s)"
      and "tid \<notin> fst ` set (transaction_embeddings s)"
      and "\<forall>names. mset (group_order ext names) = mset names"
  shows "\<exists>tags. mset tags = mset (tag_names s tid) \<and>
           map_of (transaction_embeddings (store_transaction_embeddings ext s)) tid =
             Some (tobytes ext (encode ext (rendered_text ext t tags)))"
proof -
  let ?names = "group_order ext (tag_rows_of s tid)"
  have row: "(tid, t, group_concat '', '' ?names) \<in> set (embedding_rows ext s)"
    using assms(2,3) unfolding embedding_rows_def by force
  have stored: "map_of (transaction_embeddings (store_transaction_embeddings ext s)) tid =
        Some (tobytes ext (encode ext (rendered_text ext t [n. Some n \<leftarrow> ?names])))"
    unfolding store_transaction_embeddings_fold
    using foldl_emb_row[OF embedding_rows_keys[OF assms(1)] row, of ext "transaction_embeddings s"]
    by (simp add: row_text_rendered)
  have "mset ?names = mset (tag_rows_of s tid)"
    using assms(4) by simp
  then have "mset [n. Some n \<leftarrow> ?names] = mset (tag_names s tid)"
    unfolding tag_names_rows by (rule mset_present)
  with stored show ?thesis by blast
qed

theorem store_transaction_embeddings_text_witness:
  "(\<exists>tags. mset tags = mset [''paypay'', ''foramazon''] \<and>
      map_of (transaction_embeddings (store_transaction_embeddings topup_ext topup_store)) 146 =
        Some (tobytes topup_ext (encode topup_ext (rendered_text topup_ext topup_row tags))))
   \<and> map_of (transaction_embeddings (store_transaction_embeddings topup_ext topup_store)) 146 =
       Some ''Topup PayPay source Yucho from Yucho destination PayPay to PayPay category Topup tags foramazon, paypay amount 768.0''
   \<and> rendered_text topup_ext topup_row [''foramazon'', ''paypay''] =
       ''Topup PayPay source Yucho from Yucho destination PayPay to PayPay category Topup tags foramazon, paypay amount 768.0''"
proof -
  have "keyed (transactions topup_store)"
    and "(146, topup_row) \<in> set (transactions topup_store)"
    and "146 \<notin> fst ` set (transaction_embeddings topup_store)"
    and "\<forall>names. mset (group_order topup_ext names) = mset names"
    by (simp_all add: topup_store_def empty_store_def keyed_def topup_ext_fields)
  from store_transaction_embeddings_text[OF this]
  have "\<exists>tags. mset tags = mset (tag_names topup_store 146) \<and>
      map_of (transaction_embeddings (store_transaction_embeddings topup_ext topup_store)) 146 =
        Some (tobytes topup_ext (encode topup_ext (rendered_text topup_ext topup_row tags)))" .
  moreover have "tag_names topup_store 146 = [''paypay'', ''foramazon'']"
    by (simp add: tag_names_def topup_store_def empty_store_def)
  moreover have "map_of (transaction_embeddings (store_transaction_embeddings topup_ext topup_store)) 146 =
       Some ''Topup PayPay source Yucho from Yucho destination PayPay to PayPay category Topup tags foramazon, paypay amount 768.0''"
    by (simp add: store_transaction_embeddings_def embedding_rows_def tag_rows_of_def
        group_concat_def row_text_def embedding_text_def text_truthy_def or_empty_def
        fmt_text_def topup_store_def topup_row_def empty_store_def topup_ext_fields
        topup_roundtrip)
  moreover have "rendered_text topup_ext topup_row [''foramazon'', ''paypay''] =
       ''Topup PayPay source Yucho from Yucho destination PayPay to PayPay category Topup tags foramazon, paypay amount 768.0''"
    by (simp add: rendered_text_def joined_def phrases_def topup_row_def topup_ext_fields)
  ultimately show ?thesis by simp
qed

lemma comprehension_filter:
  "[n. (i, n) \<leftarrow> xs, i = k] = map snd (filter (\<lambda>r. fst r = k) xs)"
  by (induction xs) auto

lemma tag_rows_of_filter:
  "tag_rows_of s tid = map snd (filter (\<lambda>r. fst r = tid) (transactions_tags s))"
  unfolding tag_rows_of_def by (rule comprehension_filter)

section \<open>Properties of the reads of the tag table\<close>

lemma distinct_present:
  "distinct xs \<Longrightarrow> distinct [t. Some t \<leftarrow> xs, t \<noteq> []]"
proof (induction xs)
  case Nil
  then show ?case by simp
next
  case (Cons x xs)
  have mem: "t \<in> set [t. Some t \<leftarrow> xs, t \<noteq> []] \<Longrightarrow> Some t \<in> set xs" for t
    by (auto split: option.splits if_splits)
  show ?case
    using Cons mem by (cases x) auto
qed

lemma distinct_load_tags: "distinct (load_tags s)"
  unfolding load_tags_def Let_def by (rule distinct_present) simp

lemma common_tags_exemplar:
  "common_tags (exemplar_context ext s ((tid, v) # rest)) = tag_rows_of s tid"
  unfolding exemplar_context_def Let_def by (simp split: option.splits)

lemma embedding_rows_tags:
  assumes "\<forall>names. mset (group_order ext names) = mset names"
      and "(tid, t, tags) \<in> set (embedding_rows ext s)"
  shows "\<exists>names. mset names = mset (tag_names s tid) \<and>
           tags = (if names = [] then None else Some (joined '', '' names))"
proof -
  let ?names = "group_order ext (tag_rows_of s tid)"
  have "tags = group_concat '', '' ?names"
    using assms(2) unfolding embedding_rows_def by auto
  then have "tags = (if [n. Some n \<leftarrow> ?names] = [] then None
                     else Some (joined '', '' [n. Some n \<leftarrow> ?names]))"
    unfolding group_concat_def Let_def join_joined .
  moreover have "mset [n. Some n \<leftarrow> ?names] = mset (tag_names s tid)"
    unfolding tag_names_rows using assms(1) by (intro mset_present) simp
  ultimately show ?thesis by blast
qed

text \<open>
  C9, as the code has it. Only the known-tags list read by \<^verbatim>\<open>load_tags\<close> is free of
  duplicates (\<^verbatim>\<open>SELECT DISTINCT\<close>). The exemplar's tag list holds one entry for every tag
  row of the transaction, in the order of the rows. The tags column of the backfill query
  is the comma-join of the names of all tag rows of the transaction, each as often as the
  table holds it, in the order in which the engine aggregates them: a name the table
  repeats is repeated in both.
\<close>

theorem tag_reads:
  assumes "\<forall>names. mset (group_order ext names) = mset names"
  shows "distinct (load_tags s)
   \<and> common_tags (exemplar_context ext s ((tid, v) # rest)) =
       map snd (filter (\<lambda>r. fst r = tid) (transactions_tags s))
   \<and> (\<forall>t tags. (tid, t, tags) \<in> set (embedding_rows ext s) \<longrightarrow>
         (\<exists>names. mset names = mset (tag_names s tid) \<and>
            tags = (if names = [] then None else Some (joined '', '' names))))"
  using distinct_load_tags[of s] common_tags_exemplar[of ext s tid v rest]
    tag_rows_of_filter[of s tid] embedding_rows_tags[OF assms, of tid _ _ s]
  by simp

theorem tag_reads_witness:
  "load_tags dup_store = [''food'', ''paypay'']
   \<and> common_tags (exemplar_context sample_ext dup_store [(146, 0)]) = [Some ''paypay'', Some ''paypay'']
   \<and> (\<exists>names. mset names = mset [''paypay'', ''paypay''] \<and>
         Some ''paypay, paypay'' = (if names = [] then None else Some (joined '', '' names)))"
proof -
  have perm: "\<forall>names. mset (group_order sample_ext names) = mset names"
    by (simp add: sample_ext_def)
  have row: "(146, topup_row, Some ''paypay, paypay'') \<in> set (embedding_rows sample_ext dup_store)"
    by (simp add: embedding_rows_def tag_rows_of_def group_concat_def dup_store_def
        topup_store_def empty_store_def sample_ext_def)
  have names: "tag_names dup_store 146 = [''paypay'', ''paypay'']"
    by (simp add: tag_names_def dup_store_def topup_store_def empty_store_def)
  from tag_reads[OF perm, of dup_store 146 0 "[]"] row
  have "distinct (load_tags dup_store)"
    and "common_tags (exemplar_context sample_ext dup_store [(146, 0)]) =
           map snd (filter (\<lambda>r. fst r = 146) (transactions_tags dup_store))"
    and "\<exists>names. mset names = mset (tag_names dup_store 146) \<and>
           Some ''paypay, paypay'' = (if names = [] then None else Some (joined '', '' names))"
    by blast+
  then show ?thesis
    unfolding names
    by (simp add: load_tags_def dup_store_def topup_store_def empty_store_def)
qed

text \<open>
  A tag row written twice for transaction 146 shows twice in the exemplar's tag list and
  twice in the text rendered for the embedding.
\<close>

theorem tag_reads_keep_duplicates:
  "transactions_tags dup_store = [(146, Some ''paypay''), (146, Some ''paypay''), (148, Some ''food'')]
   \<and> \<not> distinct (common_tags (exemplar_context sample_ext dup_store [(146, 0)]))
   \<and> embedding_rows sample_ext dup_store = [(146, topup_row, Some ''paypay, paypay'')]
   \<and> row_text sample_ext topup_row (Some ''paypay, paypay'') =
       ''Topup PayPay source Yucho from Yucho destination PayPay to PayPay category Topup tags paypay, paypay amount 768.0''"
  by (simp add: exemplar_context_def tag_rows_of_def embedding_rows_def group_concat_def
      row_text_def embedding_text_def text_truthy_def or_empty_def fmt_text_def
      dup_store_def topup_store_def topup_row_def empty_store_def sample_ext_def)

section \<open>Properties of the Context Builder\<close>

lemma str_nat_digits: "set (str_nat n) \<subseteq> set ''0123456789''"
proof (induction n rule: str_nat.induct)
  case (1 n)
  have d: "''0123456789'' ! k \<in> set ''0123456789''" if "k < 10" for k
    using that by (intro nth_mem) simp
  show ?case
  proof (cases "n < 10")
    case True
    then show ?thesis
      using d[of n] by (subst str_nat.simps) simp
  next
    case False
    then show ?thesis
      using 1 d[of "n mod 10"] by (subst str_nat.simps) simp
  qed
qed

lemma str_nat_nonempty: "str_nat n \<noteq> []"
  by (subst str_nat.simps) simp

lemma digit_inj: "i < 10 \<Longrightarrow> j < 10 \<Longrightarrow> ''0123456789'' ! i = ''0123456789'' ! j \<Longrightarrow> i = j"
proof -
  assume "i < 10" "j < 10" "''0123456789'' ! i = ''0123456789'' ! j"
  moreover have "distinct ''0123456789''" by simp
  ultimately show ?thesis
    by (simp add: nth_eq_iff_index_eq)
qed

lemma str_nat_inj: "str_nat m = str_nat n \<Longrightarrow> m = n"
proof (induction m arbitrary: n rule: str_nat.induct)
  case (1 m)
  show ?case
  proof (cases "m < 10")
    case True
    note m = True
    show ?thesis
    proof (cases "n < 10")
      case True
      then show ?thesis
        using m 1(2) digit_inj[of m n]
        by (subst (asm) str_nat.simps, subst (asm) (2) str_nat.simps) simp
    next
      case False
      then have "str_nat n = str_nat (n div 10) @ [''0123456789'' ! (n mod 10)]"
        by (subst str_nat.simps) simp
      moreover have "str_nat m = [''0123456789'' ! m]"
        using m by (subst str_nat.simps) simp
      ultimately show ?thesis
        using 1(2) str_nat_nonempty[of "n div 10"] by simp
    qed
  next
    case False
    note m = False
    have sm: "str_nat m = str_nat (m div 10) @ [''0123456789'' ! (m mod 10)]"
      using m by (subst str_nat.simps) simp
    show ?thesis
    proof (cases "n < 10")
      case True
      then have "str_nat n = [''0123456789'' ! n]"
        by (subst str_nat.simps) simp
      then show ?thesis
        using 1(2) sm str_nat_nonempty[of "m div 10"] by simp
    next
      case False
      then have sn: "str_nat n = str_nat (n div 10) @ [''0123456789'' ! (n mod 10)]"
        by (subst str_nat.simps) simp
      from 1(2) sm sn have a: "str_nat (m div 10) = str_nat (n div 10)"
        and b: "''0123456789'' ! (m mod 10) = ''0123456789'' ! (n mod 10)"
        by simp_all
      from 1(1)[OF m a] have "m div 10 = n div 10" .
      moreover from digit_inj[OF _ _ b] have "m mod 10 = n mod 10" by simp
      ultimately show ?thesis
        by (metis div_mult_mod_eq)
    qed
  qed
qed

lemma str_int_inj: "str_int i = str_int j \<Longrightarrow> i = j"
proof -
  assume e: "str_int i = str_int j"
  have nd: "str_nat n \<noteq> CHR ''-'' # xs" for n xs
    using str_nat_digits[of n] by auto
  show ?thesis
  proof (cases "i < 0"; cases "j < 0")
    assume "i < 0" "j < 0"
    with e have "nat (- i) = nat (- j)" by (auto simp: str_int_def dest: str_nat_inj)
    with \<open>i < 0\<close> \<open>j < 0\<close> show ?thesis by simp
  next
    assume "i < 0" "\<not> j < 0"
    with e have "str_nat (nat j) = CHR ''-'' # str_nat (nat (- i))"
      by (simp add: str_int_def)
    with nd show ?thesis by blast
  next
    assume "\<not> i < 0" "j < 0"
    with e have "str_nat (nat i) = CHR ''-'' # str_nat (nat (- j))"
      by (simp add: str_int_def)
    with nd show ?thesis by blast
  next
    assume "\<not> i < 0" "\<not> j < 0"
    with e have "nat i = nat j" by (auto simp: str_int_def dest: str_nat_inj)
    with \<open>\<not> i < 0\<close> \<open>\<not> j < 0\<close> show ?thesis by simp
  qed
qed

lemma dict_set_fresh: "k \<notin> fst ` set m \<Longrightarrow> dict_set k v m = m @ [(k, v)]"
  by (induction m) auto

lemma foldl_dict_set:
  "distinct (map fst acc @ map (\<lambda>r. f (fst r)) rows) \<Longrightarrow>
   foldl (\<lambda>m (i, n). dict_set (f i) n m) acc rows = acc @ map (\<lambda>r. (f (fst r), snd r)) rows"
proof (induction rows arbitrary: acc)
  case Nil
  then show ?case by simp
next
  case (Cons r rows)
  obtain i n where r: "r = (i, n)" by (cases r)
  have fresh: "f i \<notin> fst ` set acc" using Cons.prems r by auto
  have "distinct (map fst (acc @ [(f i, n)]) @ map (\<lambda>r. f (fst r)) rows)"
    using Cons.prems r by auto
  from Cons.IH[OF this] show ?case
    using r by (simp add: dict_set_fresh[OF fresh])
qed

lemma sort_key_distinct_keys:
  "distinct (map fst xs) \<Longrightarrow> distinct (map fst (sort_key g xs))"
proof -
  assume "distinct (map fst xs)"
  moreover have "mset (map fst (sort_key g xs)) = mset (map fst xs)"
    by simp
  ultimately show ?thesis
    by (metis distinct_count_atmost_1 set_mset_mset)
qed


lemma comprehension_keys': "map fst [(i, f t). (i, t) \<leftarrow> xs, P t] = map fst (filter (\<lambda>r. P (snd r)) xs)"
  by (induction xs) auto

lemma load_accounts_rows:
  assumes "keyed (accounts s)"
  shows "load_accounts s = map (\<lambda>r. (StrKey (str_int (fst r)), snd r)) (asset_accounts s)"
proof -
  have "distinct (map fst [(acc_id, a_name r). (acc_id, r) \<leftarrow> accounts s, a_type r = Some ''asset''])"
    using keyed_distinct[OF assms] by (simp add: comprehension_keys' distinct_map_filter)
  then have "distinct (map fst (asset_accounts s))"
    unfolding asset_accounts_def by (rule sort_key_distinct_keys)
  then have "distinct (map (\<lambda>r. StrKey (str_int (fst r))) (asset_accounts s))"
    by (simp add: distinct_map inj_on_def str_int_inj comp_def distinct_conv_nth) (metis str_int_inj nth_map length_map)
  then show ?thesis
    unfolding load_accounts_def Let_def asset_accounts_def[symmetric]
    using foldl_dict_set[of "[]" "\<lambda>i. StrKey (str_int i)" "asset_accounts s"] by simp
qed


lemma load_bills_rows:
  assumes "keyed (bills s)"
  shows "load_bills s = map (\<lambda>r. (IntKey (fst r), snd r)) (bill_names s)"
proof -
  have "map fst [(bill_id, b_name r). (bill_id, r) \<leftarrow> bills s] = map fst (bills s)"
    by (simp add: split_def comp_def)
  then have "distinct (map fst [(bill_id, b_name r). (bill_id, r) \<leftarrow> bills s])"
    using keyed_distinct[OF assms] by metis
  then have "distinct (map fst (bill_names s))"
    unfolding bill_names_def by (rule sort_key_distinct_keys)
  then have "distinct (map (\<lambda>r. IntKey (fst r)) (bill_names s))"
    by (simp add: distinct_conv_nth)
  then show ?thesis
    unfolding load_bills_def Let_def bill_names_def[symmetric]
    using foldl_dict_set[of "[]" IntKey "bill_names s"] by simp
qed

lemma foldl_append_lines: "foldl (\<lambda>sec x. sec @ f x) init xs = init @ concat (map f xs)"
  by (induction xs arbitrary: init) auto

text \<open>
  C6, as the code has it. The context is one text of four labelled sections, in this
  order: the accounts of type \<^verbatim>\<open>asset\<close> as name and id, the categories, the distinct tags,
  the bills as name and id; a section with no item holds its placeholder line. Accounts
  of another type are not listed.
\<close>

theorem build_prompt_context_sections:
  assumes "keyed (accounts s)" and "keyed (bills s)"
  shows "build_prompt_context s =
           render_section ''## KNOWN ACCOUNTS:'' ''  (No accounts found.)''
             [pair_line (StrKey (str_int i), n). (i, n) \<leftarrow> asset_accounts s]
           @ [CHR 0x0A] @
           render_section ''## KNOWN CATEGORIES:'' ''  (No categories found.)''
             (map item_line (load_categories s))
           @ [CHR 0x0A] @
           render_section ''## KNOWN TAGS:'' ''  (No tags found.)''
             (map item_line (load_tags s))
           @ [CHR 0x0A] @
           render_section ''## KNOWN BILLS:'' ''  (No bills found.)''
             [pair_line (IntKey i, n). (i, n) \<leftarrow> bill_names s]
         \<and> distinct (load_tags s)
         \<and> set (asset_accounts s) =
             {(i, a_name r) |i r. (i, r) \<in> set (accounts s) \<and> a_type r = Some ''asset''}"
proof -
  have acc: "[pair_line (StrKey (str_int i), n). (i, n) \<leftarrow> asset_accounts s] =
             map pair_line (load_accounts s)"
    unfolding load_accounts_rows[OF assms(1)] by (induction "asset_accounts s") (auto simp: split_def comp_def)
  have bil: "[pair_line (IntKey i, n). (i, n) \<leftarrow> bill_names s] = map pair_line (load_bills s)"
    unfolding load_bills_rows[OF assms(2)] by (induction "bill_names s") (auto simp: split_def comp_def)
  have ctx: "build_prompt_context s =
           render_section ''## KNOWN ACCOUNTS:'' ''  (No accounts found.)'' (map pair_line (load_accounts s))
           @ [CHR 0x0A] @
           render_section ''## KNOWN CATEGORIES:'' ''  (No categories found.)''
             (map item_line (load_categories s))
           @ [CHR 0x0A] @
           render_section ''## KNOWN TAGS:'' ''  (No tags found.)''
             (map item_line (load_tags s))
           @ [CHR 0x0A] @
           render_section ''## KNOWN BILLS:'' ''  (No bills found.)'' (map pair_line (load_bills s))"
    unfolding build_prompt_context_def render_section_def Let_def foldl_append_lines
    by simp
  have "set (asset_accounts s) =
             {(i, a_name r) |i r. (i, r) \<in> set (accounts s) \<and> a_type r = Some ''asset''}"
    unfolding asset_accounts_def by auto
  then show ?thesis
    using ctx distinct_load_tags unfolding acc bil by simp
qed

theorem build_prompt_context_sections_witness:
  "build_prompt_context expense_store =
           render_section ''## KNOWN ACCOUNTS:'' ''  (No accounts found.)''
             [pair_line (StrKey ''12'', Some ''wallet cash'')]
           @ [CHR 0x0A] @
           render_section ''## KNOWN CATEGORIES:'' ''  (No categories found.)'' []
           @ [CHR 0x0A] @
           render_section ''## KNOWN TAGS:'' ''  (No tags found.)'' []
           @ [CHR 0x0A] @
           render_section ''## KNOWN BILLS:'' ''  (No bills found.)'' []"
proof -
  have "keyed (accounts expense_store)" "keyed (bills expense_store)"
    by (simp_all add: keyed_def expense_store_def empty_store_def)
  from build_prompt_context_sections[OF this] show ?thesis
    by (simp add: asset_accounts_def bill_names_def load_categories_def load_tags_def
        expense_store_def empty_store_def str_int_def str_nat.simps)
qed

text \<open>The mirrored expense account 1 is absent from the context.\<close>

theorem build_prompt_context_omits_expense_account:
  "map fst (accounts expense_store) = [1, 12]
   \<and> load_accounts expense_store = [(StrKey ''12'', Some ''wallet cash'')]
   \<and> build_prompt_context expense_store =
       ''## KNOWN ACCOUNTS:'' @ [CHR 0x0A] @
       ''  - '' @ [CHR 0x22] @ ''wallet cash'' @ [CHR 0x22] @ '' '' @ arrow @ '' 12'' @ [CHR 0x0A] @
       [CHR 0x0A] @ ''## KNOWN CATEGORIES:'' @ [CHR 0x0A] @ ''  (No categories found.)'' @ [CHR 0x0A] @
       [CHR 0x0A] @ ''## KNOWN TAGS:'' @ [CHR 0x0A] @ ''  (No tags found.)'' @ [CHR 0x0A] @
       [CHR 0x0A] @ ''## KNOWN BILLS:'' @ [CHR 0x0A] @ ''  (No bills found.)'' @ [CHR 0x0A]
   \<and> \<not> contains ''Sukiya'' (build_prompt_context expense_store)"
  by (simp add: build_prompt_context_def load_accounts_def load_categories_def load_tags_def
      load_bills_def pair_line_def item_line_def fmt_text_def arrow_def
      expense_store_def empty_store_def str_int_def str_nat.simps)

section \<open>Properties of the Sync Engine\<close>

lemma ebind_Inl [simp]: "ebind (Inl e) f = Inl e"
  by (simp add: ebind_def)

lemma ebind_Inr [simp]: "ebind (Inr x) f = f x"
  by (simp add: ebind_def)

lemma efold_parse_all:
  "efold (\<lambda>x t. ebind (parse x) (\<lambda>op. Inr (app op t))) items tbl =
     ebind (parse_all parse items) (\<lambda>ops. Inr (fold app ops tbl))"
proof (induction items arbitrary: tbl)
  case Nil
  then show ?case by simp
next
  case (Cons x xs)
  show ?case
    by (cases "parse x"; cases "parse_all parse xs") (simp_all add: Cons)
qed

lemma page_step_planned:
  "page_step ext (\<lambda>x t. ebind (parse x) (\<lambda>op. Inr (app op t))) endpoint tbl =
     planned (\<lambda>page. page_plan ext parse endpoint) app page tbl"
  unfolding page_step_def planned_def page_plan_def efold_parse_all
  by (simp split: sum.splits option.splits)

lemma sync_loop_planned_aux:
  fixes step :: "nat \<Rightarrow> 't \<Rightarrow> 't page_step"
  assumes run: "sync_loop step page tbl = Some r"
  shows "replays plan app step page tbl r"
proof (rule sync_loop.raw_induct[where P = "replays plan app", OF _ run])
  fix loop :: "(nat \<Rightarrow> 't \<Rightarrow> 't page_step) \<Rightarrow> nat \<Rightarrow> 't \<Rightarrow> (py_error option \<times> 't) option"
  fix step page tbl r
  assume IH: "\<And>step page tbl r. loop step page tbl = Some r \<Longrightarrow> replays plan app step page tbl r"
  assume body: "(case step page tbl of Stop \<Rightarrow> Some (None, tbl)
      | Raise e \<Rightarrow> Some (Some e, tbl)
      | Commit tbl' \<Rightarrow> loop step (Suc page) tbl') = Some r"
  show "replays plan app step page tbl r"
    unfolding replays_def
  proof
    assume st: "step = planned plan app"
    show "\<exists>ops. snd r = fold app ops tbl \<and>
        (\<forall>tbl2. sync_loop step page tbl2 = Some (fst r, fold app ops tbl2))"
    proof (cases "plan page")
      case Stop
      then have "r = (None, tbl)" using body st by (simp add: planned_def)
      moreover have "sync_loop step page tbl2 = Some (None, tbl2)" for tbl2
        using Stop st by (subst sync_loop.simps) (simp add: planned_def)
      ultimately show ?thesis by (intro exI[of _ "[]"]) simp
    next
      case (Raise e)
      then have "r = (Some e, tbl)" using body st by (simp add: planned_def)
      moreover have "sync_loop step page tbl2 = Some (Some e, tbl2)" for tbl2
        using Raise st by (subst sync_loop.simps) (simp add: planned_def)
      ultimately show ?thesis by (intro exI[of _ "[]"]) simp
    next
      case (Commit ops)
      then have "loop step (Suc page) (fold app ops tbl) = Some r"
        using body st by (simp add: planned_def)
      from IH[OF this] st obtain ops' where r: "snd r = fold app ops' (fold app ops tbl)"
        and again: "\<And>tbl2. sync_loop step (Suc page) tbl2 = Some (fst r, fold app ops' tbl2)"
        unfolding replays_def by blast
      have "sync_loop step page tbl2 = Some (fst r, fold app (ops @ ops') tbl2)" for tbl2
        using Commit st again[of "fold app ops tbl2"]
        by (subst sync_loop.simps) (simp add: planned_def)
      then show ?thesis using r by (intro exI[of _ "ops @ ops'"]) simp
    qed
  qed
qed

lemma sync_loop_planned:
  assumes "sync_loop (planned plan app) page tbl = Some (e, tbl')"
  shows "\<exists>ops. tbl' = fold app ops tbl \<and>
        (\<forall>tbl2. sync_loop (planned plan app) page tbl2 = Some (e, fold app ops tbl2))"
  using sync_loop_planned_aux[OF assms, of plan app] unfolding replays_def by simp

lemma step_planned:
  "(\<lambda>page. page_step ext (\<lambda>x t. ebind (parse x) (\<lambda>op. Inr (app op t))) (ep page)) =
     planned (\<lambda>page. page_plan ext parse (ep page)) app"
  by (intro ext)
     (simp add: planned_def page_step_def page_plan_def efold_parse_all split: sum.splits option.splits)

lemma upsert_keys: "fst ` set (upsert k r tbl) = insert k (fst ` set tbl)"
  by (induction k r tbl rule: upsert.induct) auto

lemma map_add_twice: "(m ++ g) ++ g = m ++ g"
  by (rule ext) (simp add: map_add_def split: option.splits)

lemma keyed_upsert: "keyed tbl \<Longrightarrow> keyed (upsert k r tbl)"
proof (induction tbl)
  case Nil
  then show ?case by (simp add: keyed_def)
next
  case (Cons x tbl)
  from Cons.prems have k: "keyed tbl" and lt: "\<forall>y \<in> fst ` set tbl. fst x < y"
    by (auto simp: keyed_def)
  have "\<forall>y \<in> fst ` set (upsert k r tbl). fst x < y" if "fst x < k"
    using lt that by (simp add: upsert_keys)
  then show ?case
    using Cons.prems Cons.IH[OF k] by (cases x) (auto simp: keyed_def)
qed

lemma keyed_map_of_None: "keyed ((k, v) # tbl) \<Longrightarrow> j \<le> k \<Longrightarrow> map_of tbl j = None"
  by (force simp: keyed_def map_of_eq_None_iff)

lemma keyed_map_of_eq:
  "keyed xs \<Longrightarrow> keyed ys \<Longrightarrow> map_of xs = map_of ys \<Longrightarrow> xs = ys"
proof (induction xs arbitrary: ys)
  case Nil
  show ?case
  proof (cases ys)
    case Nil
    then show ?thesis by simp
  next
    case (Cons y ys')
    then have "map_of ys (fst y) = Some (snd y)" by simp
    moreover have "map_of ys (fst y) = None"
      using Nil.prems(3)[symmetric] by simp
    ultimately show ?thesis by simp
  qed
next
  case (Cons x xs)
  obtain k v where x: "x = (k, v)" by (cases x)
  have "map_of ys = map_of ((k, v) # xs)"
    using Cons.prems(3) unfolding x by (rule sym)
  then have "map_of ys k = map_of ((k, v) # xs) k"
    by (rule fun_cong)
  then have "map_of ys k = Some v" by simp
  then obtain k' v' ys' where ys: "ys = (k', v') # ys'" by (cases ys) auto
  have kx: "map_of xs j = None" if "j \<le> k" for j
    using keyed_map_of_None[of k v xs j] Cons.prems(1) that x by simp
  have ky: "map_of ys' j = None" if "j \<le> k'" for j
    using keyed_map_of_None[of k' v' ys' j] Cons.prems(2) that ys by simp
  have "map_of ((k, v) # xs) = map_of ((k', v') # ys')"
    using Cons.prems(3) unfolding x ys .
  then have eq: "map_of ((k, v) # xs) j = map_of ((k', v') # ys') j" for j
    by (rule fun_cong)
  have "k = k'"
  proof (rule ccontr)
    assume ne: "k \<noteq> k'"
    show False
    proof (cases "k < k'")
      case True
      with eq[of k] ky[of k] ne show False by simp
    next
      case False
      with ne have "k' < k" by simp
      with eq[of k'] kx[of k'] ne show False by simp
    qed
  qed
  moreover from eq[of k] \<open>k = k'\<close> have "v = v'" by simp
  moreover have "map_of xs = map_of ys'"
  proof
    fix j
    show "map_of xs j = map_of ys' j"
      using eq[of j] kx[of j] ky[of j] \<open>k = k'\<close> by (cases "j = k") simp_all
  qed
  moreover have "keyed xs" "keyed ys'"
    using Cons.prems(1,2) ys by (simp_all add: keyed_def)
  ultimately show ?case
    using Cons.IH[of ys'] x ys by simp
qed

lemma upserts_fold:
  assumes "upserts app"
  shows "\<exists>g. \<forall>tbl. keyed tbl \<longrightarrow> keyed (fold app ops tbl) \<and> map_of (fold app ops tbl) = map_of tbl ++ g"
proof (induction ops)
  case Nil
  show ?case by (intro exI[of _ Map.empty]) simp
next
  case (Cons op ops)
  from assms obtain g1 where g1: "\<And>tbl. keyed tbl \<Longrightarrow> keyed (app op tbl) \<and> map_of (app op tbl) = map_of tbl ++ g1"
    unfolding upserts_def by blast
  from Cons obtain g2 where g2: "\<And>tbl. keyed tbl \<Longrightarrow> keyed (fold app ops tbl) \<and> map_of (fold app ops tbl) = map_of tbl ++ g2"
    by blast
  show ?case
    using g1 g2 by (intro exI[of _ "g1 ++ g2"]) simp
qed

lemma upserts_idem:
  assumes "upserts app" and "keyed tbl"
  shows "keyed (fold app ops tbl)" and "fold app ops (fold app ops tbl) = fold app ops tbl"
proof -
  from upserts_fold[OF assms(1), of ops] obtain g
    where g: "\<And>tbl. keyed tbl \<Longrightarrow> keyed (fold app ops tbl) \<and> map_of (fold app ops tbl) = map_of tbl ++ g"
    by blast
  show k: "keyed (fold app ops tbl)" using g assms(2) by blast
  have "map_of (fold app ops (fold app ops tbl)) = map_of (fold app ops tbl)"
    using g[OF k] g[OF assms(2)] by (simp add: map_add_twice)
  with g[OF k] k show "fold app ops (fold app ops tbl) = fold app ops tbl"
    by (intro keyed_map_of_eq) simp_all
qed

lemma upserts_upsert: "upserts (\<lambda>r. upsert (fst r) (snd r))"
  unfolding upserts_def
proof
  fix op :: "int \<times> 'a"
  show "\<exists>g. \<forall>tbl. keyed tbl \<longrightarrow> keyed (upsert (fst op) (snd op) tbl) \<and>
          map_of (upsert (fst op) (snd op) tbl) = map_of tbl ++ g"
    by (intro exI[of _ "[fst op \<mapsto> snd op]"]) (simp add: keyed_upsert map_of_upsert)
qed

lemma upserts_option:
  "upserts (\<lambda>r tbl. case r of None \<Rightarrow> tbl | Some (k, row) \<Rightarrow> upsert k row tbl)"
  unfolding upserts_def
proof
  fix op :: "(int \<times> 'a) option"
  show "\<exists>g. \<forall>tbl. keyed tbl \<longrightarrow>
          keyed (case op of None \<Rightarrow> tbl | Some (k, row) \<Rightarrow> upsert k row tbl) \<and>
          map_of (case op of None \<Rightarrow> tbl | Some (k, row) \<Rightarrow> upsert k row tbl) = map_of tbl ++ g"
  proof (cases op)
    case None
    then show ?thesis by (intro exI[of _ Map.empty]) simp
  next
    case (Some kr)
    then show ?thesis
      by (intro exI[of _ "[fst kr \<mapsto> snd kr]"]) (simp add: keyed_upsert map_of_upsert split_def)
  qed
qed

lemma sync_loop_rerun:
  assumes "sync_loop (planned plan app) page tbl = Some (e, tbl')"
      and "upserts app" and "keyed tbl"
  shows "keyed tbl' \<and> sync_loop (planned plan app) page tbl' = Some (e, tbl')"
proof -
  from sync_loop_planned[OF assms(1)] obtain ops where t: "tbl' = fold app ops tbl"
    and again: "\<And>tbl2. sync_loop (planned plan app) page tbl2 = Some (e, fold app ops tbl2)"
    by blast
  show ?thesis
    using again[of tbl'] upserts_idem[OF assms(2,3), of ops] unfolding t by simp
qed

lemma upserts_keyed_row: "upserts (\<lambda>r. upsert (f r) (g r))"
  unfolding upserts_def
proof
  fix op
  show "\<exists>m. \<forall>tbl. keyed tbl \<longrightarrow> keyed (upsert (f op) (g op) tbl) \<and>
          map_of (upsert (f op) (g op) tbl) = map_of tbl ++ m"
    by (intro exI[of _ "[f op \<mapsto> g op]"]) (simp add: keyed_upsert map_of_upsert)
qed

lemma stage_rerun:
  assumes hfst: "\<And>r. fst (h r) = fst r"
      and "map_option h (sync_loop (\<lambda>page. page_step ext (\<lambda>x t. ebind (parse x) (\<lambda>op. Inr (app op t))) (ep page)) 1 tbl) = Some (e, s')"
      and "upserts app" and "keyed tbl"
  shows "\<exists>tbl'. keyed tbl' \<and> (e, s') = h (e, tbl') \<and>
           sync_loop (\<lambda>page. page_step ext (\<lambda>x t. ebind (parse x) (\<lambda>op. Inr (app op t))) (ep page)) 1 tbl' = Some (e, tbl')
           \<and> sync_loop (\<lambda>page. page_step ext (\<lambda>x t. ebind (parse x) (\<lambda>op. Inr (app op t))) (ep page)) 1 tbl = Some (e, tbl')"
proof -
  from assms(2) obtain r where r: "sync_loop (planned (\<lambda>page. page_plan ext parse (ep page)) app) 1 tbl = Some r"
    and h: "h r = (e, s')"
    unfolding step_planned by auto
  from hfst[of r] h have "fst r = e" by simp
  then have r': "sync_loop (planned (\<lambda>page. page_plan ext parse (ep page)) app) 1 tbl = Some (e, snd r)"
    using r by (cases r) simp
  from sync_loop_rerun[OF r' assms(3,4)] r' h \<open>fst r = e\<close> show ?thesis
    unfolding step_planned by (intro exI[of _ "snd r"]) (cases r, simp)
qed

lemma account_item_eq:
  "account_item ext = (\<lambda>x t. ebind (parse_account ext x)
     (\<lambda>op. Inr (case op of None \<Rightarrow> t | Some (k, row) \<Rightarrow> upsert k row t)))"
  by (intro ext) (simp add: account_item_def)

lemma category_item_eq:
  "category_item ext = (\<lambda>x t. ebind (parse_category ext x) (\<lambda>op. Inr (upsert (fst op) (snd op) t)))"
  by (intro ext) (simp add: category_item_def)

lemma bill_item_eq:
  "bill_item ext = (\<lambda>x t. ebind (parse_bill ext x) (\<lambda>op. Inr (upsert (fst op) (snd op) t)))"
  by (intro ext) (simp add: bill_item_def)

lemma sync_accounts_rerun:
  assumes "sync_accounts ext since s = Some (e, s')" and "keyed (accounts s)"
  shows "\<exists>tbl. keyed tbl \<and> s' = s\<lparr>accounts := tbl\<rparr> \<and>
           (\<forall>t. accounts t = tbl \<longrightarrow> sync_accounts ext since t = Some (e, t))"
proof -
  from stage_rerun[OF _ assms(1)[unfolded sync_accounts_def account_item_eq] upserts_option assms(2)]
  obtain tbl where "keyed tbl" "s' = s\<lparr>accounts := tbl\<rparr>"
    and "sync_loop (\<lambda>page. page_step ext (account_item ext)
             (''/accounts?type=asset,expense,revenue&'' @ page_query page since)) 1 tbl = Some (e, tbl)"
    unfolding account_item_eq by auto
  then show ?thesis
    by (intro exI[of _ tbl]) (auto simp: sync_accounts_def)
qed

lemma sync_categories_rerun:
  assumes "sync_categories ext since s = Some (e, s')" and "keyed (categories s)"
  shows "\<exists>tbl. keyed tbl \<and> s' = s\<lparr>categories := tbl\<rparr> \<and>
           (\<forall>t. categories t = tbl \<longrightarrow> sync_categories ext since t = Some (e, t))"
proof -
  from stage_rerun[OF _ assms(1)[unfolded sync_categories_def category_item_eq] upserts_keyed_row assms(2)]
  obtain tbl where "keyed tbl" "s' = s\<lparr>categories := tbl\<rparr>"
    and "sync_loop (\<lambda>page. page_step ext (category_item ext)
             (''/categories?'' @ page_query page since)) 1 tbl = Some (e, tbl)"
    unfolding category_item_eq by auto
  then show ?thesis
    by (intro exI[of _ tbl]) (auto simp: sync_categories_def)
qed

lemma sync_bills_rerun:
  assumes "sync_bills ext since s = Some (e, s')" and "keyed (bills s)"
  shows "\<exists>tbl. keyed tbl \<and> s' = s\<lparr>bills := tbl\<rparr> \<and>
           (\<forall>t. bills t = tbl \<longrightarrow> sync_bills ext since t = Some (e, t))"
proof -
  from stage_rerun[OF _ assms(1)[unfolded sync_bills_def bill_item_eq] upserts_keyed_row assms(2)]
  obtain tbl where "keyed tbl" "s' = s\<lparr>bills := tbl\<rparr>"
    and "sync_loop (\<lambda>page. page_step ext (bill_item ext)
             (''/bills?'' @ page_query page since)) 1 tbl = Some (e, tbl)"
    unfolding bill_item_eq by auto
  then show ?thesis
    by (intro exI[of _ tbl]) (auto simp: sync_bills_def)
qed

lemma transaction_item_eq:
  "transaction_item ext = (\<lambda>x t. ebind (parse_transaction ext x) (\<lambda>op. Inr (tx_app op t)))"
proof (intro ext)
  fix x t
  have "(\<lambda>r. case r of (trans_id, row, names) \<Rightarrow>
            Inr (upsert trans_id row (fst t), snd t @ map (Pair trans_id) names)) =
        (\<lambda>op. Inr (tx_app op t) :: py_error + _)"
    by (intro ext) (simp add: tx_app_def split: prod.splits)
  then show "transaction_item ext x t = ebind (parse_transaction ext x) (\<lambda>op. Inr (tx_app op t))"
    unfolding transaction_item_def by simp
qed

lemma fold_tx_app:
  "fold tx_app ops (txs, tags) =
     (fold (\<lambda>r. upsert (fst r) (fst (snd r))) ops txs, tags @ tag_rows_added ops)"
  by (induction ops arbitrary: txs tags) (auto simp: tx_app_def tag_rows_added_def)

lemma sync_transactions_rerun:
  assumes "sync_transactions ext since s = Some (e, s')" and "keyed (transactions s)"
  shows "\<exists>tbl added. keyed tbl \<and>
           s' = s\<lparr>transactions := tbl, transactions_tags := transactions_tags s @ added\<rparr> \<and>
           (\<forall>t. transactions t = tbl \<longrightarrow>
              sync_transactions ext since t =
                Some (e, t\<lparr>transactions_tags := transactions_tags t @ added\<rparr>))"
proof -
  let ?plan = "\<lambda>page. page_plan ext (parse_transaction ext) (''/transactions?'' @ page_query page since)"
  have step: "(\<lambda>page. page_step ext (transaction_item ext) (''/transactions?'' @ page_query page since)) =
              planned ?plan tx_app"
    unfolding transaction_item_eq by (rule step_planned)
  from assms(1) obtain r where r: "sync_loop (planned ?plan tx_app) 1 (transactions s, transactions_tags s) = Some r"
    and s': "e = fst r" "s' = s\<lparr>transactions := fst (snd r), transactions_tags := snd (snd r)\<rparr>"
    unfolding sync_transactions_def step by auto
  then have "sync_loop (planned ?plan tx_app) 1 (transactions s, transactions_tags s) = Some (e, snd r)"
    by simp
  from sync_loop_planned[OF this] obtain ops where res: "snd r = fold tx_app ops (transactions s, transactions_tags s)"
    and again: "\<And>tbl2. sync_loop (planned ?plan tx_app) 1 tbl2 = Some (e, fold tx_app ops tbl2)"
    by blast
  let ?up = "\<lambda>r :: int \<times> transaction_row \<times> string option list. upsert (fst r) (fst (snd r))"
  let ?tbl = "fold ?up ops (transactions s)"
  have idem: "keyed ?tbl" "fold ?up ops ?tbl = ?tbl"
    using upserts_idem[OF upserts_keyed_row assms(2), of "fst" "\<lambda>r. fst (snd r)" ops] by simp_all
  have "sync_transactions ext since t = Some (e, t\<lparr>transactions_tags := transactions_tags t @ tag_rows_added ops\<rparr>)"
    if "transactions t = ?tbl" for t
    unfolding sync_transactions_def step again fold_tx_app that idem(2)
    using that[symmetric] by simp
  moreover have "s' = s\<lparr>transactions := ?tbl, transactions_tags := transactions_tags s @ tag_rows_added ops\<rparr>"
    using s'(2) res by (simp add: fold_tx_app)
  ultimately show ?thesis
    using idem(1) by blast
qed

lemma emb_step_keys: "fst ` set (foldl (emb_step ext) tbl rows) = fst ` set tbl \<union> fst ` set rows"
  by (induction rows arbitrary: tbl) (auto simp: emb_step_def upsert_keys split_def)

lemma emb_step_keyed: "keyed tbl \<Longrightarrow> keyed (foldl (emb_step ext) tbl rows)"
  by (induction rows arbitrary: tbl) (auto simp: emb_step_def keyed_upsert split_def)

lemma embedding_rows_key_set:
  "fst ` set (embedding_rows ext s) = fst ` set (transactions s) - fst ` set (transaction_embeddings s)"
  unfolding embedding_rows_def by force

lemma embedding_rows_none:
  "fst ` set (transactions s) \<subseteq> fst ` set (transaction_embeddings s) \<Longrightarrow> embedding_rows ext s = []"
proof -
  assume sub: "fst ` set (transactions s) \<subseteq> fst ` set (transaction_embeddings s)"
  have "fst ` set (embedding_rows ext s) = {}"
    unfolding embedding_rows_key_set using sub by blast
  then show ?thesis by simp
qed

lemma store_transaction_embeddings_covers:
  "fst ` set (transactions s) \<subseteq> fst ` set (transaction_embeddings (store_transaction_embeddings ext s))"
  unfolding store_transaction_embeddings_fold by (auto simp: emb_step_keys embedding_rows_key_set)

lemma store_transaction_embeddings_noop:
  "fst ` set (transactions s) \<subseteq> fst ` set (transaction_embeddings s) \<Longrightarrow>
   store_transaction_embeddings ext s = s"
  unfolding store_transaction_embeddings_fold by (simp add: embedding_rows_none)

lemma store_transaction_embeddings_keyed:
  "keyed (transaction_embeddings s) \<Longrightarrow>
   keyed (transaction_embeddings (store_transaction_embeddings ext s))"
  unfolding store_transaction_embeddings_fold by (simp add: emb_step_keyed)

lemma main_unfold:
  "main ext s =
     (case sync_accounts ext (Some ''2025-01-01T00:00:00Z'') s of
        None \<Rightarrow> None
      | Some (Some e, s1) \<Rightarrow> Some (Some e, s1)
      | Some (None, s1) \<Rightarrow>
     (case sync_categories ext (Some ''2025-01-01T00:00:00Z'') s1 of
        None \<Rightarrow> None
      | Some (Some e, s2) \<Rightarrow> Some (Some e, s2)
      | Some (None, s2) \<Rightarrow>
     (case sync_bills ext (Some ''2025-01-01T00:00:00Z'') s2 of
        None \<Rightarrow> None
      | Some (Some e, s3) \<Rightarrow> Some (Some e, s3)
      | Some (None, s3) \<Rightarrow>
     (case sync_transactions ext (Some ''2025-01-01T00:00:00Z'') s3 of
        None \<Rightarrow> None
      | Some (Some e, s4) \<Rightarrow> Some (Some e, s4)
      | Some (None, s4) \<Rightarrow> Some (None, store_transaction_embeddings ext s4)))))"
  unfolding main_def Let_def ..

text \<open>
  C1, as the code has it. A second run over the same ledger, started from the store the
  first run left, ends as the first run did and leaves the accounts, the categories, the
  bills, the transactions and the embeddings exactly as they were, one row per id. The
  tag table is written with a plain \<^verbatim>\<open>INSERT\<close>: the second run appends to it the same
  rows the first run appended.
\<close>

theorem sync_twice:
  assumes wf: "wf_store s0" and run: "main ext s0 = Some (e1, s1)"
  shows "wf_store s1 \<and>
         (\<exists>added. transactions_tags s1 = transactions_tags s0 @ added \<and>
            main ext s1 = Some (e1, s1\<lparr>transactions_tags := transactions_tags s1 @ added\<rparr>))"
proof -
  let ?since = "Some ''2025-01-01T00:00:00Z''"
  from wf have k0: "keyed (accounts s0)" "keyed (categories s0)" "keyed (bills s0)"
    "keyed (transactions s0)" "keyed (transaction_embeddings s0)"
    by (simp_all add: wf_store_def)
  obtain ea sa where a: "sync_accounts ext ?since s0 = Some (ea, sa)"
    using run unfolding main_unfold by (cases "sync_accounts ext ?since s0") auto
  from sync_accounts_rerun[OF a k0(1)] obtain tblA
    where A: "keyed tblA" "sa = s0\<lparr>accounts := tblA\<rparr>"
      and A': "\<And>t. accounts t = tblA \<Longrightarrow> sync_accounts ext ?since t = Some (ea, t)"
    by blast
  show ?thesis
  proof (cases ea)
    case (Some e)
    then have r: "e1 = Some e" "s1 = sa"
      using run a unfolding main_unfold by simp_all
    have "main ext s1 = Some (e1, s1)"
      unfolding main_unfold using A'[of s1] A(2) r Some by simp
    then show ?thesis
      using k0 A r by (intro conjI exI[of _ "[]"]) (simp_all add: wf_store_def)
  next
    case None
    note ea = None
    obtain ec sc where c: "sync_categories ext ?since sa = Some (ec, sc)"
      using run a ea unfolding main_unfold by (cases "sync_categories ext ?since sa") auto
    have "keyed (categories sa)" using k0 A(2) by simp
    from sync_categories_rerun[OF c this] obtain tblC
      where C: "keyed tblC" "sc = sa\<lparr>categories := tblC\<rparr>"
        and C': "\<And>t. categories t = tblC \<Longrightarrow> sync_categories ext ?since t = Some (ec, t)"
      by blast
    show ?thesis
    proof (cases ec)
      case (Some e)
      then have r: "e1 = Some e" "s1 = sc"
        using run a c ea unfolding main_unfold by simp_all
      have "main ext s1 = Some (e1, s1)"
        unfolding main_unfold using A'[of s1] C'[of s1] A(2) C(2) r Some ea by simp
      then show ?thesis
        using k0 A C r by (intro conjI exI[of _ "[]"]) (simp_all add: wf_store_def)
    next
      case None
      note ec = None
      obtain eb sb where b: "sync_bills ext ?since sc = Some (eb, sb)"
        using run a c ea ec unfolding main_unfold by (cases "sync_bills ext ?since sc") auto
      have "keyed (bills sc)" using k0 A(2) C(2) by simp
      from sync_bills_rerun[OF b this] obtain tblB
        where B: "keyed tblB" "sb = sc\<lparr>bills := tblB\<rparr>"
          and B': "\<And>t. bills t = tblB \<Longrightarrow> sync_bills ext ?since t = Some (eb, t)"
        by blast
      show ?thesis
      proof (cases eb)
        case (Some e)
        then have r: "e1 = Some e" "s1 = sb"
          using run a c b ea ec unfolding main_unfold by simp_all
        have "main ext s1 = Some (e1, s1)"
          unfolding main_unfold
          using A'[of s1] C'[of s1] B'[of s1] A(2) C(2) B(2) r Some ea ec by simp
        then show ?thesis
          using k0 A C B r by (intro conjI exI[of _ "[]"]) (simp_all add: wf_store_def)
      next
        case None
        note eb = None
        obtain et st where t: "sync_transactions ext ?since sb = Some (et, st)"
          using run a c b ea ec eb unfolding main_unfold
          by (cases "sync_transactions ext ?since sb") auto
        have "keyed (transactions sb)" using k0 A(2) C(2) B(2) by simp
        from sync_transactions_rerun[OF t this] obtain tblT added
          where T: "keyed tblT"
            "st = sb\<lparr>transactions := tblT, transactions_tags := transactions_tags sb @ added\<rparr>"
            and T': "\<And>u. transactions u = tblT \<Longrightarrow> sync_transactions ext ?since u =
                       Some (et, u\<lparr>transactions_tags := transactions_tags u @ added\<rparr>)"
          by blast
        have tags: "transactions_tags st = transactions_tags s0 @ added"
          using A(2) C(2) B(2) T(2) by simp
        show ?thesis
        proof (cases et)
          case (Some e)
          then have r: "e1 = Some e" "s1 = st"
            using run a c b t ea ec eb unfolding main_unfold by simp_all
          have "main ext s1 =
                  Some (e1, s1\<lparr>transactions_tags := transactions_tags s1 @ added\<rparr>)"
            unfolding main_unfold
            using A'[of s1] C'[of s1] B'[of s1] T'[of s1] A(2) C(2) B(2) T(2) r Some ea ec eb
            by simp
          then show ?thesis
            using k0 A C B T tags r by (intro conjI exI[of _ added]) (simp_all add: wf_store_def)
        next
          case None
          note et = None
          have r: "e1 = None" "s1 = store_transaction_embeddings ext st"
            using run a c b t ea ec eb et unfolding main_unfold by simp_all
          let ?s2 = "s1\<lparr>transactions_tags := transactions_tags s1 @ added\<rparr>"
          have s1: "s1 = st\<lparr>transaction_embeddings := transaction_embeddings s1\<rparr>"
            unfolding r(2) store_transaction_embeddings_fold by simp
          have fields: "accounts s1 = tblA" "categories s1 = tblC" "bills s1 = tblB"
            "transactions s1 = tblT" "transactions_tags s1 = transactions_tags s0 @ added"
            using A(2) C(2) B(2) T(2) by (subst s1, simp)+
          have cover: "fst ` set (transactions ?s2) \<subseteq> fst ` set (transaction_embeddings ?s2)"
            using store_transaction_embeddings_covers[of st ext] T(2) fields(4)
            unfolding r(2)[symmetric] by simp
          have "main ext s1 = Some (e1, ?s2)"
            unfolding main_unfold
            using A'[of s1] C'[of s1] B'[of s1] T'[of s1] fields r(1) ea ec eb et
              store_transaction_embeddings_noop[OF cover, of ext]
            by simp
          moreover have "wf_store s1"
            using k0 A(1) C(1) B(1) T(1) fields
              store_transaction_embeddings_keyed[of st ext] A(2) C(2) B(2) T(2)
            unfolding r(2)[symmetric] by (simp add: wf_store_def)
          ultimately show ?thesis
            using fields(5) by (intro conjI exI[of _ added]) simp_all
        qed
      qed
    qed
  qed
qed

lemmas ledger_defs = ledger_ext_def sample_ext_def call_firefly_api_curl_def curl_command_def
  rstrip_chars_def lstrip_chars_def fetch_page_def page_query_def str_nat.simps

lemma ledger_empty_pages:
  "fetch_page ledger_ext (''/accounts?type=asset,expense,revenue&'' @ page_query 1 (Some ''2025-01-01T00:00:00Z'')) = Inr None"
  "fetch_page ledger_ext (''/categories?'' @ page_query 1 (Some ''2025-01-01T00:00:00Z'')) = Inr None"
  "fetch_page ledger_ext (''/bills?'' @ page_query 1 (Some ''2025-01-01T00:00:00Z'')) = Inr None"
  "fetch_page ledger_ext (''/transactions?'' @ page_query (Suc 1) (Some ''2025-01-01T00:00:00Z'')) = Inr None"
  by (simp_all add: ledger_defs)

lemma ledger_page:
  "fetch_page ledger_ext (''/transactions?'' @ page_query 1 (Some ''2025-01-01T00:00:00Z'')) =
     Inr (Some [ledger_item])"
  by (simp add: ledger_defs)

lemma ledger_parse:
  "parse_transaction ledger_ext ledger_item = Inr (146, topup_row, [Some ''paypay''])"
  by (simp add: parse_transaction_def ledger_item_def ledger_ext_def sample_ext_def dict_get_def
      int_or_none_def bind_int_def bind_int_opt_def topup_row_def)

lemma ledger_accounts: "sync_accounts ledger_ext (Some ''2025-01-01T00:00:00Z'') s = Some (None, s)"
  unfolding sync_accounts_def
  apply (subst sync_loop.simps)
  apply (simp only: page_step_def ledger_empty_pages sum.case option.case page_step.case)
  apply simp
  done

lemma ledger_categories: "sync_categories ledger_ext (Some ''2025-01-01T00:00:00Z'') s = Some (None, s)"
  unfolding sync_categories_def
  apply (subst sync_loop.simps)
  apply (simp only: page_step_def ledger_empty_pages sum.case option.case page_step.case)
  apply simp
  done

lemma ledger_bills: "sync_bills ledger_ext (Some ''2025-01-01T00:00:00Z'') s = Some (None, s)"
  unfolding sync_bills_def
  apply (subst sync_loop.simps)
  apply (simp only: page_step_def ledger_empty_pages sum.case option.case page_step.case)
  apply simp
  done

lemma ledger_transactions:
  "sync_transactions ledger_ext (Some ''2025-01-01T00:00:00Z'') s =
     Some (None, s\<lparr>transactions := upsert 146 topup_row (transactions s),
                    transactions_tags := transactions_tags s @ [(146, Some ''paypay'')]\<rparr>)"
  unfolding sync_transactions_def
  apply (subst sync_loop.simps)
  apply (simp only: page_step_def ledger_page ledger_empty_pages sum.case option.case
      page_step.case efold.simps transaction_item_def ledger_parse ebind_Inr prod.case
      fst_conv snd_conv)
  apply (subst sync_loop.simps)
  apply (simp only: page_step_def ledger_page ledger_empty_pages sum.case option.case
      page_step.case)
  apply simp
  done

lemma ledger_run:
  "main ledger_ext s =
     Some (None, store_transaction_embeddings ledger_ext
        (s\<lparr>transactions := upsert 146 topup_row (transactions s),
           transactions_tags := transactions_tags s @ [(146, Some ''paypay'')]\<rparr>))"
  unfolding main_unfold
  by (simp add: ledger_accounts ledger_categories ledger_bills ledger_transactions)

lemma ledger_first: "main ledger_ext empty_store = Some (None, synced_once)"
  unfolding ledger_run
  by (simp add: store_transaction_embeddings_def embedding_rows_def synced_once_def
      empty_store_def ledger_ext_def sample_ext_def eval_nat_numeral)

lemma ledger_second: "main ledger_ext synced_once = Some (None, synced_twice)"
  unfolding ledger_run
  by (simp add: store_transaction_embeddings_def embedding_rows_def synced_once_def
      synced_twice_def empty_store_def)

theorem sync_twice_witness:
  "wf_store empty_store
   \<and> main ledger_ext empty_store = Some (None, synced_once)
   \<and> wf_store synced_once
   \<and> (\<exists>added. transactions_tags synced_once = transactions_tags empty_store @ added \<and>
         main ledger_ext synced_once =
           Some (None, synced_once\<lparr>transactions_tags := transactions_tags synced_once @ added\<rparr>))"
proof -
  have wf: "wf_store empty_store"
    by (simp add: wf_store_def empty_store_def keyed_def)
  from sync_twice[OF wf ledger_first] wf ledger_first show ?thesis
    by simp
qed

text \<open>
  The ledger serves one transaction with one tag: the tag table holds one row after the
  first run and two after the second.
\<close>

theorem sync_twice_appends_tags:
  "main ledger_ext empty_store = Some (None, synced_once)
   \<and> main ledger_ext synced_once = Some (None, synced_twice)
   \<and> transactions_tags synced_once = [(146, Some ''paypay'')]
   \<and> transactions_tags synced_twice = [(146, Some ''paypay''), (146, Some ''paypay'')]
   \<and> length (transactions_tags synced_once) < length (transactions_tags synced_twice)
   \<and> transactions synced_twice = transactions synced_once
   \<and> transaction_embeddings synced_twice = transaction_embeddings synced_once"
  using ledger_first ledger_second by (simp add: synced_once_def synced_twice_def)

section \<open>Properties of the Transaction Submitter\<close>

lemma post_transaction_object:
  assumes t: "transaction_of ext proposal = Inr t"
      and r: "call_firefly_api_curl ext ''/transactions'' ''POST'' (Some (Transactions t)) = Some (JObj d)"
  shows "(d = [] \<longrightarrow> fst (post_transaction ext proposal) = Inr PostedFalse)"
    and "(''errors'' \<in> fst ` set d \<longrightarrow> fst (post_transaction ext proposal) = Inr (Rejected (JObj d)))"
    and "(d \<noteq> [] \<longrightarrow> ''errors'' \<notin> fst ` set d \<longrightarrow> ''data'' \<notin> fst ` set d \<longrightarrow>
           fst (post_transaction ext proposal) = Inr PostedTrue)"
proof -
  have none: "map_of d ''data'' = None" if "''data'' \<notin> fst ` set d"
    using that by (simp add: map_of_eq_None_iff)
  show "(d = [] \<longrightarrow> fst (post_transaction ext proposal) = Inr PostedFalse)"
    unfolding post_transaction_def Let_def t using r by simp
  show "(''errors'' \<in> fst ` set d \<longrightarrow> fst (post_transaction ext proposal) = Inr (Rejected (JObj d)))"
    unfolding post_transaction_def Let_def t using r by (auto simp: ebind_def)
  show "(d \<noteq> [] \<longrightarrow> ''errors'' \<notin> fst ` set d \<longrightarrow> ''data'' \<notin> fst ` set d \<longrightarrow>
           fst (post_transaction ext proposal) = Inr PostedTrue)"
    unfolding post_transaction_def Let_def t using r none
    by (auto simp: ebind_def dict_get_def)
qed

text \<open>
  C5, as the code has it. \<^verbatim>\<open>post_transaction\<close> sends at most one request. No response and
  an empty response give \<^verbatim>\<open>False\<close>; a response object with an \<^verbatim>\<open>errors\<close> key is returned
  as it is; a response object that is not empty and has neither an \<^verbatim>\<open>errors\<close> nor a
  \<^verbatim>\<open>data\<close> key gives \<^verbatim>\<open>True\<close>, the value of a success.
\<close>

theorem post_transaction_classification:
  "length (snd (post_transaction ext proposal)) \<le> 1 \<and>
   (\<forall>t. transaction_of ext proposal = Inr t \<longrightarrow>
      snd (post_transaction ext proposal) =
        [curl_command ext ''/transactions'' ''POST'' (Some (Transactions t))] \<and>
      (call_firefly_api_curl ext ''/transactions'' ''POST'' (Some (Transactions t)) = None \<longrightarrow>
         fst (post_transaction ext proposal) = Inr PostedFalse) \<and>
      (\<forall>d. call_firefly_api_curl ext ''/transactions'' ''POST'' (Some (Transactions t)) = Some (JObj d) \<longrightarrow>
         (d = [] \<longrightarrow> fst (post_transaction ext proposal) = Inr PostedFalse) \<and>
         (''errors'' \<in> fst ` set d \<longrightarrow>
            fst (post_transaction ext proposal) = Inr (Rejected (JObj d))) \<and>
         (d \<noteq> [] \<longrightarrow> ''errors'' \<notin> fst ` set d \<longrightarrow> ''data'' \<notin> fst ` set d \<longrightarrow>
            fst (post_transaction ext proposal) = Inr PostedTrue)))"
proof -
  have len: "length (snd (post_transaction ext proposal)) \<le> 1"
    unfolding post_transaction_def Let_def by (simp split: sum.splits option.splits)
  have sent: "snd (post_transaction ext proposal) =
        [curl_command ext ''/transactions'' ''POST'' (Some (Transactions t))]"
    if "transaction_of ext proposal = Inr t" for t
    unfolding post_transaction_def Let_def that by (simp split: option.splits)
  have none: "fst (post_transaction ext proposal) = Inr PostedFalse"
    if "transaction_of ext proposal = Inr t"
       "call_firefly_api_curl ext ''/transactions'' ''POST'' (Some (Transactions t)) = None" for t
    unfolding post_transaction_def Let_def that(1) using that(2) by simp
  show ?thesis
    using len sent none post_transaction_object by blast
qed

text \<open>
  The ledger rejects the token: the response has neither key, \<^verbatim>\<open>post_transaction\<close>
  returns \<^verbatim>\<open>True\<close> and \<^verbatim>\<open>final_prompt.process\<close> returns \<^verbatim>\<open>False\<close> on the same response.
\<close>

theorem post_transaction_success_without_data:
  "call_firefly_api_curl unauthenticated_ext ''/transactions'' ''POST'' None =
     Some (JObj [(''message'', JStr ''Unauthenticated.'')])
   \<and> fst (post_transaction unauthenticated_ext dated_proposal) = Inr PostedTrue
   \<and> length (snd (post_transaction unauthenticated_ext dated_proposal)) = 1
   \<and> process unauthenticated_ext final_proposal = Inr (JBool False)"
proof -
  have resp: "call_firefly_api_curl unauthenticated_ext ''/transactions'' ''POST'' q =
     Some (JObj [(''message'', JStr ''Unauthenticated.'')])" for q
    by (simp add: call_firefly_api_curl_def unauthenticated_ext_def sample_ext_def)
  obtain t where t: "transaction_of unauthenticated_ext dated_proposal = Inr t"
    by (simp add: transaction_of_def optional_id_def dated_proposal_def ebind_def)
  from post_transaction_classification[of unauthenticated_ext dated_proposal] t resp
  have "snd (post_transaction unauthenticated_ext dated_proposal) =
          [curl_command unauthenticated_ext ''/transactions'' ''POST'' (Some (Transactions t))]"
    and "fst (post_transaction unauthenticated_ext dated_proposal) = Inr PostedTrue"
    by auto
  moreover have "process unauthenticated_ext final_proposal = Inr (JBool False)"
    by (simp add: process_def final_proposal_def call_firefly_api_curl_final_def
        unauthenticated_ext_def sample_ext_def ebind_def dict_get_def)
  ultimately show ?thesis using resp[of None] by simp
qed

end
